theory Spec2Isabelle
  imports Main "HOL-Library.Sublist" "HOL-Library.AList"
begin

section \<open>JavaScript values and errors\<close>

text \<open>
  A thrown JavaScript error object: its \<open>name\<close> and its \<open>message\<close>. Every error the
  program meets is an \<open>Error\<close> instance (thrown by the SDK, by the runtime or by the
  constructor of the service), so \<open>error.message\<close> is always a string.
\<close>

datatype jserror = JsError (err_name: string) (message: string)

text \<open>
  The values a caller can pass as NFT metadata, as far as the program tells them apart:
  a string, an array, and any other value, which is given by what \<open>JSON.stringify\<close>
  does with it. \<open>JJson t\<close> is a value for which it returns the text \<open>t\<close> (\<open>null\<close>, a
  boolean, a number, an object); \<open>JUndefined\<close> is a value for which it returns
  \<open>undefined\<close> (\<open>undefined\<close> itself, a function, a symbol); \<open>JUnserializable msg\<close> is
  a value on which it throws a \<open>TypeError\<close> with the message \<open>msg\<close> (a BigInt, a
  cyclic object).
\<close>

datatype jsval =
    JUndefined
  | JStr string
  | JArr "jsval list"
  | JJson string
  | JUnserializable string

text \<open>\<open>Array.isArray(v)\<close> and \<open>typeof v === 'string'\<close>.\<close>

fun Array_isArray :: "jsval \<Rightarrow> bool" where
  "Array_isArray (JArr xs) = True"
| "Array_isArray v = False"

fun typeof_string :: "jsval \<Rightarrow> bool" where
  "typeof_string (JStr s) = True"
| "typeof_string v = False"

text \<open>\<open>String.prototype.includes\<close>: the argument occurs as a contiguous substring.\<close>

fun String_includes :: "string \<Rightarrow> string \<Rightarrow> bool" where
  "String_includes [] sub = (sub = [])"
| "String_includes (c # cs) sub = (prefix sub (c # cs) \<or> String_includes cs sub)"

subsection \<open>\<open>JSON.stringify\<close> and \<open>Buffer.from\<close>\<close>

definition digit :: "nat \<Rightarrow> char" where
  "digit n = ''0123456789abcdef'' ! (n mod 16)"

text \<open>
  \<open>QuoteJSONString\<close>: the double quote (0x22) and the backslash (0x5C) are escaped, the
  control characters below 0x20 get their short escape or \<open>\u00XX\<close>.
\<close>

definition escape_char :: "char \<Rightarrow> string" where
  "escape_char c =
     (if c = CHR 0x22 then [CHR 0x5C, CHR 0x22]
      else if c = CHR 0x5C then [CHR 0x5C, CHR 0x5C]
      else if c = CHR 0x08 then [CHR 0x5C, CHR ''b'']
      else if c = CHR 0x0C then [CHR 0x5C, CHR ''f'']
      else if c = CHR 0x0A then [CHR 0x5C, CHR ''n'']
      else if c = CHR 0x0D then [CHR 0x5C, CHR ''r'']
      else if c = CHR 0x09 then [CHR 0x5C, CHR ''t'']
      else if (of_char c :: nat) < 32
        then [CHR 0x5C, CHR ''u'', CHR ''0'', CHR ''0'',
              digit (of_char c div 16), digit (of_char c mod 16)]
      else [c])"

definition quote :: "string \<Rightarrow> string" where
  "quote s = CHR 0x22 # concat (map escape_char s) @ [CHR 0x22]"

fun join_commas :: "string list \<Rightarrow> string" where
  "join_commas [] = []"
| "join_commas [x] = x"
| "join_commas (x # y # ys) = x @ '','' @ join_commas (y # ys)"

text \<open>
  \<open>JSON.stringify(v)\<close>: \<open>Inr None\<close> is the result \<open>undefined\<close>, \<open>Inl\<close> a thrown
  \<open>TypeError\<close>. Inside an array an element without a text is written \<open>null\<close>, and an
  element that cannot be serialised makes the whole call throw.
\<close>

fun JSON_stringify :: "jsval \<Rightarrow> jserror + string option"
  and stringify_elements :: "jsval list \<Rightarrow> jserror + string list" where
  "JSON_stringify JUndefined = Inr None"
| "JSON_stringify (JStr s) = Inr (Some (quote s))"
| "JSON_stringify (JJson t) = Inr (Some t)"
| "JSON_stringify (JUnserializable msg) = Inl (JsError ''TypeError'' msg)"
| "JSON_stringify (JArr xs) =
     (case stringify_elements xs of
        Inl e \<Rightarrow> Inl e
      | Inr ts \<Rightarrow> Inr (Some (''['' @ join_commas ts @ '']'')))"
| "stringify_elements [] = Inr []"
| "stringify_elements (x # xs) =
     (case JSON_stringify x of
        Inl e \<Rightarrow> Inl e
      | Inr t \<Rightarrow>
          (case stringify_elements xs of
             Inl e \<Rightarrow> Inl e
           | Inr ts \<Rightarrow> Inr ((case t of None \<Rightarrow> ''null'' | Some u \<Rightarrow> u) # ts)))"

text \<open>
  A \<open>Buffer\<close> is the byte string of its content. \<open>Buffer.from(undefined)\<close> throws a
  \<open>TypeError\<close>.
\<close>

datatype buffer = Buffer string

definition Buffer_from :: "string option \<Rightarrow> jserror + buffer" where
  "Buffer_from x =
     (case x of
        None \<Rightarrow> Inl (JsError ''TypeError''
          ''The first argument must be of type string or an instance of Buffer, ArrayBuffer, or Array or an Array-like Object. Received undefined'')
      | Some s \<Rightarrow> Inr (Buffer s))"

section \<open>The SDK seen from the service\<close>

text \<open>
  Identifier and value objects of the SDK that the program only passes on or prints
  are represented by the string their \<open>toString()\<close> yields.
\<close>

datatype account_id = AccountId (accountId_toString: string)
datatype token_id = TokenId (tokenId_toString: string)
datatype status = Status (status_toString: string)
datatype hbar = Hbar (hbar_toString: string)
datatype long = Long (long_toString: string)
datatype token_type = TokenType (tokenType_toString: string)
datatype supply_type = TokenSupplyType string
datatype timestamp = Timestamp string

datatype public_key = PublicKey nat
datatype private_key = PrivateKey (key_secret: nat) (key_publicKey: public_key)

datatype client = Client nat
datatype transaction = Transaction nat
datatype tx_response = TransactionResponse nat

record receipt =
  rc_accountId :: "account_id option"
  rc_tokenId :: "token_id option"
  rc_status :: "status option"
  rc_serials :: "long list option"

record token_info =
  ti_tokenId :: "token_id option"
  ti_name :: string
  ti_symbol :: string
  ti_tokenType :: "token_type option"
  ti_decimals :: int
  ti_totalSupply :: "long option"
  ti_maxSupply :: "long option"
  ti_supplyType :: "supply_type option"
  ti_treasuryAccountId :: "account_id option"
  ti_supplyKey :: "public_key option"
  ti_creationTime :: "timestamp option"

record account_balance =
  ab_hbars :: "hbar option"
  ab_tokens :: "(token_id \<times> long) list option"

text \<open>The request a \<open>TokenCreateTransaction\<close> builder chain assembles.\<close>

record token_create_request =
  tcr_tokenName :: string
  tcr_tokenSymbol :: string
  tcr_tokenType :: string
  tcr_decimals :: int
  tcr_initialSupply :: int
  tcr_treasuryAccountId :: "account_id option"
  tcr_supplyType :: string
  tcr_maxSupply :: int
  tcr_supplyKey :: private_key

text \<open>
  One constructor per SDK call of the program. A builder chain counts as one call, made
  where the chain ends (\<open>execute\<close> or \<open>freezeWith\<close>), and carries the values the
  setters were given.
\<close>

datatype sdk_call =
    Client_forTestnet
  | Client_setOperator client "string option" "string option"
  | Client_setDefaultMaxTransactionFee client int
  | Client_setDefaultMaxQueryPayment client int
  | Client_close client
  | PrivateKey_generateED25519
  | AccountCreateTransaction_execute public_key int client
  | TransactionResponse_getReceipt tx_response client
  | TokenCreateTransaction_freezeWith token_create_request client
  | Transaction_sign transaction private_key
  | Transaction_execute transaction client
  | TokenInfoQuery_execute "token_id option" client
  | TokenMintTransaction_freezeWith "token_id option" "buffer list" client
  | TokenAssociateTransaction_freezeWith "account_id option" "token_id option list" client
  | AccountBalanceQuery_execute "account_id option" client
  | TransferTransaction_freezeWith "token_id option" "long option"
      "account_id option" "account_id option" client

datatype sdk_value =
    VUnit
  | VClient client
  | VPrivateKey private_key
  | VTransaction transaction
  | VResponse tx_response
  | VReceipt receipt
  | VTokenInfo token_info
  | VBalance account_balance

datatype outcome = Returned sdk_value | Threw jserror

type_synonym event = "sdk_call \<times> outcome"

text \<open>
  The SDK and the ledger behind it are not part of the program: they are a parameter.
  Each field answers the calls that return one type of value, from the history of all
  calls made so far and the call itself; \<open>Inl\<close> is a thrown error. \<open>date_now\<close> is
  the local clock read by \<open>new Date().toISOString()\<close>.
\<close>

record sdk =
  returns_unit :: "event list \<Rightarrow> sdk_call \<Rightarrow> jserror + unit"
  returns_client :: "event list \<Rightarrow> sdk_call \<Rightarrow> jserror + client"
  returns_key :: "event list \<Rightarrow> sdk_call \<Rightarrow> jserror + private_key"
  returns_transaction :: "event list \<Rightarrow> sdk_call \<Rightarrow> jserror + transaction"
  returns_response :: "event list \<Rightarrow> sdk_call \<Rightarrow> jserror + tx_response"
  returns_receipt :: "event list \<Rightarrow> sdk_call \<Rightarrow> jserror + receipt"
  returns_token_info :: "event list \<Rightarrow> sdk_call \<Rightarrow> jserror + token_info"
  returns_balance :: "event list \<Rightarrow> sdk_call \<Rightarrow> jserror + account_balance"
  date_now :: "event list \<Rightarrow> string"

section \<open>State of the program\<close>

text \<open>
  The account record \<open>createAccount\<close> returns. Account records are JavaScript objects
  passed by reference, so they live in a store and the methods take addresses.
\<close>

record account =
  accountId :: "account_id option"
  privateKey :: private_key
  publicKey :: public_key
  status :: "status option"
  balance :: int

type_synonym account_ref = nat

text \<open>
  The fields of the \<open>HederaNftService\<close> instance, the log of the SDK calls made so
  far with their outcomes, and the store of account records. Console output is not
  modelled: no value or control flow depends on it, except where printing evaluates an
  expression that can throw, which is kept as a step of its own.
\<close>

record state =
  operatorId :: "string option"
  operatorKey :: "string option"
  client :: "client option"
  trace :: "event list"
  heap :: "account list"

type_synonym 'a io = "state \<Rightarrow> (jserror + 'a) \<times> state"

definition return :: "'a \<Rightarrow> 'a io" where
  "return x s = (Inr x, s)"

definition throw :: "jserror \<Rightarrow> 'a io" where
  "throw e s = (Inl e, s)"

definition and_then :: "'a io \<Rightarrow> ('a \<Rightarrow> 'b io) \<Rightarrow> 'b io" where
  "and_then m f s = (case m s of (Inl e, s') \<Rightarrow> (Inl e, s') | (Inr x, s') \<Rightarrow> f x s')"

definition try_catch :: "'a io \<Rightarrow> (jserror \<Rightarrow> 'a io) \<Rightarrow> 'a io" where
  "try_catch m h s = (case m s of (Inl e, s') \<Rightarrow> h e s' | (Inr x, s') \<Rightarrow> (Inr x, s'))"

text \<open>
  \<open>try { m } finally { f }\<close>: \<open>f\<close> runs whatever \<open>m\<close> did; an error thrown by \<open>f\<close>
  replaces the completion of \<open>m\<close>.
\<close>

definition try_finally :: "'a io \<Rightarrow> unit io \<Rightarrow> 'a io" where
  "try_finally m f s =
     (case m s of (r, s') \<Rightarrow>
        (case f s' of (Inl e, s'') \<Rightarrow> (Inl e, s'') | (Inr u, s'') \<Rightarrow> (r, s'')))"

definition lift :: "jserror + 'a \<Rightarrow> 'a io" where
  "lift r s = (r, s)"

text \<open>An SDK call: the oracle answers from the history, the call and its outcome are logged.\<close>

definition invoke ::
  "(event list \<Rightarrow> sdk_call \<Rightarrow> jserror + 'a) \<Rightarrow> ('a \<Rightarrow> sdk_value) \<Rightarrow> sdk_call \<Rightarrow> 'a io" where
  "invoke oracle wrap c s =
     (case oracle (trace s) c of
        Inl e \<Rightarrow> (Inl e, s\<lparr>trace := trace s @ [(c, Threw e)]\<rparr>)
      | Inr v \<Rightarrow> (Inr v, s\<lparr>trace := trace s @ [(c, Returned (wrap v))]\<rparr>))"

definition new_Date_toISOString :: "sdk \<Rightarrow> string io" where
  "new_Date_toISOString w s = (Inr (date_now w (trace s)), s)"

text \<open>
  A call of an \<open>async\<close> method of the SDK whose Promise the program does not await:
  the SDK answers it as it answers any call and the answer is logged, but the program
  goes on without it and never sees a rejection.
\<close>

definition invoke_unawaited ::
  "(event list \<Rightarrow> sdk_call \<Rightarrow> jserror + 'a) \<Rightarrow> ('a \<Rightarrow> sdk_value) \<Rightarrow> sdk_call \<Rightarrow> unit io" where
  "invoke_unawaited oracle wrap c s =
     (Inr (),
      s\<lparr>trace := trace s @
           [(c, case oracle (trace s) c of Inl e \<Rightarrow> Threw e | Inr v \<Rightarrow> Returned (wrap v))]\<rparr>)"

text \<open>Calling a property that the object does not have: \<open>x.f(...)\<close> with \<open>x.f\<close> undefined.\<close>

definition not_a_function :: "string \<Rightarrow> 'a io" where
  "not_a_function callee = throw (JsError ''TypeError'' (callee @ '' is not a function''))"

text \<open>
  Allocating an object literal and reading a property of an account object. An address
  outside the store stands for an argument that is not an object: reading a property
  of \<open>undefined\<close> throws a \<open>TypeError\<close>.
\<close>

definition new_object :: "account \<Rightarrow> account_ref io" where
  "new_object a s = (Inr (length (heap s)), s\<lparr>heap := heap s @ [a]\<rparr>)"

definition read_account :: "account_ref \<Rightarrow> account io" where
  "read_account r s =
     (if r < length (heap s) then (Inr (heap s ! r), s)
      else (Inl (JsError ''TypeError'' ''Cannot read properties of undefined''), s))"

section \<open>HederaNftService\<close>

type_synonym process_env = "string \<Rightarrow> string option"

text \<open>\<open>!x\<close> for an environment variable: unset or the empty string.\<close>

definition falsy :: "string option \<Rightarrow> bool" where
  "falsy x = (case x of None \<Rightarrow> True | Some v \<Rightarrow> v = [])"

definition constructor :: "process_env \<Rightarrow> unit io" where
  "constructor env s =
     (let s1 = s\<lparr>operatorId := env ''OPERATOR_ID''\<rparr>;
          s2 = s1\<lparr>operatorKey := env ''OPERATOR_KEY''\<rparr>;
          s3 = s2\<lparr>client := None\<rparr>
      in if falsy (operatorKey s3) \<or> falsy (operatorId s3)
         then (Inl (JsError ''Error''
                 ''Please set OPERATOR_ID and OPERATOR_KEY in your .env file''), s3)
         else (Inr (), s3))"

definition set_client :: "client option \<Rightarrow> unit io" where
  "set_client c s = (Inr (), s\<lparr>client := c\<rparr>)"

definition getClient :: "sdk \<Rightarrow> client io" where
  "getClient w s =
     (case client s of
        None \<Rightarrow>
          and_then (invoke (returns_client w) VClient Client_forTestnet) (\<lambda>c.
          and_then (set_client (Some c)) (\<lambda>_.
          and_then (invoke (returns_unit w) (\<lambda>_. VUnit)
                      (Client_setOperator c (operatorId s) (operatorKey s))) (\<lambda>_.
          and_then (invoke (returns_unit w) (\<lambda>_. VUnit)
                      (Client_setDefaultMaxTransactionFee c 50)) (\<lambda>_.
          and_then (invoke (returns_unit w) (\<lambda>_. VUnit)
                      (Client_setDefaultMaxQueryPayment c 30)) (\<lambda>_.
          return c))))) s
      | Some c \<Rightarrow> return c s)"

definition close :: "sdk \<Rightarrow> unit io" where
  "close w s =
     (case client s of
        Some c \<Rightarrow>
          and_then (invoke (returns_unit w) (\<lambda>_. VUnit) (Client_close c)) (\<lambda>_.
          set_client None) s
      | None \<Rightarrow> return () s)"

text \<open>\<open>catch (error) { console.error(..., error.message); throw error; }\<close>\<close>

definition log_and_rethrow :: "jserror \<Rightarrow> 'a io" where
  "log_and_rethrow error = throw error"

text \<open>
  A default parameter value (\<open>function f(x = d)\<close>) and a default property under a
  spread: the default stands where the argument or the property is absent.
\<close>

definition default_to :: "'a \<Rightarrow> 'a option \<Rightarrow> 'a" where
  "default_to d x = (case x of None \<Rightarrow> d | Some v \<Rightarrow> v)"

definition createAccount :: "sdk \<Rightarrow> int option \<Rightarrow> account_ref io" where
  "createAccount w initialBalance_arg =
     (let initialBalance = default_to 100 initialBalance_arg in
      try_catch
        (and_then (getClient w) (\<lambda>client.
         and_then (invoke (returns_key w) VPrivateKey PrivateKey_generateED25519) (\<lambda>privateKey.
         let publicKey = key_publicKey privateKey in
         and_then (invoke (returns_response w) VResponse
                     (AccountCreateTransaction_execute publicKey initialBalance client))
           (\<lambda>transaction.
         and_then (invoke (returns_receipt w) VReceipt
                     (TransactionResponse_getReceipt transaction client)) (\<lambda>receipt.
         let accountId = rc_accountId receipt; status = rc_status receipt in
         new_object \<lparr>accountId = accountId, privateKey = privateKey, publicKey = publicKey,
                      status = status, balance = initialBalance\<rparr>)))))
        log_and_rethrow)"

subsection \<open>createNFTToken\<close>

text \<open>
  The optional \<open>tokenConfig\<close> argument: \<open>None\<close> in a field is an absent property,
  which the spread \<open>{name: "diploma", symbol: "GRAD", maxSupply: 250, ...tokenConfig}\<close>
  leaves at its default.
\<close>

record token_config =
  cfg_name :: "string option"
  cfg_symbol :: "string option"
  cfg_maxSupply :: "int option"

definition empty_config :: token_config where
  "empty_config = \<lparr>cfg_name = None, cfg_symbol = None, cfg_maxSupply = None\<rparr>"

record token =
  tk_tokenId :: "token_id option"
  tk_status :: "status option"
  tk_name :: string
  tk_symbol :: string
  tk_tokenType :: "token_type option"
  tk_decimals :: int
  tk_totalSupply :: "long option"
  tk_maxSupply :: "long option"
  tk_supplyType :: "supply_type option"
  tk_treasuryAccountId :: "account_id option"
  tk_supplyKey :: "public_key option"
  tk_creationTime :: "timestamp option"
  tk_treasuryAccount :: account_ref

definition createNFTToken :: "sdk \<Rightarrow> account_ref \<Rightarrow> token_config option \<Rightarrow> token io" where
  "createNFTToken w treasuryAccount tokenConfig_arg =
     (let tokenConfig = default_to empty_config tokenConfig_arg in
      try_catch
        (and_then (getClient w) (\<lambda>client.
         let config_name = default_to ''diploma'' (cfg_name tokenConfig);
             config_symbol = default_to ''GRAD'' (cfg_symbol tokenConfig);
             config_maxSupply = default_to 250 (cfg_maxSupply tokenConfig)
         in
         and_then (read_account treasuryAccount) (\<lambda>treasury.
         and_then (invoke (returns_transaction w) VTransaction
                     (TokenCreateTransaction_freezeWith
                        \<lparr>tcr_tokenName = config_name,
                         tcr_tokenSymbol = config_symbol,
                         tcr_tokenType = ''NonFungibleUnique'',
                         tcr_decimals = 0,
                         tcr_initialSupply = 0,
                         tcr_treasuryAccountId = accountId treasury,
                         tcr_supplyType = ''Finite'',
                         tcr_maxSupply = config_maxSupply,
                         tcr_supplyKey = privateKey treasury\<rparr> client)) (\<lambda>transaction.
         and_then (invoke (returns_transaction w) VTransaction
                     (Transaction_sign transaction (privateKey treasury))) (\<lambda>signedTx.
         and_then (invoke (returns_response w) VResponse
                     (Transaction_execute signedTx client)) (\<lambda>response.
         and_then (invoke (returns_receipt w) VReceipt
                     (TransactionResponse_getReceipt response client)) (\<lambda>receipt.
         let tokenId = rc_tokenId receipt; status = rc_status receipt in
         and_then (invoke (returns_token_info w) VTokenInfo
                     (TokenInfoQuery_execute tokenId client)) (\<lambda>tokenInfo.
         return
           \<lparr>tk_tokenId = tokenId,
            tk_status = status,
            tk_name = ti_name tokenInfo,
            tk_symbol = ti_symbol tokenInfo,
            tk_tokenType = ti_tokenType tokenInfo,
            tk_decimals = ti_decimals tokenInfo,
            tk_totalSupply = ti_totalSupply tokenInfo,
            tk_maxSupply = ti_maxSupply tokenInfo,
            tk_supplyType = ti_supplyType tokenInfo,
            tk_treasuryAccountId = ti_treasuryAccountId tokenInfo,
            tk_supplyKey = ti_supplyKey tokenInfo,
            tk_creationTime = ti_creationTime tokenInfo,
            tk_treasuryAccount = treasuryAccount\<rparr>))))))))
        log_and_rethrow)"

subsection \<open>mintNFTs\<close>

record mint_result =
  mr_serials :: "long list option"
  mr_status :: "status option"
  mr_tokenId :: "token_id option"
  mr_count :: nat
  mr_mintedAt :: string

text \<open>\<open>Array.isArray(metadataArray) ? metadataArray : [metadataArray]\<close>\<close>

definition metadatas_of :: "jsval \<Rightarrow> jsval list" where
  "metadatas_of metadataArray =
     (if Array_isArray metadataArray
      then (case metadataArray of JArr xs \<Rightarrow> xs | _ \<Rightarrow> [])
      else [metadataArray])"

text \<open>
  The callback of \<open>metadatas.map\<close>: \<open>metadataString\<close> is the element itself when it
  is a string and its \<open>JSON.stringify\<close> otherwise, which may be \<open>undefined\<close> or throw.
\<close>

definition metadataString_of :: "jsval \<Rightarrow> jserror + string option" where
  "metadataString_of metadata =
     (if typeof_string metadata
      then (case metadata of JStr s \<Rightarrow> Inr (Some s) | _ \<Rightarrow> Inr None)
      else JSON_stringify metadata)"

definition metadata_buffer :: "jsval \<Rightarrow> jserror + buffer" where
  "metadata_buffer metadata =
     (case metadataString_of metadata of
        Inl e \<Rightarrow> Inl e
      | Inr metadataString \<Rightarrow> Buffer_from metadataString)"

text \<open>\<open>Array.prototype.map\<close> with a callback that may throw: the first throw ends it.\<close>

fun map_throwing :: "('a \<Rightarrow> jserror + 'b) \<Rightarrow> 'a list \<Rightarrow> jserror + 'b list" where
  "map_throwing f [] = Inr []"
| "map_throwing f (x # xs) =
     (case f x of
        Inl e \<Rightarrow> Inl e
      | Inr y \<Rightarrow> (case map_throwing f xs of Inl e \<Rightarrow> Inl e | Inr ys \<Rightarrow> Inr (y # ys)))"

text \<open>\<open>serials?.length || 0\<close>\<close>

definition serials_count :: "long list option \<Rightarrow> nat" where
  "serials_count serials =
     (case map_option length serials of
        None \<Rightarrow> 0
      | Some n \<Rightarrow> if n = 0 then 0 else n)"

definition mintNFTs :: "sdk \<Rightarrow> token \<Rightarrow> jsval \<Rightarrow> mint_result io" where
  "mintNFTs w tokenData metadataArray =
     try_catch
       (and_then (getClient w) (\<lambda>client.
        let metadatas = metadatas_of metadataArray in
        and_then (lift (map_throwing metadata_buffer metadatas)) (\<lambda>metadataBuffers.
        and_then (invoke (returns_transaction w) VTransaction
                    (TokenMintTransaction_freezeWith (tk_tokenId tokenData) metadataBuffers client))
          (\<lambda>transaction.
        and_then (read_account (tk_treasuryAccount tokenData)) (\<lambda>treasury.
        and_then (invoke (returns_transaction w) VTransaction
                    (Transaction_sign transaction (privateKey treasury))) (\<lambda>signedTransaction.
        and_then (invoke (returns_response w) VResponse
                    (Transaction_execute signedTransaction client)) (\<lambda>response.
        and_then (invoke (returns_receipt w) VReceipt
                    (TransactionResponse_getReceipt response client)) (\<lambda>receipt.
        let serials = rc_serials receipt in
        and_then (new_Date_toISOString w) (\<lambda>now.
        return
          \<lparr>mr_serials = serials,
           mr_status = rc_status receipt,
           mr_tokenId = tk_tokenId tokenData,
           mr_count = serials_count serials,
           mr_mintedAt = now\<rparr>)))))))))
       log_and_rethrow"

subsection \<open>getTokenBasicInfo\<close>

record basic_info =
  bi_tokenId :: "string option"
  bi_name :: string
  bi_symbol :: string
  bi_type :: "string option"
  bi_totalSupply :: "string option"
  bi_maxSupply :: "string option"
  bi_treasury :: "string option"

definition getTokenBasicInfo :: "sdk \<Rightarrow> token_id option \<Rightarrow> basic_info io" where
  "getTokenBasicInfo w tokenId =
     try_catch
       (and_then (getClient w) (\<lambda>client.
        and_then (invoke (returns_token_info w) VTokenInfo
                    (TokenInfoQuery_execute tokenId client)) (\<lambda>tokenInfo.
        return
          \<lparr>bi_tokenId = map_option tokenId_toString (ti_tokenId tokenInfo),
           bi_name = ti_name tokenInfo,
           bi_symbol = ti_symbol tokenInfo,
           bi_type = map_option tokenType_toString (ti_tokenType tokenInfo),
           bi_totalSupply = map_option long_toString (ti_totalSupply tokenInfo),
           bi_maxSupply = map_option long_toString (ti_maxSupply tokenInfo),
           bi_treasury = map_option accountId_toString (ti_treasuryAccountId tokenInfo)\<rparr>)))
       log_and_rethrow"

subsection \<open>associateTokenToAccount\<close>

record association_result =
  as_status :: "status option"
  as_accountId :: "account_id option"
  as_tokenId :: "token_id option"
  as_associatedAt :: string

definition associateTokenToAccount ::
  "sdk \<Rightarrow> account_ref \<Rightarrow> token_id option \<Rightarrow> association_result io" where
  "associateTokenToAccount w account_arg tokenId =
     try_catch
       (and_then (getClient w) (\<lambda>client.
        and_then (read_account account_arg) (\<lambda>account.
        and_then (invoke (returns_transaction w) VTransaction
                    (TokenAssociateTransaction_freezeWith (accountId account) [tokenId] client))
          (\<lambda>transaction.
        and_then (invoke (returns_transaction w) VTransaction
                    (Transaction_sign transaction (privateKey account))) (\<lambda>signedTx.
        and_then (invoke (returns_response w) VResponse
                    (Transaction_execute signedTx client)) (\<lambda>response.
        and_then (invoke (returns_receipt w) VReceipt
                    (TransactionResponse_getReceipt response client)) (\<lambda>receipt.
        and_then (new_Date_toISOString w) (\<lambda>now.
        return
          \<lparr>as_status = rc_status receipt,
           as_accountId = accountId account,
           as_tokenId = tokenId,
           as_associatedAt = now\<rparr>))))))))
       log_and_rethrow"

subsection \<open>getAccountBalance\<close>

text \<open>The argument is an account identifier string or an account object.\<close>

datatype account_arg = AccountString string | AccountObject account_ref

record balance_result =
  br_accountId :: "string option"
  br_hbarBalance :: "string option"
  br_tokens :: "(string \<times> string) list"

text \<open>
  \<open>balance.tokens.forEach((amount, tokenId) => { result.tokens[tokenId.toString()] =
  amount.toString(); })\<close>, the object \<open>result.tokens\<close> as the list of its properties.
\<close>

definition tokens_forEach :: "(token_id \<times> long) list \<Rightarrow> (string \<times> string) list \<Rightarrow> (string \<times> string) list" where
  "tokens_forEach entries result_tokens =
     foldl (\<lambda>acc entry. AList.update (tokenId_toString (fst entry)) (long_toString (snd entry)) acc)
       result_tokens entries"

text \<open>\<open>typeof account === 'string' ? account : account.accountId\<close>\<close>

definition account_id_of :: "account_arg \<Rightarrow> account_id option io" where
  "account_id_of account =
     (case account of
        AccountString str \<Rightarrow> return (Some (AccountId str))
      | AccountObject r \<Rightarrow> and_then (read_account r) (\<lambda>a. return (accountId a)))"

text \<open>
  The object \<open>result\<close> that \<open>getAccountBalance\<close> builds from the answer of the
  balance query. The token map of the SDK has a \<open>size\<close> and no method \<open>forEach\<close>: when
  \<open>balance.tokens\<close> is there and not empty, the call \<open>balance.tokens.forEach(...)\<close>
  throws before its callback has copied anything.
\<close>

definition readable_balance :: "account_id option \<Rightarrow> account_balance \<Rightarrow> balance_result io" where
  "readable_balance acc_id bal =
     (let result = \<lparr>br_accountId = map_option accountId_toString acc_id,
                    br_hbarBalance = map_option hbar_toString (ab_hbars bal),
                    br_tokens = []\<rparr>
      in case ab_tokens bal of
           None \<Rightarrow> return result
         | Some entries \<Rightarrow>
             if length entries > 0
             then and_then (not_a_function ''balance.tokens.forEach'') (\<lambda>u :: unit.
                  return (result\<lparr>br_tokens := tokens_forEach entries (br_tokens result)\<rparr>))
             else return result)"

definition getAccountBalance :: "sdk \<Rightarrow> account_arg \<Rightarrow> balance_result io" where
  "getAccountBalance w account =
     try_catch
       (and_then (getClient w) (\<lambda>client.
        and_then (account_id_of account) (\<lambda>accountId.
        and_then (invoke (returns_balance w) VBalance
                    (AccountBalanceQuery_execute accountId client)) (\<lambda>balance.
        readable_balance accountId balance))))
       log_and_rethrow"

subsection \<open>transferNFT\<close>

record transfer_result =
  tr_status :: "status option"
  tr_tokenId :: "token_id option"
  tr_serialNumber :: "long option"
  tr_fromAccount :: "string option"
  tr_toAccount :: "string option"
  tr_transferredAt :: string

text \<open>
  \<open>await transaction.sign(fromAccount.privateKey).sign(toAccount.privateKey)\<close>: the
  method \<open>sign\<close> of the SDK is asynchronous and returns a Promise, which every other
  use in the class awaits before going on. Here the second \<open>sign\<close> is looked up on
  the Promise of the first, which has no such method: the first \<open>sign\<close> is called and
  not awaited, and the call of the second throws a \<open>TypeError\<close>.
\<close>

definition transferNFT ::
  "sdk \<Rightarrow> token_id option \<Rightarrow> account_ref \<Rightarrow> account_ref \<Rightarrow> long option \<Rightarrow> transfer_result io" where
  "transferNFT w tokenId fromAccount_arg toAccount_arg serialNumber =
     try_catch
       (and_then (getClient w) (\<lambda>client.
        and_then (read_account fromAccount_arg) (\<lambda>fromAccount.
        and_then (read_account toAccount_arg) (\<lambda>toAccount.
        and_then (invoke (returns_transaction w) VTransaction
                    (TransferTransaction_freezeWith tokenId serialNumber
                       (accountId fromAccount) (accountId toAccount) client)) (\<lambda>transaction.
        and_then (invoke_unawaited (returns_transaction w) VTransaction
                    (Transaction_sign transaction (privateKey fromAccount))) (\<lambda>_.
        and_then (not_a_function ''transaction.sign(...).sign'') (\<lambda>signedTx.
        and_then (invoke (returns_response w) VResponse
                    (Transaction_execute signedTx client)) (\<lambda>response.
        and_then (invoke (returns_receipt w) VReceipt
                    (TransactionResponse_getReceipt response client)) (\<lambda>receipt.
        and_then (new_Date_toISOString w) (\<lambda>now.
        return
          \<lparr>tr_status = rc_status receipt,
           tr_tokenId = tokenId,
           tr_serialNumber = serialNumber,
           tr_fromAccount = map_option accountId_toString (accountId fromAccount),
           tr_toAccount = map_option accountId_toString (accountId toAccount),
           tr_transferredAt = now\<rparr>))))))))))
       log_and_rethrow"

subsection \<open>transferNFTWithBalanceCheck\<close>

record balance_pair =
  sender :: balance_result
  receiver :: balance_result

record balances =
  before :: balance_pair
  after :: balance_pair

record transfer_summary =
  ts_tokenId :: "string option"
  ts_serialNumber :: "long option"
  ts_from :: "string option"
  ts_to :: "string option"
  ts_success :: bool

record transfer_workflow_result =
  transferResult :: transfer_result
  balances :: balances
  summary :: transfer_summary

text \<open>
  Step 2 of the workflow, "associate token to receiver if needed": the inner
  \<open>try\<close>/\<open>catch\<close> around \<open>associateTokenToAccount\<close>.
\<close>

definition associate_if_needed :: "sdk \<Rightarrow> account_ref \<Rightarrow> token_id option \<Rightarrow> unit io" where
  "associate_if_needed w toAccount tokenId =
     try_catch
       (and_then (associateTokenToAccount w toAccount tokenId) (\<lambda>_. return ()))
       (\<lambda>error.
          if String_includes (message error) ''TOKEN_ALREADY_ASSOCIATED''
          then return ()
          else throw error)"

definition transferNFTWithBalanceCheck ::
  "sdk \<Rightarrow> token_id option \<Rightarrow> account_ref \<Rightarrow> account_ref \<Rightarrow> long option
     \<Rightarrow> transfer_workflow_result io" where
  "transferNFTWithBalanceCheck w tokenId fromAccount toAccount serialNumber =
     try_catch
       (and_then (getAccountBalance w (AccountObject fromAccount)) (\<lambda>beforeBalanceFrom.
        and_then (getAccountBalance w (AccountObject toAccount)) (\<lambda>beforeBalanceTo.
        and_then (associate_if_needed w toAccount tokenId) (\<lambda>_.
        and_then (transferNFT w tokenId fromAccount toAccount serialNumber) (\<lambda>transferResult.
        and_then (getAccountBalance w (AccountObject fromAccount)) (\<lambda>afterBalanceFrom.
        and_then (getAccountBalance w (AccountObject toAccount)) (\<lambda>afterBalanceTo.
        and_then (read_account fromAccount) (\<lambda>from_obj.
        and_then (read_account toAccount) (\<lambda>to_obj.
        return
          \<lparr>transferResult = transferResult,
           balances =
             \<lparr>before = \<lparr>sender = beforeBalanceFrom, receiver = beforeBalanceTo\<rparr>,
              after = \<lparr>sender = afterBalanceFrom, receiver = afterBalanceTo\<rparr>\<rparr>,
           summary =
             \<lparr>ts_tokenId = map_option tokenId_toString tokenId,
              ts_serialNumber = serialNumber,
              ts_from = map_option accountId_toString (accountId from_obj),
              ts_to = map_option accountId_toString (accountId to_obj),
              ts_success =
                (map_option status_toString (tr_status transferResult) = Some ''SUCCESS'')\<rparr>\<rparr>
        )))))))))
       log_and_rethrow"

subsection \<open>createCompleteNFTCollection\<close>

record collection_summary =
  cs_accountId :: "string option"
  cs_tokenId :: "string option"
  cs_nftCount :: nat
  cs_serials :: "string list"

record collection_result =
  cr_account :: account_ref
  cr_tokenData :: token
  cr_mintResult :: "mint_result option"
  cr_summary :: collection_summary

definition createCompleteNFTCollection ::
  "sdk \<Rightarrow> token_config option \<Rightarrow> jsval list option \<Rightarrow> int option \<Rightarrow> collection_result io" where
  "createCompleteNFTCollection w tokenConfig_arg metadataArray_arg initialBalance_arg =
     (let tokenConfig = default_to empty_config tokenConfig_arg;
          metadataArray = default_to [] metadataArray_arg;
          initialBalance = default_to 100 initialBalance_arg
      in
      try_catch
        (and_then (createAccount w (Some initialBalance)) (\<lambda>account.
         and_then (createNFTToken w account (Some tokenConfig)) (\<lambda>tokenData.
         and_then (if length metadataArray > 0
                   then and_then (mintNFTs w tokenData (JArr metadataArray))
                          (\<lambda>r. return (Some r))
                   else return None) (\<lambda>mintResult.
         and_then (read_account account) (\<lambda>account_obj.
         return
           \<lparr>cr_account = account,
            cr_tokenData = tokenData,
            cr_mintResult = mintResult,
            cr_summary =
              \<lparr>cs_accountId = map_option accountId_toString (accountId account_obj),
               cs_tokenId = map_option tokenId_toString (tk_tokenId tokenData),
               cs_nftCount =
                 (case map_option mr_count mintResult of
                    None \<Rightarrow> 0
                  | Some n \<Rightarrow> if n = 0 then 0 else n),
               cs_serials =
                 (case Option.bind mintResult mr_serials of
                    None \<Rightarrow> []
                  | Some xs \<Rightarrow> map long_toString xs)\<rparr>\<rparr>)))))
        log_and_rethrow)"

section \<open>The orchestrating script\<close>

text \<open>
  The module \<open>ipfs-cid.js\<close> is a parameter of \<open>main\<close>: the record \<open>COLLECTION_INFO\<close>
  and the value \<open>IPFS_CID_COLLECTION\<close>.
\<close>

record collection_info =
  ci_name :: string
  ci_symbol :: string
  ci_maxSupply :: int
  ci_totalCIDs :: int

record main_result =
  m_university :: account_ref
  m_bob :: account_ref
  m_token :: token
  m_mintResult :: mint_result
  m_transferResult :: transfer_workflow_result

text \<open>
  \<open>x.toString()\<close> and \<open>x.map(...)\<close> inside a \<open>console.log\<close> argument, on a value that
  may be \<open>null\<close> or \<open>undefined\<close>: reading the property throws a \<open>TypeError\<close>.
\<close>

definition property_of :: "'a option \<Rightarrow> 'a io" where
  "property_of x =
     (case x of
        None \<Rightarrow> throw (JsError ''TypeError'' ''Cannot read properties of undefined'')
      | Some v \<Rightarrow> return v)"

text \<open>Evaluating an identifier that no declaration binds.\<close>

definition unbound_identifier :: "string \<Rightarrow> 'a io" where
  "unbound_identifier x = throw (JsError ''ReferenceError'' (x @ '' is not defined''))"

text \<open>\<open>xs[0]\<close>: \<open>undefined\<close> on an empty array.\<close>

definition first_element :: "'a list \<Rightarrow> 'a option" where
  "first_element xs = (case xs of [] \<Rightarrow> None | x # _ \<Rightarrow> Some x)"

text \<open>
  \<open>main\<close> returns the record of its \<open>return\<close> statement, or \<open>undefined\<close> (\<open>None\<close>)
  when the \<open>catch\<close> block has handled an error. The service is constructed outside the
  \<open>try\<close>, so an error of the constructor leaves \<open>main\<close> as it is.
\<close>

definition main ::
  "sdk \<Rightarrow> process_env \<Rightarrow> collection_info \<Rightarrow> jsval \<Rightarrow> main_result option io" where
  "main w env COLLECTION_INFO IPFS_CID_COLLECTION =
     and_then (constructor env) (\<lambda>_.
     try_finally
       (try_catch
          (and_then (createAccount w (Some 500)) (\<lambda>university.
           and_then (read_account university) (\<lambda>university_obj.
           and_then (property_of (accountId university_obj)) (\<lambda>_.
           and_then (createAccount w (Some 150)) (\<lambda>bob.
           and_then (read_account bob) (\<lambda>bob_obj.
           and_then (property_of (accountId bob_obj)) (\<lambda>_.
           and_then (createNFTToken w university
                       (Some \<lparr>cfg_name = Some (ci_name COLLECTION_INFO),
                              cfg_symbol = Some (ci_symbol COLLECTION_INFO),
                              cfg_maxSupply = Some (ci_maxSupply COLLECTION_INFO)\<rparr>)) (\<lambda>token.
           and_then (property_of (tk_tokenId token)) (\<lambda>_.
           and_then (mintNFTs w token IPFS_CID_COLLECTION) (\<lambda>mintResult.
           and_then (property_of (mr_serials mintResult)) (\<lambda>serials.
           and_then (unbound_identifier ''alice'') (\<lambda>alice.
           and_then (getAccountBalance w alice) (\<lambda>aliceBalanceBefore.
           and_then (getAccountBalance w (AccountObject bob)) (\<lambda>bobBalanceBefore.
           and_then (transferNFTWithBalanceCheck w (tk_tokenId token) university bob
                       (first_element serials)) (\<lambda>transferResult.
           and_then (getAccountBalance w (AccountObject university)) (\<lambda>universityBalanceAfter.
           and_then (getAccountBalance w (AccountObject bob)) (\<lambda>bobBalanceAfter.
           return
             (Some \<lparr>m_university = university,
                    m_bob = bob,
                    m_token = token,
                    m_mintResult = mintResult,
                    m_transferResult = transferResult\<rparr>))))))))))))))))))
          (\<lambda>error. return None))
       (close w))"

section \<open>A ledger on which every call succeeds\<close>

text \<open>
  Concrete SDK behaviours, used to run the program: every call returns, handles are
  numbered by the length of the history, receipts carry fixed identifiers and two serials.
\<close>

definition demo_receipt :: receipt where
  "demo_receipt =
     \<lparr>rc_accountId = Some (AccountId ''0.0.1001''),
      rc_tokenId = Some (TokenId ''0.0.2001''),
      rc_status = Some (Status ''SUCCESS''),
      rc_serials = Some [Long ''1'', Long ''2'']\<rparr>"

definition demo_token_info :: token_info where
  "demo_token_info =
     \<lparr>ti_tokenId = Some (TokenId ''0.0.2001''),
      ti_name = ''ledger name'',
      ti_symbol = ''LDG'',
      ti_tokenType = Some (TokenType ''NON_FUNGIBLE_UNIQUE''),
      ti_decimals = 0,
      ti_totalSupply = Some (Long ''0''),
      ti_maxSupply = Some (Long ''250''),
      ti_supplyType = Some (TokenSupplyType ''FINITE''),
      ti_treasuryAccountId = Some (AccountId ''0.0.1001''),
      ti_supplyKey = Some (PublicKey 7),
      ti_creationTime = Some (Timestamp ''1700000000.000000000'')\<rparr>"

definition demo_balance :: account_balance where
  "demo_balance = \<lparr>ab_hbars = Some (Hbar ''500 h''), ab_tokens = Some []\<rparr>"

definition all_succeed :: sdk where
  "all_succeed =
     \<lparr>returns_unit = (\<lambda>h c. Inr ()),
      returns_client = (\<lambda>h c. Inr (Client (length h))),
      returns_key = (\<lambda>h c. Inr (PrivateKey (length h) (PublicKey (length h)))),
      returns_transaction = (\<lambda>h c. Inr (Transaction (length h))),
      returns_response = (\<lambda>h c. Inr (TransactionResponse (length h))),
      returns_receipt = (\<lambda>h c. Inr demo_receipt),
      returns_token_info = (\<lambda>h c. Inr demo_token_info),
      returns_balance = (\<lambda>h c. Inr demo_balance),
      date_now = (\<lambda>h. ''2024-01-01T00:00:00.000Z'')\<rparr>"

text \<open>Sample errors of the SDK.\<close>

definition already_associated :: jserror where
  "already_associated =
     JsError ''ReceiptStatusError''
       ''receipt for transaction contained error status TOKEN_ALREADY_ASSOCIATED_TO_ACCOUNT''"

definition invalid_signature :: jserror where
  "invalid_signature =
     JsError ''ReceiptStatusError'' ''receipt for transaction contained error status INVALID_SIGNATURE''"

text \<open>The same ledger, except that freezing a token association throws the given error.\<close>

definition association_fails :: "jserror \<Rightarrow> sdk" where
  "association_fails e =
     all_succeed\<lparr>returns_transaction :=
       (\<lambda>h c. case c of
                 TokenAssociateTransaction_freezeWith a t cl \<Rightarrow> Inl e
               | _ \<Rightarrow> Inr (Transaction (length h)))\<rparr>"

text \<open>The same ledger, except that the Promise of every \<open>sign\<close> rejects with the given error.\<close>

definition sign_fails :: "jserror \<Rightarrow> sdk" where
  "sign_fails e =
     all_succeed\<lparr>returns_transaction :=
       (\<lambda>h c. case c of
                 Transaction_sign t k \<Rightarrow> Inl e
               | _ \<Rightarrow> Inr (Transaction (length h)))\<rparr>"

definition demo_env :: process_env where
  "demo_env = (\<lambda>x. if x = ''OPERATOR_ID'' then Some ''0.0.2''
                    else if x = ''OPERATOR_KEY'' then Some ''302e'' else None)"

definition demo_info :: collection_info where
  "demo_info = \<lparr>ci_name = ''diploma'', ci_symbol = ''GRAD'', ci_maxSupply = 250, ci_totalCIDs = 2\<rparr>"

definition demo_account :: account where
  "demo_account =
     \<lparr>accountId = Some (AccountId ''0.0.1001''), privateKey = PrivateKey 1 (PublicKey 1),
      publicKey = PublicKey 1, status = Some (Status ''SUCCESS''), balance = 500\<rparr>"

definition demo_account2 :: account where
  "demo_account2 =
     \<lparr>accountId = Some (AccountId ''0.0.1002''), privateKey = PrivateKey 2 (PublicKey 2),
      publicKey = PublicKey 2, status = Some (Status ''SUCCESS''), balance = 150\<rparr>"

text \<open>A token record as \<open>createNFTToken\<close> returns it, with the first account as treasury.\<close>

definition demo_token :: token where
  "demo_token =
     \<lparr>tk_tokenId = Some (TokenId ''0.0.2001''), tk_status = Some (Status ''SUCCESS''),
      tk_name = ''ledger name'', tk_symbol = ''LDG'',
      tk_tokenType = Some (TokenType ''NON_FUNGIBLE_UNIQUE''), tk_decimals = 0,
      tk_totalSupply = Some (Long ''0''), tk_maxSupply = Some (Long ''250''),
      tk_supplyType = Some (TokenSupplyType ''FINITE''),
      tk_treasuryAccountId = Some (AccountId ''0.0.1001''), tk_supplyKey = Some (PublicKey 7),
      tk_creationTime = Some (Timestamp ''1700000000.000000000''), tk_treasuryAccount = 0\<rparr>"

text \<open>A fresh service with no client, and one with a client, two accounts in the store.\<close>

definition fresh_state :: state where
  "fresh_state =
     \<lparr>operatorId = Some ''0.0.2'', operatorKey = Some ''302e'', client = None,
      trace = [], heap = []\<rparr>"

definition ready_state :: state where
  "ready_state =
     \<lparr>operatorId = Some ''0.0.2'', operatorKey = Some ''302e'', client = Some (Client 0),
      trace = [], heap = [demo_account, demo_account2]\<rparr>"

section \<open>Observing a run\<close>

text \<open>The events a run from \<open>s\<close> to \<open>s'\<close> has added to the log, and the names of their calls.\<close>

definition events_since :: "state \<Rightarrow> state \<Rightarrow> event list" where
  "events_since s s' = drop (length (trace s)) (trace s')"

fun call_name :: "sdk_call \<Rightarrow> string" where
  "call_name Client_forTestnet = ''Client.forTestnet''"
| "call_name (Client_setOperator c i k) = ''Client.setOperator''"
| "call_name (Client_setDefaultMaxTransactionFee c n) = ''Client.setDefaultMaxTransactionFee''"
| "call_name (Client_setDefaultMaxQueryPayment c n) = ''Client.setDefaultMaxQueryPayment''"
| "call_name (Client_close c) = ''Client.close''"
| "call_name PrivateKey_generateED25519 = ''PrivateKey.generateED25519''"
| "call_name (AccountCreateTransaction_execute k b c) = ''AccountCreateTransaction.execute''"
| "call_name (TransactionResponse_getReceipt r c) = ''TransactionResponse.getReceipt''"
| "call_name (TokenCreateTransaction_freezeWith r c) = ''TokenCreateTransaction.freezeWith''"
| "call_name (Transaction_sign t k) = ''Transaction.sign''"
| "call_name (Transaction_execute t c) = ''Transaction.execute''"
| "call_name (TokenInfoQuery_execute t c) = ''TokenInfoQuery.execute''"
| "call_name (TokenMintTransaction_freezeWith t b c) = ''TokenMintTransaction.freezeWith''"
| "call_name (TokenAssociateTransaction_freezeWith a t c) = ''TokenAssociateTransaction.freezeWith''"
| "call_name (AccountBalanceQuery_execute a c) = ''AccountBalanceQuery.execute''"
| "call_name (TransferTransaction_freezeWith t n a b c) = ''TransferTransaction.freezeWith''"

definition calls_since :: "state \<Rightarrow> state \<Rightarrow> string list" where
  "calls_since s s' = map (\<lambda>ev. call_name (fst ev)) (events_since s s')"

text \<open>The calls \<open>getClient\<close> makes when the service has no client yet.\<close>

definition client_setup :: "state \<Rightarrow> string list" where
  "client_setup s =
     (if client s = None
      then [''Client.forTestnet'', ''Client.setOperator'',
            ''Client.setDefaultMaxTransactionFee'', ''Client.setDefaultMaxQueryPayment'']
      else [])"

fun is_transfer :: "sdk_call \<Rightarrow> bool" where
  "is_transfer (TransferTransaction_freezeWith t n a b c) = True"
| "is_transfer c = False"

text \<open>The error a completion carries, if it is a throw.\<close>

fun thrown :: "jserror + 'a \<Rightarrow> jserror option" where
  "thrown (Inl e) = Some e"
| "thrown (Inr x) = None"

text \<open>
  \<open>fail_fast r evs\<close>: in the events \<open>evs\<close> of a run that completed with \<open>r\<close>, a call
  that threw is the last call, and the run threw the same error.
\<close>

fun fail_fast :: "jserror option \<Rightarrow> event list \<Rightarrow> bool" where
  "fail_fast r [] = True"
| "fail_fast r ((c, Returned v) # evs) = fail_fast r evs"
| "fail_fast r ((c, Threw e) # evs) = (evs = [] \<and> r = Some e)"

text \<open>A run that leaves the store of account records as it found it.\<close>

definition keeps_heap :: "'a io \<Rightarrow> bool" where
  "keeps_heap m = (\<forall>s. heap (snd (m s)) = heap s)"

section \<open>Sample runs\<close>

definition demo_cids :: jsval where
  "demo_cids = JArr [JStr ''cid-1'', JStr ''cid-2'']"

text \<open>The fresh service after its first \<open>getClient\<close>, and after a \<open>close\<close>.\<close>

definition connected_state :: state where
  "connected_state = snd (getClient all_succeed fresh_state)"

definition closed_state :: state where
  "closed_state = snd (close all_succeed connected_state)"

section \<open>Predicates on runs and further sample data\<close>

definition fails_fast :: "'a io \<Rightarrow> bool" where
  "fails_fast m =
     (\<forall>s. \<exists>evs. trace (snd (m s)) = trace s @ evs \<and> fail_fast (thrown (fst (m s))) evs)"

text \<open>A run that only makes calls satisfying \<open>P\<close>.\<close>

definition only_calls :: "(sdk_call \<Rightarrow> bool) \<Rightarrow> 'a io \<Rightarrow> bool" where
  "only_calls P m =
     (\<forall>s. \<exists>evs. trace (snd (m s)) = trace s @ evs \<and> list_all (\<lambda>ev. P (fst ev)) evs)"

text \<open>A run that leaves a stored client handle in place.\<close>

definition keeps_client :: "'a io \<Rightarrow> bool" where
  "keeps_client m = (\<forall>s c. client s = Some c \<longrightarrow> client (snd (m s)) = Some c)"

text \<open>A token configuration that names the collection, as \<open>main\<close> passes it.\<close>

definition demo_config :: token_config where
  "demo_config = \<lparr>cfg_name = Some ''diploma'', cfg_symbol = Some ''GRAD'', cfg_maxSupply = Some 250\<rparr>"

text \<open>The names of the calls each method makes, after \<open>getClient\<close>, when it returns.\<close>

definition account_calls :: "string list" where
  "account_calls =
     [''PrivateKey.generateED25519'', ''AccountCreateTransaction.execute'',
      ''TransactionResponse.getReceipt'']"

definition token_calls :: "string list" where
  "token_calls =
     [''TokenCreateTransaction.freezeWith'', ''Transaction.sign'', ''Transaction.execute'',
      ''TransactionResponse.getReceipt'', ''TokenInfoQuery.execute'']"

definition mint_calls :: "string list" where
  "mint_calls =
     [''TokenMintTransaction.freezeWith'', ''Transaction.sign'', ''Transaction.execute'',
      ''TransactionResponse.getReceipt'']"

definition association_calls :: "string list" where
  "association_calls =
     [''TokenAssociateTransaction.freezeWith'', ''Transaction.sign'', ''Transaction.execute'',
      ''TransactionResponse.getReceipt'']"

text \<open>
  \<open>made_calls s s' names\<close>: the run from \<open>s\<close> to \<open>s'\<close> has made the calls of the client
  construction, if the service had no client, and then the calls \<open>names\<close>; it ends with
  a client stored.
\<close>

definition made_calls :: "state \<Rightarrow> state \<Rightarrow> string list \<Rightarrow> bool" where
  "made_calls s s' names =
     (calls_since s s' = client_setup s @ names \<and> client s' \<noteq> None \<and>
      (\<exists>evs. trace s' = trace s @ evs))"

text \<open>
  \<open>call_sequence m s names\<close>: the run of \<open>m\<close> from \<open>s\<close> has made the calls of the client
  construction, if the service had no client, and then the calls \<open>names\<close>, when it
  returns; when it throws it has made an initial segment of that sequence.
\<close>

definition call_sequence :: "'a io \<Rightarrow> state \<Rightarrow> string list \<Rightarrow> bool" where
  "call_sequence m s names =
     (case m s of
        (Inr x, s') \<Rightarrow> calls_since s s' = client_setup s @ names
      | (Inl e, s') \<Rightarrow> prefix (calls_since s s') (client_setup s @ names))"

section \<open>Properties\<close>

subsection \<open>Reasoning about runs\<close>

lemma try_catch_log_and_rethrow [simp]: "try_catch m log_and_rethrow = m"
  by (rule ext) (simp add: try_catch_def log_and_rethrow_def throw_def split: prod.splits sum.splits)

lemma and_then_InrE:
  assumes "and_then m f s = (Inr y, s')"
  obtains x s1 where "m s = (Inr x, s1)" and "f x s1 = (Inr y, s')"
proof (cases "m s")
  case (Pair r s1)
  with assms show thesis
    by (cases r) (auto simp: and_then_def intro: that)
qed

lemma and_then_Inr: "m s = (Inr x, s1) \<Longrightarrow> and_then m f s = f x s1"
  by (simp add: and_then_def)

lemma and_then_Inl: "m s = (Inl e, s1) \<Longrightarrow> and_then m f s = (Inl e, s1)"
  by (simp add: and_then_def)

lemma invoke_InrE:
  assumes "invoke oracle wrap c s = (Inr v, s')"
  obtains "s' = s\<lparr>trace := trace s @ [(c, Returned (wrap v))]\<rparr>"
proof -
  from assms have "s' = s\<lparr>trace := trace s @ [(c, Returned (wrap v))]\<rparr>"
    by (cases "oracle (trace s) c") (auto simp: invoke_def)
  then show thesis by (rule that)
qed

lemma read_account_InrE:
  assumes "read_account r s = (Inr a, s')"
  obtains "r < length (heap s)" and "a = heap s ! r" and "s' = s"
proof -
  from assms have "r < length (heap s) \<and> a = heap s ! r \<and> s' = s"
    by (cases "r < length (heap s)") (auto simp: read_account_def)
  then show thesis using that by blast
qed

lemma return_InrE:
  assumes "return x s = (Inr y, s')"
  obtains "y = x" and "s' = s"
proof -
  from assms have "y = x \<and> s' = s" by (simp add: return_def)
  then show thesis using that by blast
qed

lemma new_Date_InrE:
  assumes "new_Date_toISOString w s = (Inr t, s')"
  obtains "t = date_now w (trace s)" and "s' = s"
proof -
  from assms have "t = date_now w (trace s) \<and> s' = s"
    by (auto simp: new_Date_toISOString_def)
  then show thesis using that by blast
qed

lemma lift_InrE:
  assumes "lift r s = (Inr y, s')"
  obtains "r = Inr y" and "s' = s"
proof -
  from assms have "r = Inr y \<and> s' = s" by (simp add: lift_def)
  then show thesis using that by blast
qed

lemma new_object_InrE:
  assumes "new_object a s = (Inr r, s')"
  obtains "r = length (heap s)" and "s' = s\<lparr>heap := heap s @ [a]\<rparr>"
proof -
  from assms have "r = length (heap s) \<and> s' = s\<lparr>heap := heap s @ [a]\<rparr>"
    by (auto simp: new_object_def)
  then show thesis using that by blast
qed

lemma set_client_InrE:
  assumes "set_client c s = (Inr u, s')"
  obtains "s' = s\<lparr>client := c\<rparr>"
proof -
  from assms have "s' = s\<lparr>client := c\<rparr>" by (auto simp: set_client_def)
  then show thesis by (rule that)
qed

lemma try_catch_InrE:
  assumes "try_catch m h s = (Inr y, s')"
  obtains "m s = (Inr y, s')" | e s1 where "m s = (Inl e, s1)" and "h e s1 = (Inr y, s')"
proof (cases "m s")
  case (Pair r s1)
  with assms show thesis
    by (cases r) (auto simp: try_catch_def intro: that)
qed

lemma try_finally_InrE:
  assumes "try_finally m f s = (Inr y, s')"
  obtains s1 where "m s = (Inr y, s1)" and "f s1 = (Inr (), s')"
proof (cases "m s")
  case (Pair r s1)
  show thesis
  proof (cases "f s1")
    case (Pair q s2)
    with \<open>m s = (r, s1)\<close> assms show thesis
      by (cases q) (auto simp: try_finally_def intro: that)
  qed
qed

lemma throw_not_Inr: "throw e s \<noteq> (Inr x, s')"
  by (simp add: throw_def)

lemma not_a_function_run:
  "not_a_function callee s = (Inl (JsError ''TypeError'' (callee @ '' is not a function'')), s)"
  by (simp add: not_a_function_def throw_def)

lemma not_a_function_not_Inr: "not_a_function callee s \<noteq> (Inr x, s')"
  by (simp add: not_a_function_run)

lemma and_then_not_a_function: "and_then (not_a_function callee) k = not_a_function callee"
  by (rule ext) (simp add: and_then_def not_a_function_run)

lemma invoke_unawaited_InrE:
  assumes "invoke_unawaited oracle wrap c s = (Inr u, s')"
  obtains out where "s' = s\<lparr>trace := trace s @ [(c, out)]\<rparr>"
proof -
  from assms have "\<exists>out. s' = s\<lparr>trace := trace s @ [(c, out)]\<rparr>"
    by (auto simp: invoke_unawaited_def)
  then show thesis using that by blast
qed

subsection \<open>The client handle\<close>

lemma getClient_Some: "client s = Some c \<Longrightarrow> getClient w s = (Inr c, s)"
  by (simp add: getClient_def return_def)

lemma getClient_returns:
  assumes "getClient w s = (Inr c, s')"
  obtains (kept) "client s = Some c" and "s' = s"
  | (made) "client s = None" and
      "s' = s\<lparr>client := Some c,
              trace := trace s @
                [(Client_forTestnet, Returned (VClient c)),
                 (Client_setOperator c (operatorId s) (operatorKey s), Returned VUnit),
                 (Client_setDefaultMaxTransactionFee c 50, Returned VUnit),
                 (Client_setDefaultMaxQueryPayment c 30, Returned VUnit)]\<rparr>"
proof (cases "client s")
  case None
  with assms have
    "s' = s\<lparr>client := Some c,
              trace := trace s @
                [(Client_forTestnet, Returned (VClient c)),
                 (Client_setOperator c (operatorId s) (operatorKey s), Returned VUnit),
                 (Client_setDefaultMaxTransactionFee c 50, Returned VUnit),
                 (Client_setDefaultMaxQueryPayment c 30, Returned VUnit)]\<rparr>"
    unfolding getClient_def
    apply simp
    apply (elim and_then_InrE invoke_InrE return_InrE set_client_InrE)
    apply clarify
    apply simp
    done
  with None show thesis by (rule made)
next
  case (Some c')
  with assms have "c' = c \<and> s' = s"
    by (simp add: getClient_def return_def)
  with Some show thesis using kept by blast
qed

lemma getClient_client: "getClient w s = (Inr c, s') \<Longrightarrow> client s' = Some c"
  by (erule getClient_returns) simp_all

lemma getClient_heap: "getClient w s = (Inr c, s') \<Longrightarrow> heap s' = heap s"
  by (erule getClient_returns) simp_all

lemma close_returns:
  assumes "close w s = (Inr u, s')"
  obtains (closed) c where "client s = Some c" and
      "s' = s\<lparr>client := None, trace := trace s @ [(Client_close c, Returned VUnit)]\<rparr>"
  | (idle) "client s = None" and "s' = s"
proof (cases "client s")
  case None
  with assms have "s' = s" by (simp add: close_def return_def)
  with None show thesis by (rule idle)
next
  case (Some c)
  with assms have
    "s' = s\<lparr>client := None, trace := trace s @ [(Client_close c, Returned VUnit)]\<rparr>"
    unfolding close_def
    apply simp
    apply (elim and_then_InrE invoke_InrE set_client_InrE)
    apply clarify
    apply simp
    done
  with Some show thesis by (rule closed)
qed

subsection \<open>The store of account records\<close>

lemma keeps_heap_return: "keeps_heap (return x)"
  by (simp add: keeps_heap_def return_def)

lemma keeps_heap_throw: "keeps_heap (throw e)"
  by (simp add: keeps_heap_def throw_def)

lemma keeps_heap_lift: "keeps_heap (lift r)"
  by (simp add: keeps_heap_def lift_def)

lemma keeps_heap_invoke: "keeps_heap (invoke oracle wrap c)"
  by (simp add: keeps_heap_def invoke_def split: sum.splits)

lemma keeps_heap_set_client: "keeps_heap (set_client c)"
  by (simp add: keeps_heap_def set_client_def)

lemma keeps_heap_read_account: "keeps_heap (read_account r)"
  by (simp add: keeps_heap_def read_account_def)

lemma keeps_heap_new_Date: "keeps_heap (new_Date_toISOString w)"
  by (simp add: keeps_heap_def new_Date_toISOString_def)

lemma keeps_heap_invoke_unawaited: "keeps_heap (invoke_unawaited oracle wrap c)"
  by (simp add: keeps_heap_def invoke_unawaited_def)

lemma keeps_heap_not_a_function: "keeps_heap (not_a_function callee)"
  by (simp add: keeps_heap_def not_a_function_run)

lemma keeps_heap_and_then:
  assumes "keeps_heap m" and "\<And>x. keeps_heap (f x)"
  shows "keeps_heap (and_then m f)"
  unfolding keeps_heap_def
proof
  fix s
  obtain r s1 where m: "m s = (r, s1)" by (cases "m s")
  from assms(1) m have h1: "heap s1 = heap s" by (auto simp: keeps_heap_def dest: spec[of _ s])
  show "heap (snd (and_then m f s)) = heap s"
  proof (cases r)
    case (Inl e)
    with m h1 show ?thesis by (simp add: and_then_def)
  next
    case (Inr x)
    from assms(2)[of x] have "heap (snd (f x s1)) = heap s1" by (simp add: keeps_heap_def)
    with m h1 Inr show ?thesis by (simp add: and_then_def)
  qed
qed

lemma keeps_heap_try_catch:
  assumes "keeps_heap m" and "\<And>e. keeps_heap (h e)"
  shows "keeps_heap (try_catch m h)"
  unfolding keeps_heap_def
proof
  fix s
  obtain r s1 where m: "m s = (r, s1)" by (cases "m s")
  from assms(1) m have h1: "heap s1 = heap s" by (auto simp: keeps_heap_def dest: spec[of _ s])
  show "heap (snd (try_catch m h s)) = heap s"
  proof (cases r)
    case (Inr x)
    with m h1 show ?thesis by (simp add: try_catch_def)
  next
    case (Inl e)
    from assms(2)[of e] have "heap (snd (h e s1)) = heap s1" by (simp add: keeps_heap_def)
    with m h1 Inl show ?thesis by (simp add: try_catch_def)
  qed
qed

lemmas keeps_heap_intros =
  keeps_heap_and_then keeps_heap_try_catch keeps_heap_return keeps_heap_throw keeps_heap_lift
  keeps_heap_invoke keeps_heap_set_client keeps_heap_read_account keeps_heap_new_Date
  keeps_heap_invoke_unawaited keeps_heap_not_a_function

lemma keeps_heap_getClient: "keeps_heap (getClient w)"
proof -
  have "heap (snd (getClient w s)) = heap s" for s
  proof (cases "client s")
    case None
    have "keeps_heap
      (and_then (invoke (returns_client w) VClient Client_forTestnet) (\<lambda>c.
       and_then (set_client (Some c)) (\<lambda>_.
       and_then (invoke (returns_unit w) (\<lambda>_. VUnit)
                   (Client_setOperator c (operatorId s) (operatorKey s))) (\<lambda>_.
       and_then (invoke (returns_unit w) (\<lambda>_. VUnit)
                   (Client_setDefaultMaxTransactionFee c 50)) (\<lambda>_.
       and_then (invoke (returns_unit w) (\<lambda>_. VUnit)
                   (Client_setDefaultMaxQueryPayment c 30)) (\<lambda>_.
       return c))))))"
      by (intro keeps_heap_intros)
    with None show ?thesis by (simp add: getClient_def keeps_heap_def)
  next
    case (Some c)
    then show ?thesis by (simp add: getClient_def return_def)
  qed
  then show ?thesis by (simp add: keeps_heap_def)
qed

lemma keeps_heap_createNFTToken: "keeps_heap (createNFTToken w a cfg)"
  unfolding createNFTToken_def Let_def try_catch_log_and_rethrow
  by (intro keeps_heap_intros keeps_heap_getClient)

lemma keeps_heap_mintNFTs: "keeps_heap (mintNFTs w tok md)"
  unfolding mintNFTs_def Let_def try_catch_log_and_rethrow
  by (intro keeps_heap_intros keeps_heap_getClient)

lemma keeps_heap_associate: "keeps_heap (associateTokenToAccount w a t)"
  unfolding associateTokenToAccount_def Let_def try_catch_log_and_rethrow
  by (intro keeps_heap_intros keeps_heap_getClient)

lemma keeps_heap_account_id_of: "keeps_heap (account_id_of a)"
  unfolding account_id_of_def by (cases a) (simp_all, (intro keeps_heap_intros)+)

lemma keeps_heap_readable_balance: "keeps_heap (readable_balance aid bal)"
  unfolding readable_balance_def Let_def
  by (cases "ab_tokens bal") (simp_all add: keeps_heap_intros)

lemma keeps_heap_getAccountBalance: "keeps_heap (getAccountBalance w a)"
  unfolding getAccountBalance_def try_catch_log_and_rethrow
  by (intro keeps_heap_intros keeps_heap_getClient keeps_heap_account_id_of
        keeps_heap_readable_balance)

lemma keeps_heap_transferNFT: "keeps_heap (transferNFT w t a b n)"
  unfolding transferNFT_def Let_def try_catch_log_and_rethrow
  by (intro keeps_heap_intros keeps_heap_getClient)

lemma keeps_heap_tolerate:
  "keeps_heap (if String_includes (message e) ''TOKEN_ALREADY_ASSOCIATED''
               then return () else throw e)"
  by (simp add: keeps_heap_return keeps_heap_throw)

lemma keeps_heap_transferNFTWithBalanceCheck:
  "keeps_heap (transferNFTWithBalanceCheck w t a b n)"
  unfolding transferNFTWithBalanceCheck_def associate_if_needed_def Let_def
    try_catch_log_and_rethrow
  by (intro keeps_heap_intros keeps_heap_getAccountBalance keeps_heap_associate
        keeps_heap_transferNFT keeps_heap_tolerate)

text \<open>
  C8. No service method that is handed an account record changes the store: every
  account record has the same identifier, keys, status and balance after the call as
  before it, whatever the SDK answers.
\<close>

theorem account_records_unchanged:
  "heap (snd (createNFTToken w treasuryAccount tokenConfig s)) = heap s \<and>
   heap (snd (mintNFTs w tokenData metadataArray s)) = heap s \<and>
   heap (snd (associateTokenToAccount w account tokenId s)) = heap s \<and>
   heap (snd (getAccountBalance w account_arg s)) = heap s \<and>
   heap (snd (transferNFT w tokenId fromAccount toAccount serialNumber s)) = heap s \<and>
   heap (snd (transferNFTWithBalanceCheck w tokenId fromAccount toAccount serialNumber s)) = heap s"
  by (simp add: keeps_heap_createNFTToken [unfolded keeps_heap_def]
        keeps_heap_mintNFTs [unfolded keeps_heap_def]
        keeps_heap_associate [unfolded keeps_heap_def]
        keeps_heap_getAccountBalance [unfolded keeps_heap_def]
        keeps_heap_transferNFT [unfolded keeps_heap_def]
        keeps_heap_transferNFTWithBalanceCheck [unfolded keeps_heap_def])

subsection \<open>The constructor\<close>

text \<open>
  C9. The constructor throws when \<open>OPERATOR_ID\<close> or \<open>OPERATOR_KEY\<close> is unset or empty,
  and returns when both are set and not empty; either way the client field is
  \<open>null\<close> and no SDK call has been made.
\<close>

theorem constructor_needs_operator:
  "(env ''OPERATOR_ID'' = None \<or> env ''OPERATOR_ID'' = Some [] \<or>
    env ''OPERATOR_KEY'' = None \<or> env ''OPERATOR_KEY'' = Some []
      \<longrightarrow> fst (constructor env s) =
            Inl (JsError ''Error'' ''Please set OPERATOR_ID and OPERATOR_KEY in your .env file'')) \<and>
   (\<forall>i k. env ''OPERATOR_ID'' = Some i \<and> i \<noteq> [] \<and> env ''OPERATOR_KEY'' = Some k \<and> k \<noteq> []
      \<longrightarrow> fst (constructor env s) = Inr ()) \<and>
   client (snd (constructor env s)) = None \<and>
   trace (snd (constructor env s)) = trace s \<and>
   heap (snd (constructor env s)) = heap s"
  by (auto simp: constructor_def falsy_def Let_def split: option.splits)

theorem constructor_needs_operator_witness:
  "fst (constructor demo_env fresh_state) = Inr () \<and>
   fst (constructor (\<lambda>x. if x = ''OPERATOR_ID'' then Some ''0.0.2'' else None) fresh_state) =
     Inl (JsError ''Error'' ''Please set OPERATOR_ID and OPERATOR_KEY in your .env file'') \<and>
   fst (constructor (demo_env(''OPERATOR_KEY'' := Some [])) fresh_state) =
     Inl (JsError ''Error'' ''Please set OPERATOR_ID and OPERATOR_KEY in your .env file'') \<and>
   client (snd (constructor demo_env fresh_state)) = None"
  using constructor_needs_operator [of demo_env fresh_state]
    constructor_needs_operator
      [of "\<lambda>x. if x = ''OPERATOR_ID'' then Some ''0.0.2'' else None" fresh_state]
    constructor_needs_operator [of "demo_env(''OPERATOR_KEY'' := Some [])" fresh_state]
  by (simp add: demo_env_def)

subsection \<open>The script\<close>

lemma main_no_record: "main w env info cids s \<noteq> (Inr (Some r), s')"
proof
  assume "main w env info cids s = (Inr (Some r), s')"
  then show False
    unfolding main_def
    apply (elim and_then_InrE try_finally_InrE try_catch_InrE)
     apply (simp add: unbound_identifier_def throw_def)
    apply (simp add: return_def)
    done
qed

text \<open>
  C1 (the code departs from it). \<open>main\<close> never returns the record of its \<open>return\<close>
  statement: the first balance query names the unbound identifier \<open>alice\<close>, the
  \<open>ReferenceError\<close> is caught and \<open>main\<close> returns \<open>undefined\<close>. On a ledger where
  every SDK call succeeds, the run makes the calls of the two account creations, the
  token creation and the mint, then closes the client: no balance query, no transfer.
\<close>

theorem main_stops_at_alice:
  "(\<forall>w env info cids s r. fst (main w env info cids s) \<noteq> Inr (Some r)) \<and>
   fst (main all_succeed demo_env demo_info demo_cids fresh_state) = Inr None \<and>
   calls_since fresh_state (snd (main all_succeed demo_env demo_info demo_cids fresh_state)) =
     [''Client.forTestnet'', ''Client.setOperator'',
      ''Client.setDefaultMaxTransactionFee'', ''Client.setDefaultMaxQueryPayment'',
      ''PrivateKey.generateED25519'', ''AccountCreateTransaction.execute'',
      ''TransactionResponse.getReceipt'',
      ''PrivateKey.generateED25519'', ''AccountCreateTransaction.execute'',
      ''TransactionResponse.getReceipt'',
      ''TokenCreateTransaction.freezeWith'', ''Transaction.sign'', ''Transaction.execute'',
      ''TransactionResponse.getReceipt'', ''TokenInfoQuery.execute'',
      ''TokenMintTransaction.freezeWith'', ''Transaction.sign'', ''Transaction.execute'',
      ''TransactionResponse.getReceipt'',
      ''Client.close'']"
proof (intro conjI allI)
  fix w env info cids s r
  show "fst (main w env info cids s) \<noteq> Inr (Some r)"
    using main_no_record [of w env info cids s r "snd (main w env info cids s)"]
    by (cases "main w env info cids s") auto
next
  show "fst (main all_succeed demo_env demo_info demo_cids fresh_state) = Inr None"
    by code_simp
next
  show "calls_since fresh_state (snd (main all_succeed demo_env demo_info demo_cids fresh_state)) =
     [''Client.forTestnet'', ''Client.setOperator'',
      ''Client.setDefaultMaxTransactionFee'', ''Client.setDefaultMaxQueryPayment'',
      ''PrivateKey.generateED25519'', ''AccountCreateTransaction.execute'',
      ''TransactionResponse.getReceipt'',
      ''PrivateKey.generateED25519'', ''AccountCreateTransaction.execute'',
      ''TransactionResponse.getReceipt'',
      ''TokenCreateTransaction.freezeWith'', ''Transaction.sign'', ''Transaction.execute'',
      ''TransactionResponse.getReceipt'', ''TokenInfoQuery.execute'',
      ''TokenMintTransaction.freezeWith'', ''Transaction.sign'', ''Transaction.execute'',
      ''TransactionResponse.getReceipt'',
      ''Client.close'']"
    by code_simp
qed

subsection \<open>Lifecycle of the client handle\<close>

lemma getClient_first_call:
  assumes "client s = None"
  shows "\<exists>out rest. events_since s (snd (getClient w s)) = (Client_forTestnet, out) # rest"
proof (cases "returns_client w (trace s) Client_forTestnet")
  case (Inl e)
  with assms show ?thesis
    by (simp add: getClient_def and_then_def invoke_def events_since_def)
next
  case (Inr c)
  let ?s1 = "s\<lparr>trace := trace s @ [(Client_forTestnet, Returned (VClient c))]\<rparr>"
  let ?rest = "and_then (set_client (Some c)) (\<lambda>_.
          and_then (invoke (returns_unit w) (\<lambda>_. VUnit)
                      (Client_setOperator c (operatorId s) (operatorKey s))) (\<lambda>_.
          and_then (invoke (returns_unit w) (\<lambda>_. VUnit)
                      (Client_setDefaultMaxTransactionFee c 50)) (\<lambda>_.
          and_then (invoke (returns_unit w) (\<lambda>_. VUnit)
                      (Client_setDefaultMaxQueryPayment c 30)) (\<lambda>_.
          return c))))"
  have grow: "\<exists>evs. trace (snd (?rest s0)) = trace s0 @ evs" for s0
    by (auto simp: and_then_def set_client_def invoke_def return_def split: sum.splits)
  from grow [of ?s1] obtain evs where "trace (snd (?rest ?s1)) = trace ?s1 @ evs" ..
  moreover from assms Inr have "getClient w s = ?rest ?s1"
    by (simp add: getClient_def and_then_def invoke_def)
  ultimately show ?thesis by (simp add: events_since_def)
qed

text \<open>
  C6. The service has one client field. With a handle stored, \<open>getClient\<close> returns it
  and changes nothing; with none stored, its first call constructs a client, and when
  it returns the handle is the stored one, configured by three calls, and returned
  again by the next \<open>getClient\<close>. A \<open>close\<close> that returns has released the stored handle
  and reset the field to \<open>null\<close>, so that the next \<open>getClient\<close> constructs a client
  anew; with no handle stored \<open>close\<close> does nothing.
\<close>

theorem client_handle_lifecycle:
  "(client s = Some c \<longrightarrow> getClient w s = (Inr c, s)) \<and>
   (client s = None \<longrightarrow>
      (\<exists>out rest. events_since s (snd (getClient w s)) = (Client_forTestnet, out) # rest)) \<and>
   (client s = None \<longrightarrow> getClient w s = (Inr c, s1) \<longrightarrow>
      client s1 = Some c \<and>
      events_since s s1 =
        [(Client_forTestnet, Returned (VClient c)),
         (Client_setOperator c (operatorId s) (operatorKey s), Returned VUnit),
         (Client_setDefaultMaxTransactionFee c 50, Returned VUnit),
         (Client_setDefaultMaxQueryPayment c 30, Returned VUnit)] \<and>
      getClient w s1 = (Inr c, s1)) \<and>
   (client s = Some c \<longrightarrow> close w s = (Inr (), s2) \<longrightarrow>
      client s2 = None \<and>
      events_since s s2 = [(Client_close c, Returned VUnit)] \<and>
      (\<exists>out rest. events_since s2 (snd (getClient w s2)) = (Client_forTestnet, out) # rest)) \<and>
   (client s = None \<longrightarrow> close w s = (Inr (), s))"
proof (intro conjI impI)
  assume "client s = Some c"
  then show "getClient w s = (Inr c, s)" by (rule getClient_Some)
next
  assume "client s = None"
  then show "\<exists>out rest. events_since s (snd (getClient w s)) = (Client_forTestnet, out) # rest"
    by (rule getClient_first_call)
next
  assume none: "client s = None" and run: "getClient w s = (Inr c, s1)"
  from run none have
    s1: "s1 = s\<lparr>client := Some c,
              trace := trace s @
                [(Client_forTestnet, Returned (VClient c)),
                 (Client_setOperator c (operatorId s) (operatorKey s), Returned VUnit),
                 (Client_setDefaultMaxTransactionFee c 50, Returned VUnit),
                 (Client_setDefaultMaxQueryPayment c 30, Returned VUnit)]\<rparr>"
    by (elim getClient_returns) simp_all
  then show "client s1 = Some c" by simp
  from s1 show "events_since s s1 =
        [(Client_forTestnet, Returned (VClient c)),
         (Client_setOperator c (operatorId s) (operatorKey s), Returned VUnit),
         (Client_setDefaultMaxTransactionFee c 50, Returned VUnit),
         (Client_setDefaultMaxQueryPayment c 30, Returned VUnit)]"
    by (simp add: events_since_def)
  from \<open>client s1 = Some c\<close> show "getClient w s1 = (Inr c, s1)" by (rule getClient_Some)
next
  assume some: "client s = Some c" and run: "close w s = (Inr (), s2)"
  from run some have
    s2: "s2 = s\<lparr>client := None, trace := trace s @ [(Client_close c, Returned VUnit)]\<rparr>"
    by (elim close_returns) simp_all
  then show none2: "client s2 = None" by simp
  from s2 show "events_since s s2 = [(Client_close c, Returned VUnit)]"
    by (simp add: events_since_def)
  from none2 show
    "\<exists>out rest. events_since s2 (snd (getClient w s2)) = (Client_forTestnet, out) # rest"
    by (rule getClient_first_call)
next
  assume "client s = None"
  then show "close w s = (Inr (), s)" by (simp add: close_def return_def)
qed

theorem client_handle_lifecycle_witness:
  "client fresh_state = None \<and>
   getClient all_succeed fresh_state = (Inr (Client 0), connected_state) \<and>
   client connected_state = Some (Client 0) \<and>
   getClient all_succeed connected_state = (Inr (Client 0), connected_state) \<and>
   close all_succeed connected_state = (Inr (), closed_state) \<and>
   client closed_state = None \<and>
   events_since connected_state closed_state = [(Client_close (Client 0), Returned VUnit)] \<and>
   close all_succeed fresh_state = (Inr (), fresh_state)"
proof -
  have none: "client fresh_state = None"
    by (simp add: fresh_state_def)
  have run: "getClient all_succeed fresh_state = (Inr (Client 0), connected_state)"
    unfolding connected_state_def
    by (simp add: getClient_def fresh_state_def all_succeed_def and_then_def invoke_def
          set_client_def return_def)
  note made = client_handle_lifecycle
    [of fresh_state "Client 0" all_succeed connected_state fresh_state]
  from made none run have some: "client connected_state = Some (Client 0)"
    and again: "getClient all_succeed connected_state = (Inr (Client 0), connected_state)"
    by blast+
  have shut: "close all_succeed connected_state = (Inr (), closed_state)"
    unfolding closed_state_def using some
    by (simp add: close_def all_succeed_def and_then_def invoke_def set_client_def)
  note released = client_handle_lifecycle
    [of connected_state "Client 0" all_succeed connected_state closed_state]
  from released some shut have "client closed_state = None"
    and "events_since connected_state closed_state = [(Client_close (Client 0), Returned VUnit)]"
    by blast+
  moreover from made none have "close all_succeed fresh_state = (Inr (), fresh_state)"
    by blast
  ultimately show ?thesis using none run some again shut by blast
qed

subsection \<open>Errors of the SDK\<close>

lemma fail_fast_append:
  "fail_fast None evs \<Longrightarrow> fail_fast r (evs @ evs') = fail_fast r evs'"
  by (induction "None :: jserror option" evs rule: fail_fast.induct) simp_all

lemma fails_fastI:
  assumes "\<And>s. \<exists>evs. trace (snd (m s)) = trace s @ evs \<and> fail_fast (thrown (fst (m s))) evs"
  shows "fails_fast m"
  using assms by (simp add: fails_fast_def)

lemma fails_fastD:
  assumes "fails_fast m" and "m s = (r, s')"
  obtains evs where "trace s' = trace s @ evs" and "fail_fast (thrown r) evs"
  using assms by (auto simp: fails_fast_def dest!: spec[of _ s])

lemma fails_fast_silent:
  assumes "\<And>s. trace (snd (m s)) = trace s"
  shows "fails_fast m"
  by (rule fails_fastI) (simp add: assms)

lemma fails_fast_return: "fails_fast (return x)"
  by (rule fails_fast_silent) (simp add: return_def)

lemma fails_fast_throw: "fails_fast (throw e)"
  by (rule fails_fast_silent) (simp add: throw_def)

lemma fails_fast_lift: "fails_fast (lift r)"
  by (rule fails_fast_silent) (simp add: lift_def)

lemma fails_fast_set_client: "fails_fast (set_client c)"
  by (rule fails_fast_silent) (simp add: set_client_def)

lemma fails_fast_read_account: "fails_fast (read_account r)"
  by (rule fails_fast_silent) (simp add: read_account_def)

lemma fails_fast_new_Date: "fails_fast (new_Date_toISOString w)"
  by (rule fails_fast_silent) (simp add: new_Date_toISOString_def)

lemma fails_fast_new_object: "fails_fast (new_object a)"
  by (rule fails_fast_silent) (simp add: new_object_def)

lemma fails_fast_not_a_function: "fails_fast (not_a_function callee)"
  by (rule fails_fast_silent) (simp add: not_a_function_run)

lemma fails_fast_invoke: "fails_fast (invoke oracle wrap c)"
proof (rule fails_fastI)
  fix s
  show "\<exists>evs. trace (snd (invoke oracle wrap c s)) = trace s @ evs \<and>
              fail_fast (thrown (fst (invoke oracle wrap c s))) evs"
    by (cases "oracle (trace s) c") (simp_all add: invoke_def)
qed

lemma fails_fast_and_then:
  assumes m: "fails_fast m" and f: "\<And>x. fails_fast (f x)"
  shows "fails_fast (and_then m f)"
proof (rule fails_fastI)
  fix s
  obtain r s1 where run: "m s = (r, s1)" by (cases "m s")
  from m run obtain evs1 where t1: "trace s1 = trace s @ evs1"
    and ff1: "fail_fast (thrown r) evs1" by (rule fails_fastD)
  show "\<exists>evs. trace (snd (and_then m f s)) = trace s @ evs \<and>
              fail_fast (thrown (fst (and_then m f s))) evs"
  proof (cases r)
    case (Inl e)
    with run t1 ff1 show ?thesis by (simp add: and_then_def)
  next
    case (Inr x)
    obtain r2 s2 where run2: "f x s1 = (r2, s2)" by (cases "f x s1")
    from f [of x] run2 obtain evs2 where t2: "trace s2 = trace s1 @ evs2"
      and ff2: "fail_fast (thrown r2) evs2" by (rule fails_fastD)
    from Inr ff1 have "fail_fast None evs1" by simp
    then have "fail_fast (thrown r2) (evs1 @ evs2)" using ff2 by (simp add: fail_fast_append)
    with run run2 Inr t1 t2 show ?thesis by (simp add: and_then_def)
  qed
qed

lemma fails_fast_if:
  "fails_fast m \<Longrightarrow> fails_fast n \<Longrightarrow> fails_fast (if b then m else n)"
  by simp

lemmas fails_fast_intros =
  fails_fast_and_then fails_fast_return fails_fast_throw fails_fast_lift fails_fast_set_client
  fails_fast_read_account fails_fast_new_Date fails_fast_new_object fails_fast_invoke
  fails_fast_if fails_fast_not_a_function

lemma fails_fast_getClient: "fails_fast (getClient w)"
proof (rule fails_fastI)
  fix s
  show "\<exists>evs. trace (snd (getClient w s)) = trace s @ evs \<and>
              fail_fast (thrown (fst (getClient w s))) evs"
  proof (cases "client s")
    case None
    have "fails_fast
      (and_then (invoke (returns_client w) VClient Client_forTestnet) (\<lambda>c.
       and_then (set_client (Some c)) (\<lambda>_.
       and_then (invoke (returns_unit w) (\<lambda>_. VUnit)
                   (Client_setOperator c (operatorId s) (operatorKey s))) (\<lambda>_.
       and_then (invoke (returns_unit w) (\<lambda>_. VUnit)
                   (Client_setDefaultMaxTransactionFee c 50)) (\<lambda>_.
       and_then (invoke (returns_unit w) (\<lambda>_. VUnit)
                   (Client_setDefaultMaxQueryPayment c 30)) (\<lambda>_.
       return c))))))"
      by (intro fails_fast_intros)
    with None show ?thesis by (simp add: getClient_def fails_fast_def)
  next
    case (Some c)
    then show ?thesis by (simp add: getClient_def return_def)
  qed
qed

lemma fails_fast_close: "fails_fast (close w)"
proof (rule fails_fastI)
  fix s
  show "\<exists>evs. trace (snd (close w s)) = trace s @ evs \<and>
              fail_fast (thrown (fst (close w s))) evs"
  proof (cases "client s")
    case None
    then show ?thesis by (simp add: close_def return_def)
  next
    case (Some c)
    have "fails_fast
      (and_then (invoke (returns_unit w) (\<lambda>_. VUnit) (Client_close c)) (\<lambda>_. set_client None))"
      by (intro fails_fast_intros)
    with Some show ?thesis by (simp add: close_def fails_fast_def)
  qed
qed

lemma fails_fast_createAccount: "fails_fast (createAccount w b)"
  unfolding createAccount_def Let_def try_catch_log_and_rethrow
  by (intro fails_fast_intros fails_fast_getClient)

lemma fails_fast_createNFTToken: "fails_fast (createNFTToken w a cfg)"
  unfolding createNFTToken_def Let_def try_catch_log_and_rethrow
  by (intro fails_fast_intros fails_fast_getClient)

lemma fails_fast_mintNFTs: "fails_fast (mintNFTs w tok md)"
  unfolding mintNFTs_def Let_def try_catch_log_and_rethrow
  by (intro fails_fast_intros fails_fast_getClient)

lemma fails_fast_getTokenBasicInfo: "fails_fast (getTokenBasicInfo w t)"
  unfolding getTokenBasicInfo_def Let_def try_catch_log_and_rethrow
  by (intro fails_fast_intros fails_fast_getClient)

lemma fails_fast_associate: "fails_fast (associateTokenToAccount w a t)"
  unfolding associateTokenToAccount_def Let_def try_catch_log_and_rethrow
  by (intro fails_fast_intros fails_fast_getClient)

lemma fails_fast_account_id_of: "fails_fast (account_id_of a)"
  unfolding account_id_of_def by (cases a) (simp_all, (intro fails_fast_intros)+)

lemma fails_fast_readable_balance: "fails_fast (readable_balance aid bal)"
  unfolding readable_balance_def Let_def
  by (cases "ab_tokens bal") (simp_all add: fails_fast_intros)

lemma fails_fast_getAccountBalance: "fails_fast (getAccountBalance w a)"
  unfolding getAccountBalance_def try_catch_log_and_rethrow
  by (intro fails_fast_intros fails_fast_getClient fails_fast_account_id_of
        fails_fast_readable_balance)

lemma fails_fast_createCompleteNFTCollection:
  "fails_fast (createCompleteNFTCollection w cfg md b)"
  unfolding createCompleteNFTCollection_def Let_def try_catch_log_and_rethrow
  by (intro fails_fast_intros fails_fast_createAccount fails_fast_createNFTToken
        fails_fast_mintNFTs)

lemma associate_if_needed_run:
  "associate_if_needed w account tokenId s =
     (case associateTokenToAccount w account tokenId s of
        (Inr a, s') \<Rightarrow> (Inr (), s')
      | (Inl e, s') \<Rightarrow>
          if String_includes (message e) ''TOKEN_ALREADY_ASSOCIATED''
          then (Inr (), s') else (Inl e, s'))"
  by (simp add: associate_if_needed_def try_catch_def and_then_def return_def throw_def
        split: prod.splits sum.splits)

lemma associate_if_needed_tolerates:
  "\<exists>evs. trace (snd (associate_if_needed w account tokenId s)) = trace s @ evs \<and>
     (fail_fast (thrown (fst (associate_if_needed w account tokenId s))) evs \<or>
      (\<exists>e. associateTokenToAccount w account tokenId s
              = (Inl e, snd (associate_if_needed w account tokenId s)) \<and>
           String_includes (message e) ''TOKEN_ALREADY_ASSOCIATED'' \<and>
           fst (associate_if_needed w account tokenId s) = Inr () \<and>
           fail_fast (Some e) evs))"
proof -
  obtain r s1 where run: "associateTokenToAccount w account tokenId s = (r, s1)"
    by (cases "associateTokenToAccount w account tokenId s")
  from fails_fast_associate run obtain evs where t: "trace s1 = trace s @ evs"
    and ff: "fail_fast (thrown r) evs" by (rule fails_fastD)
  show ?thesis
  proof (cases r)
    case (Inr a)
    with run t ff show ?thesis by (simp add: associate_if_needed_run)
  next
    case (Inl e)
    with run t ff show ?thesis by (simp add: associate_if_needed_run)
  qed
qed

lemma transferNFT_sign_fails:
  "transferNFT (sign_fails invalid_signature) (Some (TokenId ''0.0.2001'')) 0 1
     (Some (Long ''1'')) ready_state =
     (Inl (JsError ''TypeError'' ''transaction.sign(...).sign is not a function''),
      ready_state\<lparr>trace :=
        [(TransferTransaction_freezeWith (Some (TokenId ''0.0.2001'')) (Some (Long ''1''))
            (Some (AccountId ''0.0.1001'')) (Some (AccountId ''0.0.1002'')) (Client 0),
          Returned (VTransaction (Transaction 0))),
         (Transaction_sign (Transaction 0) (PrivateKey 1 (PublicKey 1)),
          Threw invalid_signature)]\<rparr>)"
  by (simp add: transferNFT_def getClient_def read_account_def and_then_def try_catch_def
        log_and_rethrow_def invoke_def invoke_unawaited_def not_a_function_run return_def
        throw_def sign_fails_def all_succeed_def ready_state_def demo_account_def
        demo_account2_def)

text \<open>
  C3 (the code departs from it). In every run of \<open>getClient\<close>, \<open>close\<close>,
  \<open>createAccount\<close>, \<open>createNFTToken\<close>, \<open>mintNFTs\<close>, \<open>getTokenBasicInfo\<close>,
  \<open>associateTokenToAccount\<close>, \<open>getAccountBalance\<close> and \<open>createCompleteNFTCollection\<close>,
  an SDK call that throws is the last SDK call of the run and the method throws the
  error that call threw. The association step of \<open>transferNFTWithBalanceCheck\<close> does
  the same, except that it returns when \<open>associateTokenToAccount\<close> has thrown an error
  whose message contains \<open>TOKEN_ALREADY_ASSOCIATED\<close>. \<open>transferNFT\<close> does not: it
  never awaits its first \<open>sign\<close>, so on a ledger where that call fails with
  \<open>INVALID_SIGNATURE\<close> the method throws the \<open>TypeError\<close> of the chained call instead
  of that error.
\<close>

theorem sdk_errors_rethrown_but_by_transferNFT:
  "fails_fast (getClient w) \<and>
   fails_fast (close w) \<and>
   fails_fast (createAccount w initialBalance) \<and>
   fails_fast (createNFTToken w treasuryAccount tokenConfig) \<and>
   fails_fast (mintNFTs w tokenData metadataArray) \<and>
   fails_fast (getTokenBasicInfo w tokenId) \<and>
   fails_fast (associateTokenToAccount w account tokenId) \<and>
   fails_fast (getAccountBalance w account_arg) \<and>
   fails_fast (createCompleteNFTCollection w tokenConfig metadataList initialBalance) \<and>
   (\<exists>evs. trace (snd (associate_if_needed w account tokenId s)) = trace s @ evs \<and>
      (fail_fast (thrown (fst (associate_if_needed w account tokenId s))) evs \<or>
       (\<exists>e. associateTokenToAccount w account tokenId s
               = (Inl e, snd (associate_if_needed w account tokenId s)) \<and>
            String_includes (message e) ''TOKEN_ALREADY_ASSOCIATED'' \<and>
            fst (associate_if_needed w account tokenId s) = Inr () \<and>
            fail_fast (Some e) evs))) \<and>
   transferNFT (sign_fails invalid_signature) (Some (TokenId ''0.0.2001'')) 0 1
     (Some (Long ''1'')) ready_state =
     (Inl (JsError ''TypeError'' ''transaction.sign(...).sign is not a function''),
      ready_state\<lparr>trace :=
        [(TransferTransaction_freezeWith (Some (TokenId ''0.0.2001'')) (Some (Long ''1''))
            (Some (AccountId ''0.0.1001'')) (Some (AccountId ''0.0.1002'')) (Client 0),
          Returned (VTransaction (Transaction 0))),
         (Transaction_sign (Transaction 0) (PrivateKey 1 (PublicKey 1)),
          Threw invalid_signature)]\<rparr>) \<and>
   \<not> fails_fast (transferNFT (sign_fails invalid_signature) (Some (TokenId ''0.0.2001'')) 0 1
                   (Some (Long ''1'')))"
proof -
  have broken: "\<not> fails_fast (transferNFT (sign_fails invalid_signature)
                   (Some (TokenId ''0.0.2001'')) 0 1 (Some (Long ''1'')))"
  proof
    assume "fails_fast (transferNFT (sign_fails invalid_signature)
                   (Some (TokenId ''0.0.2001'')) 0 1 (Some (Long ''1'')))"
    from fails_fastD [OF this transferNFT_sign_fails]
    obtain evs where "trace (ready_state\<lparr>trace :=
        [(TransferTransaction_freezeWith (Some (TokenId ''0.0.2001'')) (Some (Long ''1''))
            (Some (AccountId ''0.0.1001'')) (Some (AccountId ''0.0.1002'')) (Client 0),
          Returned (VTransaction (Transaction 0))),
         (Transaction_sign (Transaction 0) (PrivateKey 1 (PublicKey 1)),
          Threw invalid_signature)]\<rparr>) = trace ready_state @ evs"
      and "fail_fast
             (thrown (Inl (JsError ''TypeError'' ''transaction.sign(...).sign is not a function'')
                :: jserror + transfer_result)) evs"
      by blast
    then show False by (auto simp add: ready_state_def invalid_signature_def)
  qed
  show ?thesis
    by (intro conjI fails_fast_getClient fails_fast_close fails_fast_createAccount
        fails_fast_createNFTToken fails_fast_mintNFTs fails_fast_getTokenBasicInfo
        fails_fast_associate fails_fast_getAccountBalance
        fails_fast_createCompleteNFTCollection associate_if_needed_tolerates
        transferNFT_sign_fails broken)
qed

subsection \<open>Which calls a run makes\<close>

lemma fails_fast_grows:
  assumes "fails_fast m"
  shows "\<exists>evs. trace (snd (m s)) = trace s @ evs"
  using assms by (auto simp: fails_fast_def dest!: spec[of _ s])

lemma only_callsD:
  assumes "only_calls P m" and "m s = (r, s')"
  obtains evs where "trace s' = trace s @ evs" and "list_all (\<lambda>ev. P (fst ev)) evs"
  using assms by (auto simp: only_calls_def dest!: spec[of _ s])

lemma only_calls_silent:
  assumes "\<And>s. trace (snd (m s)) = trace s"
  shows "only_calls P m"
  by (simp add: only_calls_def assms)

lemma only_calls_return: "only_calls P (return x)"
  by (rule only_calls_silent) (simp add: return_def)

lemma only_calls_throw: "only_calls P (throw e)"
  by (rule only_calls_silent) (simp add: throw_def)

lemma only_calls_lift: "only_calls P (lift r)"
  by (rule only_calls_silent) (simp add: lift_def)

lemma only_calls_set_client: "only_calls P (set_client c)"
  by (rule only_calls_silent) (simp add: set_client_def)

lemma only_calls_read_account: "only_calls P (read_account r)"
  by (rule only_calls_silent) (simp add: read_account_def)

lemma only_calls_new_Date: "only_calls P (new_Date_toISOString w)"
  by (rule only_calls_silent) (simp add: new_Date_toISOString_def)

lemma only_calls_invoke: "P c \<Longrightarrow> only_calls P (invoke oracle wrap c)"
  by (simp add: only_calls_def invoke_def split: sum.splits)

lemma only_calls_invoke_unawaited: "P c \<Longrightarrow> only_calls P (invoke_unawaited oracle wrap c)"
  by (simp add: only_calls_def invoke_unawaited_def)

lemma only_calls_not_a_function: "only_calls P (not_a_function callee)"
  by (rule only_calls_silent) (simp add: not_a_function_run)

lemma only_calls_and_then:
  assumes m: "only_calls P m" and f: "\<And>x. only_calls P (f x)"
  shows "only_calls P (and_then m f)"
  unfolding only_calls_def
proof
  fix s
  obtain r s1 where run: "m s = (r, s1)" by (cases "m s")
  from m run obtain evs1 where t1: "trace s1 = trace s @ evs1"
    and p1: "list_all (\<lambda>ev. P (fst ev)) evs1" by (rule only_callsD)
  show "\<exists>evs. trace (snd (and_then m f s)) = trace s @ evs \<and> list_all (\<lambda>ev. P (fst ev)) evs"
  proof (cases r)
    case (Inl e)
    with run t1 p1 show ?thesis by (simp add: and_then_def)
  next
    case (Inr x)
    obtain r2 s2 where run2: "f x s1 = (r2, s2)" by (cases "f x s1")
    from f [of x] run2 obtain evs2 where t2: "trace s2 = trace s1 @ evs2"
      and p2: "list_all (\<lambda>ev. P (fst ev)) evs2" by (rule only_callsD)
    from p1 p2 have "list_all (\<lambda>ev. P (fst ev)) (evs1 @ evs2)" by simp
    with run run2 Inr t1 t2 show ?thesis by (simp add: and_then_def)
  qed
qed

lemmas only_calls_intros =
  only_calls_and_then only_calls_return only_calls_throw only_calls_lift only_calls_set_client
  only_calls_read_account only_calls_new_Date only_calls_not_a_function

lemma no_transfer_getClient: "only_calls (\<lambda>c. \<not> is_transfer c) (getClient w)"
  unfolding only_calls_def
proof
  fix s
  show "\<exists>evs. trace (snd (getClient w s)) = trace s @ evs \<and>
              list_all (\<lambda>ev. \<not> is_transfer (fst ev)) evs"
  proof (cases "client s")
    case None
    have "only_calls (\<lambda>c. \<not> is_transfer c)
      (and_then (invoke (returns_client w) VClient Client_forTestnet) (\<lambda>c.
       and_then (set_client (Some c)) (\<lambda>_.
       and_then (invoke (returns_unit w) (\<lambda>_. VUnit)
                   (Client_setOperator c (operatorId s) (operatorKey s))) (\<lambda>_.
       and_then (invoke (returns_unit w) (\<lambda>_. VUnit)
                   (Client_setDefaultMaxTransactionFee c 50)) (\<lambda>_.
       and_then (invoke (returns_unit w) (\<lambda>_. VUnit)
                   (Client_setDefaultMaxQueryPayment c 30)) (\<lambda>_.
       return c))))))"
      by (intro only_calls_intros only_calls_invoke) simp_all
    with None show ?thesis by (simp add: getClient_def only_calls_def)
  next
    case (Some c)
    then show ?thesis by (simp add: getClient_def return_def)
  qed
qed

lemma only_calls_account_id_of: "only_calls P (account_id_of a)"
  unfolding account_id_of_def by (cases a) (simp_all, (intro only_calls_intros)+)

lemma only_calls_readable_balance: "only_calls P (readable_balance aid bal)"
  unfolding readable_balance_def Let_def
  by (cases "ab_tokens bal") (simp_all add: only_calls_intros)

lemma no_transfer_getAccountBalance:
  "only_calls (\<lambda>c. \<not> is_transfer c) (getAccountBalance w a)"
  unfolding getAccountBalance_def try_catch_log_and_rethrow
  by (intro only_calls_intros only_calls_invoke no_transfer_getClient only_calls_account_id_of
        only_calls_readable_balance)
     simp

lemma no_transfer_associate:
  "only_calls (\<lambda>c. \<not> is_transfer c) (associateTokenToAccount w a t)"
  unfolding associateTokenToAccount_def Let_def try_catch_log_and_rethrow
  by (intro only_calls_intros only_calls_invoke no_transfer_getClient) simp_all

subsection \<open>The stored client during a run\<close>

lemma keeps_client_and_then:
  assumes "keeps_client m" and "\<And>x. keeps_client (f x)"
  shows "keeps_client (and_then m f)"
  unfolding keeps_client_def
proof (intro allI impI)
  fix s :: state and c
  assume c: "client s = Some c"
  obtain r s1 where run: "m s = (r, s1)" by (cases "m s")
  from assms(1) c run have c1: "client s1 = Some c"
    by (auto simp: keeps_client_def dest!: spec[of _ s])
  show "client (snd (and_then m f s)) = Some c"
  proof (cases r)
    case (Inl e)
    with run c1 show ?thesis by (simp add: and_then_def)
  next
    case (Inr x)
    from assms(2)[of x] c1 have "client (snd (f x s1)) = Some c"
      by (simp add: keeps_client_def)
    with run Inr show ?thesis by (simp add: and_then_def)
  qed
qed

lemma keeps_client_basic:
  "keeps_client (return x)" "keeps_client (throw e)" "keeps_client (lift r)"
  "keeps_client (read_account a)" "keeps_client (new_Date_toISOString w)"
  "keeps_client (invoke oracle wrap c)" "keeps_client (getClient w)"
  "keeps_client (invoke_unawaited oracle wrap c)" "keeps_client (not_a_function callee)"
  by (simp_all add: keeps_client_def return_def throw_def lift_def read_account_def
        new_Date_toISOString_def invoke_def getClient_def invoke_unawaited_def
        not_a_function_run split: sum.splits)

lemmas keeps_client_intros = keeps_client_and_then keeps_client_basic

lemma keeps_client_account_id_of: "keeps_client (account_id_of a)"
  unfolding account_id_of_def by (cases a) (simp_all, (intro keeps_client_intros)+)

lemma keeps_client_associate: "keeps_client (associateTokenToAccount w a t)"
  unfolding associateTokenToAccount_def Let_def try_catch_log_and_rethrow
  by (intro keeps_client_intros)

lemma account_id_of_InrE:
  assumes "account_id_of a s = (Inr aid, s')"
  obtains (str) x where "a = AccountString x" and "aid = Some (AccountId x)" and "s' = s"
  | (obj) r where "a = AccountObject r" and "r < length (heap s)"
      and "aid = accountId (heap s ! r)" and "s' = s"
proof (cases a)
  case (AccountString x)
  with assms have "aid = Some (AccountId x) \<and> s' = s"
    by (simp add: account_id_of_def return_def)
  with AccountString show thesis using str by blast
next
  case (AccountObject r)
  with assms have "r < length (heap s) \<and> aid = accountId (heap s ! r) \<and> s' = s"
    unfolding account_id_of_def
    apply simp
    apply (elim and_then_InrE read_account_InrE return_InrE)
    apply simp
    done
  with AccountObject show thesis using obj by blast
qed

lemma account_id_of_state: "account_id_of a s = (Inr aid, s') \<Longrightarrow> s' = s"
  by (erule account_id_of_InrE)

lemma readable_balance_InrE:
  assumes "readable_balance aid bal s = (Inr b, s')"
  obtains "s' = s"
    and "b = \<lparr>br_accountId = map_option accountId_toString aid,
              br_hbarBalance = map_option hbar_toString (ab_hbars bal), br_tokens = []\<rparr>"
    and "ab_tokens bal = None \<or> ab_tokens bal = Some []"
proof -
  have "s' = s \<and>
      b = \<lparr>br_accountId = map_option accountId_toString aid,
            br_hbarBalance = map_option hbar_toString (ab_hbars bal), br_tokens = []\<rparr> \<and>
      (ab_tokens bal = None \<or> ab_tokens bal = Some [])"
    using assms
    by (cases "ab_tokens bal")
       (auto simp: readable_balance_def Let_def return_def and_then_not_a_function
          not_a_function_run split: if_splits)
  then show thesis using that by blast
qed

lemma getAccountBalance_returns:
  assumes "getAccountBalance w a s = (Inr b, s')"
  obtains c s1 aid bal where "getClient w s = (Inr c, s1)"
    and "account_id_of a s1 = (Inr aid, s1)"
    and "s' = s1\<lparr>trace := trace s1 @
                 [(AccountBalanceQuery_execute aid c, Returned (VBalance bal))]\<rparr>"
    and "b = \<lparr>br_accountId = map_option accountId_toString aid,
              br_hbarBalance = map_option hbar_toString (ab_hbars bal), br_tokens = []\<rparr>"
    and "ab_tokens bal = None \<or> ab_tokens bal = Some []"
  using assms unfolding getAccountBalance_def try_catch_log_and_rethrow
  apply (elim and_then_InrE invoke_InrE readable_balance_InrE)
  apply (frule account_id_of_state)
  apply clarify
  apply simp
  done

subsection \<open>The transfer workflow\<close>

lemma transferNFT_run:
  assumes c: "client s = Some c" and a: "a < length (heap s)" and b: "b < length (heap s)"
  shows "transferNFT w t a b n s =
     (case returns_transaction w (trace s)
             (TransferTransaction_freezeWith t n (accountId (heap s ! a))
                (accountId (heap s ! b)) c) of
        Inl e \<Rightarrow>
          (Inl e,
           s\<lparr>trace := trace s @
               [(TransferTransaction_freezeWith t n (accountId (heap s ! a))
                   (accountId (heap s ! b)) c, Threw e)]\<rparr>)
      | Inr tx \<Rightarrow>
          (Inl (JsError ''TypeError'' ''transaction.sign(...).sign is not a function''),
           s\<lparr>trace := trace s @
               [(TransferTransaction_freezeWith t n (accountId (heap s ! a))
                   (accountId (heap s ! b)) c, Returned (VTransaction tx)),
                (Transaction_sign tx (privateKey (heap s ! a)),
                 case returns_transaction w
                        (trace s @
                           [(TransferTransaction_freezeWith t n (accountId (heap s ! a))
                               (accountId (heap s ! b)) c, Returned (VTransaction tx))])
                        (Transaction_sign tx (privateKey (heap s ! a))) of
                   Inl e \<Rightarrow> Threw e
                 | Inr v \<Rightarrow> Returned (VTransaction v))]\<rparr>))"
  using assms
  by (simp add: transferNFT_def getClient_def read_account_def and_then_def try_catch_def
        log_and_rethrow_def invoke_def invoke_unawaited_def not_a_function_run return_def
        throw_def split: sum.splits)

lemma transferNFT_never_returns:
  "transferNFT w t a b n s \<noteq> (Inr r, s')"
proof
  assume "transferNFT w t a b n s = (Inr r, s')"
  then show False
    unfolding transferNFT_def try_catch_log_and_rethrow and_then_not_a_function
    by (elim and_then_InrE) (simp add: not_a_function_run)
qed

lemma transferNFTWithBalanceCheck_never_returns:
  "transferNFTWithBalanceCheck w t a b n s \<noteq> (Inr r, s')"
proof
  assume "transferNFTWithBalanceCheck w t a b n s = (Inr r, s')"
  then show False
    unfolding transferNFTWithBalanceCheck_def try_catch_log_and_rethrow
    by (elim and_then_InrE) (simp add: transferNFT_never_returns)
qed

text \<open>
  C2 (the code departs from it). When the two balance queries of
  \<open>transferNFTWithBalanceCheck\<close> have returned and the association step throws \<open>e\<close>:
  if the message of \<open>e\<close> does not contain \<open>TOKEN_ALREADY_ASSOCIATED\<close>, the workflow
  throws \<open>e\<close> in the state the association left, and the run has made no transfer call.
  If it does, the workflow goes on into \<open>transferNFT\<close>, and its outcome is that of
  \<open>transferNFT\<close>; but \<open>transferNFT\<close> does not perform the transfer: it throws the
  error of \<open>freezeWith\<close> when that call throws, and otherwise the \<open>TypeError\<close> of calling
  \<open>sign\<close> on the Promise of the first \<open>sign\<close>, after the two calls \<open>freezeWith\<close> and
  \<open>sign\<close>. In neither case is the transaction executed.
\<close>

theorem already_associated_reaches_unsigned_transfer:
  assumes h1: "getAccountBalance w (AccountObject fromAccount) s = (Inr beforeFrom, s1)"
    and h2: "getAccountBalance w (AccountObject toAccount) s1 = (Inr beforeTo, s2)"
    and h3: "associateTokenToAccount w toAccount tokenId s2 = (Inl e, s3)"
  shows
    "(String_includes (message e) ''TOKEN_ALREADY_ASSOCIATED'' \<longrightarrow>
        (\<exists>c e' s4. client s3 = Some c \<and>
           transferNFT w tokenId fromAccount toAccount serialNumber s3 = (Inl e', s4) \<and>
           transferNFTWithBalanceCheck w tokenId fromAccount toAccount serialNumber s
             = (Inl e', s4) \<and>
           ''Transaction.execute'' \<notin> set (calls_since s3 s4) \<and>
           (case returns_transaction w (trace s3)
                   (TransferTransaction_freezeWith tokenId serialNumber
                      (accountId (heap s ! fromAccount)) (accountId (heap s ! toAccount)) c) of
              Inl e2 \<Rightarrow>
                e' = e2 \<and>
                s4 = s3\<lparr>trace := trace s3 @
                  [(TransferTransaction_freezeWith tokenId serialNumber
                      (accountId (heap s ! fromAccount)) (accountId (heap s ! toAccount)) c,
                    Threw e2)]\<rparr>
            | Inr tx \<Rightarrow>
                e' = JsError ''TypeError'' ''transaction.sign(...).sign is not a function'' \<and>
                (\<exists>out. s4 = s3\<lparr>trace := trace s3 @
                  [(TransferTransaction_freezeWith tokenId serialNumber
                      (accountId (heap s ! fromAccount)) (accountId (heap s ! toAccount)) c,
                    Returned (VTransaction tx)),
                   (Transaction_sign tx (privateKey (heap s ! fromAccount)), out)]\<rparr>)))) \<and>
     (\<not> String_includes (message e) ''TOKEN_ALREADY_ASSOCIATED'' \<longrightarrow>
        transferNFTWithBalanceCheck w tokenId fromAccount toAccount serialNumber s = (Inl e, s3) \<and>
        filter (\<lambda>ev. is_transfer (fst ev)) (events_since s s3) = [])"
proof (intro conjI impI)
  let ?assoc = "and_then (associateTokenToAccount w toAccount tokenId) (\<lambda>_. return ())"
  have a3: "?assoc s2 = (Inl e, s3)"
    by (rule and_then_Inl [of "associateTokenToAccount w toAccount tokenId" s2, OF h3])
  have heap1: "heap s1 = heap s"
    using keeps_heap_getAccountBalance [of w "AccountObject fromAccount"] h1
    by (auto simp: keeps_heap_def dest!: spec[of _ s])
  have heap2: "heap s2 = heap s1"
    using keeps_heap_getAccountBalance [of w "AccountObject toAccount"] h2
    by (auto simp: keeps_heap_def dest!: spec[of _ s1])
  have heap3: "heap s3 = heap s2"
    using keeps_heap_associate [of w toAccount tokenId] h3
    by (auto simp: keeps_heap_def dest!: spec[of _ s2])
  {
    assume tolerated: "String_includes (message e) ''TOKEN_ALREADY_ASSOCIATED''"
    from h1 have from_ok: "fromAccount < length (heap s)"
      by (elim getAccountBalance_returns account_id_of_InrE) (simp_all add: getClient_heap)
    from h2 have to_ok: "toAccount < length (heap s1)"
      by (elim getAccountBalance_returns account_id_of_InrE) (simp_all add: getClient_heap)
    from h2 obtain c where c2: "client s2 = Some c"
      by (elim getAccountBalance_returns) (simp add: getClient_client)
    with keeps_client_associate [of w toAccount tokenId] h3 have c3: "client s3 = Some c"
      by (auto simp: keeps_client_def dest!: spec[of _ s2])
    from from_ok to_ok heap1 heap2 heap3
    have ok3: "fromAccount < length (heap s3)" "toAccount < length (heap s3)" by simp_all
    have heap_s3: "heap s3 = heap s" using heap1 heap2 heap3 by simp
    note run = transferNFT_run [OF c3 ok3, of w tokenId serialNumber, unfolded heap_s3]
    obtain r s4 where t: "transferNFT w tokenId fromAccount toAccount serialNumber s3 = (r, s4)"
      by (cases "transferNFT w tokenId fromAccount toAccount serialNumber s3")
    with transferNFT_never_returns [of w tokenId fromAccount toAccount serialNumber s3 _ s4]
    obtain e' where r: "r = Inl e'" by (cases r) auto
    have whole: "transferNFTWithBalanceCheck w tokenId fromAccount toAccount serialNumber s
                   = (Inl e', s4)"
      unfolding transferNFTWithBalanceCheck_def associate_if_needed_def try_catch_log_and_rethrow
      apply (subst and_then_Inr [of "getAccountBalance w (AccountObject fromAccount)" s, OF h1])
      apply (subst and_then_Inr [of "getAccountBalance w (AccountObject toAccount)" s1, OF h2])
      apply (subst and_then_def)
      apply (simp add: try_catch_def a3 tolerated return_def)
      apply (simp add: and_then_def t r)
      done
    have shape: "(case returns_transaction w (trace s3)
                   (TransferTransaction_freezeWith tokenId serialNumber
                      (accountId (heap s ! fromAccount)) (accountId (heap s ! toAccount)) c) of
              Inl e2 \<Rightarrow>
                e' = e2 \<and>
                s4 = s3\<lparr>trace := trace s3 @
                  [(TransferTransaction_freezeWith tokenId serialNumber
                      (accountId (heap s ! fromAccount)) (accountId (heap s ! toAccount)) c,
                    Threw e2)]\<rparr>
            | Inr tx \<Rightarrow>
                e' = JsError ''TypeError'' ''transaction.sign(...).sign is not a function'' \<and>
                (\<exists>out. s4 = s3\<lparr>trace := trace s3 @
                  [(TransferTransaction_freezeWith tokenId serialNumber
                      (accountId (heap s ! fromAccount)) (accountId (heap s ! toAccount)) c,
                    Returned (VTransaction tx)),
                   (Transaction_sign tx (privateKey (heap s ! fromAccount)), out)]\<rparr>))"
      using run t r by (auto split: sum.splits)
    then have "''Transaction.execute'' \<notin> set (calls_since s3 s4)"
      by (auto simp: calls_since_def events_since_def split: sum.splits)
    with c3 t r whole shape
    show "\<exists>c e' s4. client s3 = Some c \<and>
           transferNFT w tokenId fromAccount toAccount serialNumber s3 = (Inl e', s4) \<and>
           transferNFTWithBalanceCheck w tokenId fromAccount toAccount serialNumber s
             = (Inl e', s4) \<and>
           ''Transaction.execute'' \<notin> set (calls_since s3 s4) \<and>
           (case returns_transaction w (trace s3)
                   (TransferTransaction_freezeWith tokenId serialNumber
                      (accountId (heap s ! fromAccount)) (accountId (heap s ! toAccount)) c) of
              Inl e2 \<Rightarrow>
                e' = e2 \<and>
                s4 = s3\<lparr>trace := trace s3 @
                  [(TransferTransaction_freezeWith tokenId serialNumber
                      (accountId (heap s ! fromAccount)) (accountId (heap s ! toAccount)) c,
                    Threw e2)]\<rparr>
            | Inr tx \<Rightarrow>
                e' = JsError ''TypeError'' ''transaction.sign(...).sign is not a function'' \<and>
                (\<exists>out. s4 = s3\<lparr>trace := trace s3 @
                  [(TransferTransaction_freezeWith tokenId serialNumber
                      (accountId (heap s ! fromAccount)) (accountId (heap s ! toAccount)) c,
                    Returned (VTransaction tx)),
                   (Transaction_sign tx (privateKey (heap s ! fromAccount)), out)]\<rparr>))"
      by blast
  }
  {
    assume fatal: "\<not> String_includes (message e) ''TOKEN_ALREADY_ASSOCIATED''"
    show "transferNFTWithBalanceCheck w tokenId fromAccount toAccount serialNumber s = (Inl e, s3)"
      unfolding transferNFTWithBalanceCheck_def associate_if_needed_def try_catch_log_and_rethrow
      apply (subst and_then_Inr [of "getAccountBalance w (AccountObject fromAccount)" s, OF h1])
      apply (subst and_then_Inr [of "getAccountBalance w (AccountObject toAccount)" s1, OF h2])
      apply (subst and_then_def)
      apply (simp add: try_catch_def a3 fatal throw_def)
      done
  }
  {
    from no_transfer_getAccountBalance h1 obtain evs1 where t1: "trace s1 = trace s @ evs1"
      and p1: "list_all (\<lambda>ev. \<not> is_transfer (fst ev)) evs1" by (rule only_callsD)
    from no_transfer_getAccountBalance h2 obtain evs2 where t2: "trace s2 = trace s1 @ evs2"
      and p2: "list_all (\<lambda>ev. \<not> is_transfer (fst ev)) evs2" by (rule only_callsD)
    from no_transfer_associate h3 obtain evs3 where t3: "trace s3 = trace s2 @ evs3"
      and p3: "list_all (\<lambda>ev. \<not> is_transfer (fst ev)) evs3" by (rule only_callsD)
    from t1 t2 t3 have "events_since s s3 = evs1 @ evs2 @ evs3"
      by (simp add: events_since_def)
    with p1 p2 p3 show "filter (\<lambda>ev. is_transfer (fst ev)) (events_since s s3) = []"
      by (simp add: filter_empty_conv list_all_iff)
  }
qed

theorem already_associated_reaches_unsigned_transfer_witness:
  "fst (transferNFTWithBalanceCheck (association_fails already_associated)
          (Some (TokenId ''0.0.2001'')) 0 1 (Some (Long ''1'')) ready_state) =
     Inl (JsError ''TypeError'' ''transaction.sign(...).sign is not a function'') \<and>
   calls_since ready_state
     (snd (transferNFTWithBalanceCheck (association_fails already_associated)
          (Some (TokenId ''0.0.2001'')) 0 1 (Some (Long ''1'')) ready_state)) =
     [''AccountBalanceQuery.execute'', ''AccountBalanceQuery.execute'',
      ''TokenAssociateTransaction.freezeWith'',
      ''TransferTransaction.freezeWith'', ''Transaction.sign''] \<and>
   fst (transferNFTWithBalanceCheck (association_fails invalid_signature)
          (Some (TokenId ''0.0.2001'')) 0 1 (Some (Long ''1'')) ready_state) =
     Inl invalid_signature \<and>
   calls_since ready_state
     (snd (transferNFTWithBalanceCheck (association_fails invalid_signature)
          (Some (TokenId ''0.0.2001'')) 0 1 (Some (Long ''1'')) ready_state)) =
     [''AccountBalanceQuery.execute'', ''AccountBalanceQuery.execute'',
      ''TokenAssociateTransaction.freezeWith'']"
proof -
  define tok where "tok = Some (TokenId ''0.0.2001'')"
  define q0 where "q0 = (AccountBalanceQuery_execute (Some (AccountId ''0.0.1001'')) (Client 0),
                         Returned (VBalance demo_balance))"
  define q1 where "q1 = (AccountBalanceQuery_execute (Some (AccountId ''0.0.1002'')) (Client 0),
                         Returned (VBalance demo_balance))"
  have run: "\<exists>b1 b2.
      getAccountBalance (association_fails err) (AccountObject 0) ready_state
        = (Inr b1, ready_state\<lparr>trace := [q0]\<rparr>) \<and>
      getAccountBalance (association_fails err) (AccountObject 1) (ready_state\<lparr>trace := [q0]\<rparr>)
        = (Inr b2, ready_state\<lparr>trace := [q0, q1]\<rparr>) \<and>
      associateTokenToAccount (association_fails err) 1 tok (ready_state\<lparr>trace := [q0, q1]\<rparr>)
        = (Inl err, ready_state\<lparr>trace := [q0, q1,
             (TokenAssociateTransaction_freezeWith (Some (AccountId ''0.0.1002'')) [tok] (Client 0),
              Threw err)]\<rparr>)" for err
    by (simp add: getAccountBalance_def associateTokenToAccount_def getClient_def
          account_id_of_def read_account_def and_then_def try_catch_def log_and_rethrow_def
          invoke_def return_def throw_def association_fails_def all_succeed_def
          ready_state_def readable_balance_def demo_balance_def demo_account_def
          demo_account2_def q0_def q1_def)
  define s3 where "s3 err = ready_state\<lparr>trace := [q0, q1,
             (TokenAssociateTransaction_freezeWith (Some (AccountId ''0.0.1002'')) [tok] (Client 0),
              Threw err)]\<rparr>" for err
  from run [of already_associated] obtain b1 b2 where
    h1: "getAccountBalance (association_fails already_associated) (AccountObject 0) ready_state
           = (Inr b1, ready_state\<lparr>trace := [q0]\<rparr>)" and
    h2: "getAccountBalance (association_fails already_associated) (AccountObject 1)
           (ready_state\<lparr>trace := [q0]\<rparr>) = (Inr b2, ready_state\<lparr>trace := [q0, q1]\<rparr>)" and
    h3: "associateTokenToAccount (association_fails already_associated) 1 tok
           (ready_state\<lparr>trace := [q0, q1]\<rparr>) = (Inl already_associated, s3 already_associated)"
    unfolding s3_def by blast
  have inc: "String_includes (message already_associated) ''TOKEN_ALREADY_ASSOCIATED''"
    by code_simp
  from already_associated_reaches_unsigned_transfer [OF h1 h2 h3, of "Some (Long ''1'')"] inc
  obtain c e' s4 where
    whole: "transferNFTWithBalanceCheck (association_fails already_associated) tok 0 1
              (Some (Long ''1'')) ready_state = (Inl e', s4)" and
    shape: "(case returns_transaction (association_fails already_associated)
                   (trace (s3 already_associated))
                   (TransferTransaction_freezeWith tok (Some (Long ''1''))
                      (accountId (heap ready_state ! 0)) (accountId (heap ready_state ! 1)) c) of
              Inl e2 \<Rightarrow>
                e' = e2 \<and>
                s4 = (s3 already_associated)\<lparr>trace := trace (s3 already_associated) @
                  [(TransferTransaction_freezeWith tok (Some (Long ''1''))
                      (accountId (heap ready_state ! 0)) (accountId (heap ready_state ! 1)) c,
                    Threw e2)]\<rparr>
            | Inr tx \<Rightarrow>
                e' = JsError ''TypeError'' ''transaction.sign(...).sign is not a function'' \<and>
                (\<exists>out. s4 = (s3 already_associated)\<lparr>trace := trace (s3 already_associated) @
                  [(TransferTransaction_freezeWith tok (Some (Long ''1''))
                      (accountId (heap ready_state ! 0)) (accountId (heap ready_state ! 1)) c,
                    Returned (VTransaction tx)),
                   (Transaction_sign tx (privateKey (heap ready_state ! 0)), out)]\<rparr>))"
    by blast
  from shape have first:
    "e' = JsError ''TypeError'' ''transaction.sign(...).sign is not a function'' \<and>
     calls_since ready_state s4 =
       [''AccountBalanceQuery.execute'', ''AccountBalanceQuery.execute'',
        ''TokenAssociateTransaction.freezeWith'',
        ''TransferTransaction.freezeWith'', ''Transaction.sign'']"
    by (auto simp: association_fails_def all_succeed_def s3_def q0_def q1_def calls_since_def
          events_since_def ready_state_def)
  from run [of invalid_signature] obtain b1' b2' where
    h1': "getAccountBalance (association_fails invalid_signature) (AccountObject 0) ready_state
           = (Inr b1', ready_state\<lparr>trace := [q0]\<rparr>)" and
    h2': "getAccountBalance (association_fails invalid_signature) (AccountObject 1)
           (ready_state\<lparr>trace := [q0]\<rparr>) = (Inr b2', ready_state\<lparr>trace := [q0, q1]\<rparr>)" and
    h3': "associateTokenToAccount (association_fails invalid_signature) 1 tok
           (ready_state\<lparr>trace := [q0, q1]\<rparr>) = (Inl invalid_signature, s3 invalid_signature)"
    unfolding s3_def by blast
  have exc: "\<not> String_includes (message invalid_signature) ''TOKEN_ALREADY_ASSOCIATED''"
    by code_simp
  from already_associated_reaches_unsigned_transfer [OF h1' h2' h3', of "Some (Long ''1'')"] exc
  have second: "transferNFTWithBalanceCheck (association_fails invalid_signature)
          tok 0 1 (Some (Long ''1'')) ready_state = (Inl invalid_signature, s3 invalid_signature)"
    by simp
  have calls2: "calls_since ready_state (s3 invalid_signature) =
     [''AccountBalanceQuery.execute'', ''AccountBalanceQuery.execute'',
      ''TokenAssociateTransaction.freezeWith'']"
    by (simp add: s3_def q0_def q1_def calls_since_def events_since_def ready_state_def)
  from first whole second calls2 show ?thesis
    by (simp add: tok_def)
qed

subsection \<open>What a method has done when it returns\<close>

lemma createAccount_returns:
  assumes "createAccount w initialBalance s = (Inr r, s')"
  obtains c s1 key resp rc where "getClient w s = (Inr c, s1)"
    and "s' = s1\<lparr>trace := trace s1 @
                 [(PrivateKey_generateED25519, Returned (VPrivateKey key)),
                  (AccountCreateTransaction_execute (key_publicKey key)
                     (default_to 100 initialBalance) c, Returned (VResponse resp)),
                  (TransactionResponse_getReceipt resp c, Returned (VReceipt rc))],
               heap := heap s1 @
                 [\<lparr>accountId = rc_accountId rc, privateKey = key,
                   publicKey = key_publicKey key, status = rc_status rc,
                   balance = default_to 100 initialBalance\<rparr>]\<rparr>"
    and "r = length (heap s1)"
  using assms unfolding createAccount_def
  apply (simp only: try_catch_log_and_rethrow Let_def)
  apply (elim and_then_InrE invoke_InrE new_object_InrE)
  apply clarify
  apply simp
  done

lemma createNFTToken_returns:
  assumes "createNFTToken w treasuryAccount tokenConfig s = (Inr tok, s')"
  obtains c s1 tx signed resp rc ti where "getClient w s = (Inr c, s1)"
    and "treasuryAccount < length (heap s1)"
    and "s' = s1\<lparr>trace := trace s1 @
       [(TokenCreateTransaction_freezeWith
           \<lparr>tcr_tokenName =
              default_to ''diploma'' (cfg_name (default_to empty_config tokenConfig)),
            tcr_tokenSymbol =
              default_to ''GRAD'' (cfg_symbol (default_to empty_config tokenConfig)),
            tcr_tokenType = ''NonFungibleUnique'', tcr_decimals = 0, tcr_initialSupply = 0,
            tcr_treasuryAccountId = accountId (heap s1 ! treasuryAccount),
            tcr_supplyType = ''Finite'',
            tcr_maxSupply =
              default_to 250 (cfg_maxSupply (default_to empty_config tokenConfig)),
            tcr_supplyKey = privateKey (heap s1 ! treasuryAccount)\<rparr> c,
         Returned (VTransaction tx)),
        (Transaction_sign tx (privateKey (heap s1 ! treasuryAccount)),
         Returned (VTransaction signed)),
        (Transaction_execute signed c, Returned (VResponse resp)),
        (TransactionResponse_getReceipt resp c, Returned (VReceipt rc)),
        (TokenInfoQuery_execute (rc_tokenId rc) c, Returned (VTokenInfo ti))]\<rparr>"
    and "tok = \<lparr>tk_tokenId = rc_tokenId rc, tk_status = rc_status rc,
            tk_name = ti_name ti, tk_symbol = ti_symbol ti, tk_tokenType = ti_tokenType ti,
            tk_decimals = ti_decimals ti, tk_totalSupply = ti_totalSupply ti,
            tk_maxSupply = ti_maxSupply ti, tk_supplyType = ti_supplyType ti,
            tk_treasuryAccountId = ti_treasuryAccountId ti, tk_supplyKey = ti_supplyKey ti,
            tk_creationTime = ti_creationTime ti, tk_treasuryAccount = treasuryAccount\<rparr>"
  using assms unfolding createNFTToken_def
  apply (simp only: try_catch_log_and_rethrow Let_def)
  apply (elim and_then_InrE invoke_InrE return_InrE read_account_InrE)
  apply clarify
  apply simp
  done

lemma mintNFTs_returns:
  assumes "mintNFTs w tokenData metadataArray s = (Inr r, s')"
  obtains c s1 bufs tx signed resp rc where "getClient w s = (Inr c, s1)"
    and "map_throwing metadata_buffer (metadatas_of metadataArray) = Inr bufs"
    and "tk_treasuryAccount tokenData < length (heap s1)"
    and "s' = s1\<lparr>trace := trace s1 @
       [(TokenMintTransaction_freezeWith (tk_tokenId tokenData) bufs c,
         Returned (VTransaction tx)),
        (Transaction_sign tx (privateKey (heap s1 ! tk_treasuryAccount tokenData)),
         Returned (VTransaction signed)),
        (Transaction_execute signed c, Returned (VResponse resp)),
        (TransactionResponse_getReceipt resp c, Returned (VReceipt rc))]\<rparr>"
    and "r = \<lparr>mr_serials = rc_serials rc, mr_status = rc_status rc,
              mr_tokenId = tk_tokenId tokenData,
              mr_count = serials_count (rc_serials rc),
              mr_mintedAt = date_now w (trace s')\<rparr>"
  using assms unfolding mintNFTs_def
  apply (simp only: try_catch_log_and_rethrow Let_def)
  apply (elim and_then_InrE invoke_InrE return_InrE read_account_InrE new_Date_InrE lift_InrE)
  apply clarify
  apply simp
  done

lemma getTokenBasicInfo_returns:
  assumes "getTokenBasicInfo w tokenId s = (Inr r, s')"
  obtains c s1 ti where "getClient w s = (Inr c, s1)"
    and "s' = s1\<lparr>trace := trace s1 @
                 [(TokenInfoQuery_execute tokenId c, Returned (VTokenInfo ti))]\<rparr>"
    and "r = \<lparr>bi_tokenId = map_option tokenId_toString (ti_tokenId ti),
              bi_name = ti_name ti, bi_symbol = ti_symbol ti,
              bi_type = map_option tokenType_toString (ti_tokenType ti),
              bi_totalSupply = map_option long_toString (ti_totalSupply ti),
              bi_maxSupply = map_option long_toString (ti_maxSupply ti),
              bi_treasury = map_option accountId_toString (ti_treasuryAccountId ti)\<rparr>"
  using assms unfolding getTokenBasicInfo_def
  apply (simp only: try_catch_log_and_rethrow Let_def)
  apply (elim and_then_InrE invoke_InrE return_InrE)
  apply clarify
  apply simp
  done

lemma associateTokenToAccount_returns:
  assumes "associateTokenToAccount w account tokenId s = (Inr r, s')"
  obtains c s1 tx signed resp rc where "getClient w s = (Inr c, s1)"
    and "account < length (heap s1)"
    and "s' = s1\<lparr>trace := trace s1 @
       [(TokenAssociateTransaction_freezeWith (accountId (heap s1 ! account)) [tokenId] c,
         Returned (VTransaction tx)),
        (Transaction_sign tx (privateKey (heap s1 ! account)), Returned (VTransaction signed)),
        (Transaction_execute signed c, Returned (VResponse resp)),
        (TransactionResponse_getReceipt resp c, Returned (VReceipt rc))]\<rparr>"
    and "r = \<lparr>as_status = rc_status rc, as_accountId = accountId (heap s1 ! account),
              as_tokenId = tokenId, as_associatedAt = date_now w (trace s')\<rparr>"
  using assms unfolding associateTokenToAccount_def
  apply (simp only: try_catch_log_and_rethrow Let_def)
  apply (elim and_then_InrE invoke_InrE return_InrE read_account_InrE new_Date_InrE)
  apply clarify
  apply simp
  done

subsection \<open>Token creation\<close>

lemma getClient_calls:
  assumes "getClient w s = (Inr c, s1)"
  shows "calls_since s s1 = client_setup s" and "\<exists>evs. trace s1 = trace s @ evs"
    and "heap s1 = heap s" and "client s1 = Some c"
  using assms
  by (elim getClient_returns; simp add: calls_since_def events_since_def client_setup_def)+

lemma events_since_logged [simp]:
  "events_since s (s\<lparr>trace := trace s @ evs\<rparr>) = evs"
  by (simp add: events_since_def)



subsection \<open>Minting\<close>

lemma map_throwing_buffers:
  "map_throwing metadata_buffer ms = Inr bufs \<Longrightarrow>
     map metadataString_of ms = map (\<lambda>b. case b of Buffer t \<Rightarrow> Inr (Some t)) bufs"
proof (induction ms arbitrary: bufs)
  case Nil
  then show ?case by simp
next
  case (Cons m ms)
  then show ?case
    by (auto simp: metadata_buffer_def Buffer_from_def split: sum.splits option.splits)
qed

lemma texts_buffers:
  assumes "list_all2 (\<lambda>x t. x = JStr t \<or> (\<not> typeof_string x \<and> JSON_stringify x = Inr (Some t)))
             xs texts"
  shows "map_throwing metadata_buffer xs = Inr (map Buffer texts)"
  using assms
proof (induction rule: list_all2_induct)
  case Nil
  then show ?case by simp
next
  case (Cons x t xs texts)
  then show ?case
    by (auto simp: metadata_buffer_def metadataString_of_def Buffer_from_def)
qed

lemma serials_count_length:
  "serials_count x = (case x of None \<Rightarrow> 0 | Some serials \<Rightarrow> length serials)"
  by (cases x) (simp_all add: serials_count_def)

lemma mintNFTs_after_client:
  assumes g: "getClient w s = (Inr c, s1)"
    and mt: "map_throwing metadata_buffer (metadatas_of metadataArray) = Inr bufs"
  shows "mintNFTs w tokenData metadataArray s =
     and_then (invoke (returns_transaction w) VTransaction
                 (TokenMintTransaction_freezeWith (tk_tokenId tokenData) bufs c))
       (\<lambda>transaction.
        and_then (read_account (tk_treasuryAccount tokenData)) (\<lambda>treasury.
        and_then (invoke (returns_transaction w) VTransaction
                    (Transaction_sign transaction (privateKey treasury))) (\<lambda>signedTransaction.
        and_then (invoke (returns_response w) VResponse
                    (Transaction_execute signedTransaction c)) (\<lambda>response.
        and_then (invoke (returns_receipt w) VReceipt
                    (TransactionResponse_getReceipt response c)) (\<lambda>receipt.
        and_then (new_Date_toISOString w) (\<lambda>now.
        return
          \<lparr>mr_serials = rc_serials receipt,
           mr_status = rc_status receipt,
           mr_tokenId = tk_tokenId tokenData,
           mr_count = serials_count (rc_serials receipt),
           mr_mintedAt = now\<rparr>)))))) s1"
  unfolding mintNFTs_def try_catch_log_and_rethrow Let_def
  by (simp add: and_then_Inr [of "getClient w" s, OF g] mt)
     (simp add: and_then_def lift_def)

lemma mintNFTs_wraps:
  "\<not> Array_isArray v \<Longrightarrow> mintNFTs w tokenData v = mintNFTs w tokenData (JArr [v])"
  by (simp add: mintNFTs_def metadatas_of_def)

text \<open>
  C10 (as amended). A non-array metadata argument is minted as the one-element list
  holding it. For a list in which every element has a text (a string is its own text,
  any other element has the text \<open>JSON.stringify\<close> returns for it), once \<open>mintNFTs\<close>
  has its client: there is one buffer per element, holding the text of that element;
  the first call is the \<open>freezeWith\<close> of a mint transaction carrying these buffers,
  and the calls of the run are a prefix of freeze, sign, execute, receipt of that one
  transaction; when the treasury account is there and these four calls succeed, the
  method returns, with the serial list of the receipt and as count its length, or 0 when
  the receipt has none; and whenever the method returns it has made exactly these four
  calls.
\<close>

theorem mintNFTs_one_transaction_of_texts:
  assumes g: "getClient w s = (Inr c, s1)"
    and texts:
      "list_all2 (\<lambda>x t. x = JStr t \<or> (\<not> typeof_string x \<and> JSON_stringify x = Inr (Some t)))
         xs texts"
  shows
    "(\<not> Array_isArray v \<longrightarrow> mintNFTs w tokenData v = mintNFTs w tokenData (JArr [v])) \<and>
     length (map Buffer texts) = length xs \<and>
     (\<exists>out rest. events_since s1 (snd (mintNFTs w tokenData (JArr xs) s)) =
        (TokenMintTransaction_freezeWith (tk_tokenId tokenData) (map Buffer texts) c, out)
          # rest) \<and>
     prefix (calls_since s1 (snd (mintNFTs w tokenData (JArr xs) s)))
       [''TokenMintTransaction.freezeWith'', ''Transaction.sign'', ''Transaction.execute'',
        ''TransactionResponse.getReceipt''] \<and>
     (\<forall>tx signed resp rc.
        tk_treasuryAccount tokenData < length (heap s) \<and>
        returns_transaction w (trace s1)
          (TokenMintTransaction_freezeWith (tk_tokenId tokenData) (map Buffer texts) c)
          = Inr tx \<and>
        returns_transaction w
          (trace s1 @
            [(TokenMintTransaction_freezeWith (tk_tokenId tokenData) (map Buffer texts) c,
              Returned (VTransaction tx))])
          (Transaction_sign tx (privateKey (heap s ! tk_treasuryAccount tokenData)))
          = Inr signed \<and>
        returns_response w
          (trace s1 @
            [(TokenMintTransaction_freezeWith (tk_tokenId tokenData) (map Buffer texts) c,
              Returned (VTransaction tx)),
             (Transaction_sign tx (privateKey (heap s ! tk_treasuryAccount tokenData)),
              Returned (VTransaction signed))])
          (Transaction_execute signed c)
          = Inr resp \<and>
        returns_receipt w
          (trace s1 @
            [(TokenMintTransaction_freezeWith (tk_tokenId tokenData) (map Buffer texts) c,
              Returned (VTransaction tx)),
             (Transaction_sign tx (privateKey (heap s ! tk_treasuryAccount tokenData)),
              Returned (VTransaction signed)),
             (Transaction_execute signed c, Returned (VResponse resp))])
          (TransactionResponse_getReceipt resp c)
          = Inr rc \<longrightarrow>
        (\<exists>r. mintNFTs w tokenData (JArr xs) s =
           (Inr r,
            s1\<lparr>trace := trace s1 @
              [(TokenMintTransaction_freezeWith (tk_tokenId tokenData) (map Buffer texts) c,
                Returned (VTransaction tx)),
               (Transaction_sign tx (privateKey (heap s ! tk_treasuryAccount tokenData)),
                Returned (VTransaction signed)),
               (Transaction_execute signed c, Returned (VResponse resp)),
               (TransactionResponse_getReceipt resp c, Returned (VReceipt rc))]\<rparr>) \<and>
           mr_serials r = rc_serials rc \<and>
           mr_status r = rc_status rc \<and>
           mr_tokenId r = tk_tokenId tokenData \<and>
           mr_count r = (case rc_serials rc of None \<Rightarrow> 0 | Some serials \<Rightarrow> length serials))) \<and>
     (\<forall>r s'. mintNFTs w tokenData (JArr xs) s = (Inr r, s') \<longrightarrow>
        (\<exists>tx signed resp rc.
           events_since s1 s' =
             [(TokenMintTransaction_freezeWith (tk_tokenId tokenData) (map Buffer texts) c,
               Returned (VTransaction tx)),
              (Transaction_sign tx (privateKey (heap s ! tk_treasuryAccount tokenData)),
               Returned (VTransaction signed)),
              (Transaction_execute signed c, Returned (VResponse resp)),
              (TransactionResponse_getReceipt resp c, Returned (VReceipt rc))] \<and>
           mr_serials r = rc_serials rc \<and>
           mr_count r = (case rc_serials rc of None \<Rightarrow> 0 | Some serials \<Rightarrow> length serials)))"
proof -
  note facts = getClient_calls [OF g]
  have mt: "map_throwing metadata_buffer (metadatas_of (JArr xs)) = Inr (map Buffer texts)"
    using texts_buffers [OF texts] by (simp add: metadatas_of_def)
  note run = mintNFTs_after_client [OF g mt, of tokenData]
  have wrap: "\<not> Array_isArray v \<longrightarrow> mintNFTs w tokenData v = mintNFTs w tokenData (JArr [v])"
    by (simp add: mintNFTs_wraps)
  have len: "length (map Buffer texts) = length xs"
    using texts by (simp add: list_all2_lengthD)
  have first: "\<exists>out rest. events_since s1 (snd (mintNFTs w tokenData (JArr xs) s)) =
        (TokenMintTransaction_freezeWith (tk_tokenId tokenData) (map Buffer texts) c, out)
          # rest"
    unfolding run
    by (simp add: and_then_def invoke_def read_account_def new_Date_toISOString_def
          return_def events_since_def split: sum.splits)
  have calls: "prefix (calls_since s1 (snd (mintNFTs w tokenData (JArr xs) s)))
       [''TokenMintTransaction.freezeWith'', ''Transaction.sign'', ''Transaction.execute'',
        ''TransactionResponse.getReceipt'']"
    unfolding run
    by (simp add: and_then_def invoke_def read_account_def new_Date_toISOString_def
          return_def events_since_def calls_since_def split: sum.splits)
  have forward: "\<exists>r. mintNFTs w tokenData (JArr xs) s =
           (Inr r,
            s1\<lparr>trace := trace s1 @
              [(TokenMintTransaction_freezeWith (tk_tokenId tokenData) (map Buffer texts) c,
                Returned (VTransaction tx)),
               (Transaction_sign tx (privateKey (heap s ! tk_treasuryAccount tokenData)),
                Returned (VTransaction signed)),
               (Transaction_execute signed c, Returned (VResponse resp)),
               (TransactionResponse_getReceipt resp c, Returned (VReceipt rc))]\<rparr>) \<and>
           mr_serials r = rc_serials rc \<and>
           mr_status r = rc_status rc \<and>
           mr_tokenId r = tk_tokenId tokenData \<and>
           mr_count r = (case rc_serials rc of None \<Rightarrow> 0 | Some serials \<Rightarrow> length serials)"
    if "tk_treasuryAccount tokenData < length (heap s) \<and>
        returns_transaction w (trace s1)
          (TokenMintTransaction_freezeWith (tk_tokenId tokenData) (map Buffer texts) c)
          = Inr tx \<and>
        returns_transaction w
          (trace s1 @
            [(TokenMintTransaction_freezeWith (tk_tokenId tokenData) (map Buffer texts) c,
              Returned (VTransaction tx))])
          (Transaction_sign tx (privateKey (heap s ! tk_treasuryAccount tokenData)))
          = Inr signed \<and>
        returns_response w
          (trace s1 @
            [(TokenMintTransaction_freezeWith (tk_tokenId tokenData) (map Buffer texts) c,
              Returned (VTransaction tx)),
             (Transaction_sign tx (privateKey (heap s ! tk_treasuryAccount tokenData)),
              Returned (VTransaction signed))])
          (Transaction_execute signed c)
          = Inr resp \<and>
        returns_receipt w
          (trace s1 @
            [(TokenMintTransaction_freezeWith (tk_tokenId tokenData) (map Buffer texts) c,
              Returned (VTransaction tx)),
             (Transaction_sign tx (privateKey (heap s ! tk_treasuryAccount tokenData)),
              Returned (VTransaction signed)),
             (Transaction_execute signed c, Returned (VResponse resp))])
          (TransactionResponse_getReceipt resp c)
          = Inr rc" for tx signed resp rc
    unfolding run using that facts(3)
    by (simp add: and_then_def invoke_def read_account_def new_Date_toISOString_def
          return_def serials_count_length)
  have backward: "\<exists>tx signed resp rc.
           events_since s1 s' =
             [(TokenMintTransaction_freezeWith (tk_tokenId tokenData) (map Buffer texts) c,
               Returned (VTransaction tx)),
              (Transaction_sign tx (privateKey (heap s ! tk_treasuryAccount tokenData)),
               Returned (VTransaction signed)),
              (Transaction_execute signed c, Returned (VResponse resp)),
              (TransactionResponse_getReceipt resp c, Returned (VReceipt rc))] \<and>
           mr_serials r = rc_serials rc \<and>
           mr_count r = (case rc_serials rc of None \<Rightarrow> 0 | Some serials \<Rightarrow> length serials)"
    if ret: "mintNFTs w tokenData (JArr xs) s = (Inr r, s')" for r s'
  proof (rule mintNFTs_returns [OF ret])
    fix c' s1' bufs tx signed resp rc
    assume "getClient w s = (Inr c', s1')"
    with g have same: "c' = c" "s1' = s1" by simp_all
    assume "map_throwing metadata_buffer (metadatas_of (JArr xs)) = Inr bufs"
    with mt have bufs: "bufs = map Buffer texts" by simp
    assume "s' = s1'\<lparr>trace := trace s1' @
       [(TokenMintTransaction_freezeWith (tk_tokenId tokenData) bufs c',
         Returned (VTransaction tx)),
        (Transaction_sign tx (privateKey (heap s1' ! tk_treasuryAccount tokenData)),
         Returned (VTransaction signed)),
        (Transaction_execute signed c', Returned (VResponse resp)),
        (TransactionResponse_getReceipt resp c', Returned (VReceipt rc))]\<rparr>"
    then have ev: "events_since s1 s' =
          [(TokenMintTransaction_freezeWith (tk_tokenId tokenData) (map Buffer texts) c,
            Returned (VTransaction tx)),
           (Transaction_sign tx (privateKey (heap s ! tk_treasuryAccount tokenData)),
            Returned (VTransaction signed)),
           (Transaction_execute signed c, Returned (VResponse resp)),
           (TransactionResponse_getReceipt resp c, Returned (VReceipt rc))]"
      using facts(3) same bufs by simp
    assume "r = \<lparr>mr_serials = rc_serials rc, mr_status = rc_status rc,
              mr_tokenId = tk_tokenId tokenData,
              mr_count = serials_count (rc_serials rc),
              mr_mintedAt = date_now w (trace s')\<rparr>"
    then have "mr_serials r = rc_serials rc"
      and "mr_count r = (case rc_serials rc of None \<Rightarrow> 0 | Some serials \<Rightarrow> length serials)"
      by (simp_all add: serials_count_length)
    with ev show ?thesis by blast
  qed
  from wrap len first calls forward backward show ?thesis by blast
qed

theorem mintNFTs_one_transaction_of_texts_witness:
  "mintNFTs all_succeed demo_token (JStr ''cid-1'')
     = mintNFTs all_succeed demo_token (JArr [JStr ''cid-1'']) \<and>
   (\<exists>r. mintNFTs all_succeed demo_token demo_cids ready_state =
      (Inr r,
       ready_state\<lparr>trace :=
         [(TokenMintTransaction_freezeWith (Some (TokenId ''0.0.2001''))
             [Buffer ''cid-1'', Buffer ''cid-2''] (Client 0),
           Returned (VTransaction (Transaction 0))),
          (Transaction_sign (Transaction 0) (PrivateKey 1 (PublicKey 1)),
           Returned (VTransaction (Transaction 1))),
          (Transaction_execute (Transaction 1) (Client 0),
           Returned (VResponse (TransactionResponse 2))),
          (TransactionResponse_getReceipt (TransactionResponse 2) (Client 0),
           Returned (VReceipt demo_receipt))]\<rparr>) \<and>
      mr_serials r = Some [Long ''1'', Long ''2''] \<and> mr_count r = 2) \<and>
   (\<exists>out rest. events_since ready_state
      (snd (mintNFTs (sign_fails invalid_signature) demo_token
              (JArr [JStr ''cid-1'', JJson ''2024'']) ready_state)) =
      (TokenMintTransaction_freezeWith (Some (TokenId ''0.0.2001''))
         [Buffer ''cid-1'', Buffer ''2024''] (Client 0), out) # rest)"
proof -
  have g: "getClient w ready_state = (Inr (Client 0), ready_state)" for w
    by (simp add: getClient_def ready_state_def return_def)
  have cids: "list_all2
      (\<lambda>x t. x = JStr t \<or> (\<not> typeof_string x \<and> JSON_stringify x = Inr (Some t)))
      [JStr ''cid-1'', JStr ''cid-2''] [''cid-1'', ''cid-2'']"
    by simp
  have mixed: "list_all2
      (\<lambda>x t. x = JStr t \<or> (\<not> typeof_string x \<and> JSON_stringify x = Inr (Some t)))
      [JStr ''cid-1'', JJson ''2024''] [''cid-1'', ''2024'']"
    by simp
  note inst = mintNFTs_one_transaction_of_texts
    [OF g cids, where w = all_succeed and tokenData = demo_token and v = "JStr ''cid-1''"]
  from inst have wrapped: "mintNFTs all_succeed demo_token (JStr ''cid-1'')
     = mintNFTs all_succeed demo_token (JArr [JStr ''cid-1''])"
    by simp
  note forward = inst [THEN conjunct2, THEN conjunct2, THEN conjunct2, THEN conjunct2,
    THEN conjunct1, rule_format,
    of "Transaction 0" "Transaction 1" "TransactionResponse 2" demo_receipt]
  have answers:
       "tk_treasuryAccount demo_token < length (heap ready_state) \<and>
        returns_transaction all_succeed (trace ready_state)
          (TokenMintTransaction_freezeWith (tk_tokenId demo_token)
             (map Buffer [''cid-1'', ''cid-2'']) (Client 0))
          = Inr (Transaction 0) \<and>
        returns_transaction all_succeed
          (trace ready_state @
            [(TokenMintTransaction_freezeWith (tk_tokenId demo_token)
                (map Buffer [''cid-1'', ''cid-2'']) (Client 0),
              Returned (VTransaction (Transaction 0)))])
          (Transaction_sign (Transaction 0)
             (privateKey (heap ready_state ! tk_treasuryAccount demo_token)))
          = Inr (Transaction 1) \<and>
        returns_response all_succeed
          (trace ready_state @
            [(TokenMintTransaction_freezeWith (tk_tokenId demo_token)
                (map Buffer [''cid-1'', ''cid-2'']) (Client 0),
              Returned (VTransaction (Transaction 0))),
             (Transaction_sign (Transaction 0)
                (privateKey (heap ready_state ! tk_treasuryAccount demo_token)),
              Returned (VTransaction (Transaction 1)))])
          (Transaction_execute (Transaction 1) (Client 0))
          = Inr (TransactionResponse 2) \<and>
        returns_receipt all_succeed
          (trace ready_state @
            [(TokenMintTransaction_freezeWith (tk_tokenId demo_token)
                (map Buffer [''cid-1'', ''cid-2'']) (Client 0),
              Returned (VTransaction (Transaction 0))),
             (Transaction_sign (Transaction 0)
                (privateKey (heap ready_state ! tk_treasuryAccount demo_token)),
              Returned (VTransaction (Transaction 1))),
             (Transaction_execute (Transaction 1) (Client 0),
              Returned (VResponse (TransactionResponse 2)))])
          (TransactionResponse_getReceipt (TransactionResponse 2) (Client 0))
          = Inr demo_receipt"
    by (simp add: all_succeed_def ready_state_def demo_token_def)
  from forward [OF answers] obtain r where
    run: "mintNFTs all_succeed demo_token (JArr [JStr ''cid-1'', JStr ''cid-2'']) ready_state =
           (Inr r,
            ready_state\<lparr>trace := trace ready_state @
              [(TokenMintTransaction_freezeWith (tk_tokenId demo_token)
                  (map Buffer [''cid-1'', ''cid-2'']) (Client 0),
                Returned (VTransaction (Transaction 0))),
               (Transaction_sign (Transaction 0)
                  (privateKey (heap ready_state ! tk_treasuryAccount demo_token)),
                Returned (VTransaction (Transaction 1))),
               (Transaction_execute (Transaction 1) (Client 0),
                Returned (VResponse (TransactionResponse 2))),
               (TransactionResponse_getReceipt (TransactionResponse 2) (Client 0),
                Returned (VReceipt demo_receipt))]\<rparr>)"
    and ser: "mr_serials r = rc_serials demo_receipt"
    and cnt: "mr_count r =
               (case rc_serials demo_receipt of None \<Rightarrow> 0 | Some serials \<Rightarrow> length serials)"
    by blast
  have final: "ready_state\<lparr>trace := trace ready_state @
              [(TokenMintTransaction_freezeWith (tk_tokenId demo_token)
                  (map Buffer [''cid-1'', ''cid-2'']) (Client 0),
                Returned (VTransaction (Transaction 0))),
               (Transaction_sign (Transaction 0)
                  (privateKey (heap ready_state ! tk_treasuryAccount demo_token)),
                Returned (VTransaction (Transaction 1))),
               (Transaction_execute (Transaction 1) (Client 0),
                Returned (VResponse (TransactionResponse 2))),
               (TransactionResponse_getReceipt (TransactionResponse 2) (Client 0),
                Returned (VReceipt demo_receipt))]\<rparr> =
       ready_state\<lparr>trace :=
         [(TokenMintTransaction_freezeWith (Some (TokenId ''0.0.2001''))
             [Buffer ''cid-1'', Buffer ''cid-2''] (Client 0),
           Returned (VTransaction (Transaction 0))),
          (Transaction_sign (Transaction 0) (PrivateKey 1 (PublicKey 1)),
           Returned (VTransaction (Transaction 1))),
          (Transaction_execute (Transaction 1) (Client 0),
           Returned (VResponse (TransactionResponse 2))),
          (TransactionResponse_getReceipt (TransactionResponse 2) (Client 0),
           Returned (VReceipt demo_receipt))]\<rparr>"
    by (simp add: ready_state_def demo_token_def demo_account_def)
  from ser cnt have res: "mr_serials r = Some [Long ''1'', Long ''2'']" "mr_count r = 2"
    by (simp_all add: demo_receipt_def)
  from run final res
  have minted: "\<exists>r. mintNFTs all_succeed demo_token demo_cids ready_state =
      (Inr r,
       ready_state\<lparr>trace :=
         [(TokenMintTransaction_freezeWith (Some (TokenId ''0.0.2001''))
             [Buffer ''cid-1'', Buffer ''cid-2''] (Client 0),
           Returned (VTransaction (Transaction 0))),
          (Transaction_sign (Transaction 0) (PrivateKey 1 (PublicKey 1)),
           Returned (VTransaction (Transaction 1))),
          (Transaction_execute (Transaction 1) (Client 0),
           Returned (VResponse (TransactionResponse 2))),
          (TransactionResponse_getReceipt (TransactionResponse 2) (Client 0),
           Returned (VReceipt demo_receipt))]\<rparr>) \<and>
      mr_serials r = Some [Long ''1'', Long ''2''] \<and> mr_count r = 2"
    unfolding demo_cids_def by (intro exI [of _ r] conjI) simp_all
  from mintNFTs_one_transaction_of_texts
    [OF g mixed, where w = "sign_fails invalid_signature" and tokenData = demo_token]
  have started: "\<exists>out rest. events_since ready_state
      (snd (mintNFTs (sign_fails invalid_signature) demo_token
              (JArr [JStr ''cid-1'', JJson ''2024'']) ready_state)) =
      (TokenMintTransaction_freezeWith (Some (TokenId ''0.0.2001''))
         [Buffer ''cid-1'', Buffer ''2024''] (Client 0), out) # rest"
    by (simp add: demo_token_def)
  from wrapped minted started show ?thesis by blast
qed

text \<open>
  C10 as stated fails: with an element \<open>undefined\<close> in the metadata every SDK call
  would succeed, yet \<open>Buffer.from\<close> throws before any mint transaction is built.
\<close>

theorem mintNFTs_undefined_counterexample:
  "fst (mintNFTs all_succeed demo_token (JArr [JStr ''cid-1'', JUndefined]) ready_state) =
     Inl (JsError ''TypeError''
       ''The first argument must be of type string or an instance of Buffer, ArrayBuffer, or Array or an Array-like Object. Received undefined'') \<and>
   events_since ready_state
     (snd (mintNFTs all_succeed demo_token (JArr [JStr ''cid-1'', JUndefined]) ready_state)) = []"
  by (simp add: mintNFTs_def getClient_def read_account_def and_then_def lift_def
        try_catch_def invoke_def return_def all_succeed_def ready_state_def Let_def
        metadatas_of_def metadata_buffer_def metadataString_of_def Buffer_from_def
        log_and_rethrow_def throw_def events_since_def)

subsection \<open>The workflows when they return\<close>

lemma createCompleteNFTCollection_returns:
  assumes "createCompleteNFTCollection w tokenConfig metadataArray initialBalance s = (Inr r, s')"
  obtains account s1 tok s2 mint where
    "createAccount w (Some (default_to 100 initialBalance)) s = (Inr account, s1)"
    and "createNFTToken w account (Some (default_to empty_config tokenConfig)) s1 = (Inr tok, s2)"
    and "if 0 < length (default_to [] metadataArray)
         then \<exists>m. mintNFTs w tok (JArr (default_to [] metadataArray)) s2 = (Inr m, s') \<and>
                  mint = Some m
         else s' = s2 \<and> mint = None"
    and "account < length (heap s')"
    and "r = \<lparr>cr_account = account, cr_tokenData = tok, cr_mintResult = mint,
              cr_summary =
                \<lparr>cs_accountId = map_option accountId_toString (accountId (heap s' ! account)),
                 cs_tokenId = map_option tokenId_toString (tk_tokenId tok),
                 cs_nftCount =
                   (case map_option mr_count mint of
                      None \<Rightarrow> 0
                    | Some n \<Rightarrow> if n = 0 then 0 else n),
                 cs_serials =
                   (case Option.bind mint mr_serials of
                      None \<Rightarrow> []
                    | Some xs \<Rightarrow> map long_toString xs)\<rparr>\<rparr>"
  using assms unfolding createCompleteNFTCollection_def
  apply (simp only: try_catch_log_and_rethrow Let_def)
  apply (cases "0 < length (default_to [] metadataArray)")
   apply (simp only: if_True)
   apply (elim and_then_InrE return_InrE read_account_InrE)
   apply clarify
   apply simp
  apply (simp only: if_False)
  apply (elim and_then_InrE return_InrE read_account_InrE)
  apply clarify
  apply simp
  apply blast
  done

subsection \<open>The sequence of calls of a run that returns\<close>

lemma made_calls_after_getClient:
  assumes g: "getClient w s = (Inr c, s1)"
    and t: "trace s' = trace s1 @ evs" and k: "client s' = client s1"
  shows "made_calls s s' (map (\<lambda>ev. call_name (fst ev)) evs)"
  using g
proof (rule getClient_returns)
  assume "client s = Some c" and "s1 = s"
  with t k show ?thesis
    by (simp add: made_calls_def calls_since_def events_since_def client_setup_def)
next
  assume "client s = None" and
    "s1 = s\<lparr>client := Some c,
              trace := trace s @
                [(Client_forTestnet, Returned (VClient c)),
                 (Client_setOperator c (operatorId s) (operatorKey s), Returned VUnit),
                 (Client_setDefaultMaxTransactionFee c 50, Returned VUnit),
                 (Client_setDefaultMaxQueryPayment c 30, Returned VUnit)]\<rparr>"
  with t k show ?thesis
    by (simp add: made_calls_def calls_since_def events_since_def client_setup_def)
qed

lemma made_calls_then:
  assumes a: "made_calls s s1 xs" and b: "made_calls s1 s2 ys"
  shows "made_calls s s2 (xs @ ys)"
proof -
  from a obtain e1 where t1: "trace s1 = trace s @ e1"
    and c1: "calls_since s s1 = client_setup s @ xs" and k1: "client s1 \<noteq> None"
    by (auto simp: made_calls_def)
  from b k1 obtain e2 where t2: "trace s2 = trace s1 @ e2"
    and c2: "calls_since s1 s2 = ys" and k2: "client s2 \<noteq> None"
    by (auto simp: made_calls_def client_setup_def)
  from t1 t2 have "calls_since s s2 = calls_since s s1 @ calls_since s1 s2"
    by (simp add: calls_since_def events_since_def)
  with c1 c2 t1 t2 k2 show ?thesis by (simp add: made_calls_def)
qed

lemma made_calls_createAccount:
  "createAccount w b s = (Inr r, s') \<Longrightarrow> made_calls s s' account_calls"
  by (erule createAccount_returns,
      drule made_calls_after_getClient [where s' = s'], simp, simp,
      simp add: account_calls_def)

lemma made_calls_createNFTToken:
  "createNFTToken w a cfg s = (Inr r, s') \<Longrightarrow> made_calls s s' token_calls"
  by (erule createNFTToken_returns,
      drule made_calls_after_getClient [where s' = s'], simp, simp,
      simp add: token_calls_def)

lemma made_calls_mintNFTs:
  "mintNFTs w tok md s = (Inr r, s') \<Longrightarrow> made_calls s s' mint_calls"
  by (erule mintNFTs_returns,
      drule made_calls_after_getClient [where s' = s'], simp, simp,
      simp add: mint_calls_def)

lemma made_calls_getTokenBasicInfo:
  "getTokenBasicInfo w t s = (Inr r, s') \<Longrightarrow> made_calls s s' [''TokenInfoQuery.execute'']"
  by (erule getTokenBasicInfo_returns,
      drule made_calls_after_getClient [where s' = s'], simp, simp, simp)

lemma made_calls_associate:
  "associateTokenToAccount w a t s = (Inr r, s') \<Longrightarrow> made_calls s s' association_calls"
  by (erule associateTokenToAccount_returns,
      drule made_calls_after_getClient [where s' = s'], simp, simp,
      simp add: association_calls_def)

lemma made_calls_getAccountBalance:
  "getAccountBalance w a s = (Inr r, s') \<Longrightarrow> made_calls s s' [''AccountBalanceQuery.execute'']"
  by (erule getAccountBalance_returns,
      drule made_calls_after_getClient [where s' = s'], simp, simp, simp)

subsection \<open>The sequence of calls of any run\<close>

lemma calls_prefix_createAccount:
  "prefix (calls_since s (snd (createAccount w b s))) (client_setup s @ account_calls)"
  by (cases "client s")
     (simp_all add: createAccount_def Let_def getClient_def set_client_def and_then_def
        invoke_def new_object_def return_def try_catch_def log_and_rethrow_def throw_def
        calls_since_def events_since_def client_setup_def account_calls_def
        split: sum.splits)

lemma calls_prefix_createNFTToken:
  "prefix (calls_since s (snd (createNFTToken w a cfg s))) (client_setup s @ token_calls)"
  by (cases "client s")
     (simp_all add: createNFTToken_def Let_def getClient_def set_client_def and_then_def
        invoke_def read_account_def return_def try_catch_def log_and_rethrow_def throw_def
        calls_since_def events_since_def client_setup_def token_calls_def
        split: sum.splits)

lemma calls_prefix_mintNFTs:
  "prefix (calls_since s (snd (mintNFTs w tok md s))) (client_setup s @ mint_calls)"
  by (cases "client s")
     (simp_all add: mintNFTs_def Let_def getClient_def set_client_def and_then_def lift_def
        invoke_def read_account_def new_Date_toISOString_def return_def try_catch_def
        log_and_rethrow_def throw_def
        calls_since_def events_since_def client_setup_def mint_calls_def
        split: sum.splits)

lemma calls_prefix_getTokenBasicInfo:
  "prefix (calls_since s (snd (getTokenBasicInfo w t s)))
     (client_setup s @ [''TokenInfoQuery.execute''])"
  by (cases "client s")
     (simp_all add: getTokenBasicInfo_def Let_def getClient_def set_client_def and_then_def
        invoke_def return_def try_catch_def log_and_rethrow_def throw_def
        calls_since_def events_since_def client_setup_def
        split: sum.splits)

lemma calls_prefix_associate:
  "prefix (calls_since s (snd (associateTokenToAccount w a t s)))
     (client_setup s @ association_calls)"
  by (cases "client s")
     (simp_all add: associateTokenToAccount_def Let_def getClient_def set_client_def
        and_then_def invoke_def read_account_def new_Date_toISOString_def return_def
        try_catch_def log_and_rethrow_def throw_def
        calls_since_def events_since_def client_setup_def association_calls_def
        split: sum.splits)

lemma calls_prefix_getAccountBalance:
  "prefix (calls_since s (snd (getAccountBalance w a s)))
     (client_setup s @ [''AccountBalanceQuery.execute''])"
  by (cases "client s"; cases a)
     (simp_all add: getAccountBalance_def Let_def getClient_def set_client_def
        and_then_def invoke_def read_account_def account_id_of_def readable_balance_def
        not_a_function_run return_def
        try_catch_def log_and_rethrow_def throw_def
        calls_since_def events_since_def client_setup_def
        split: sum.splits option.splits)

lemma call_sequenceI:
  assumes "prefix (calls_since s (snd (m s))) (client_setup s @ names)"
    and "\<And>x s'. m s = (Inr x, s') \<Longrightarrow> made_calls s s' names"
  shows "call_sequence m s names"
proof (cases "m s")
  case (Pair r s')
  show ?thesis
  proof (cases r)
    case (Inl e)
    with Pair assms(1) show ?thesis by (simp add: call_sequence_def)
  next
    case (Inr x)
    with Pair assms(2) [of x s'] show ?thesis by (simp add: call_sequence_def made_calls_def)
  qed
qed

lemma call_sequence_and_then:
  assumes first: "call_sequence m s xs"
    and ret: "\<And>x s1. m s = (Inr x, s1) \<Longrightarrow> made_calls s s1 xs"
    and grows: "\<And>x s1. \<exists>evs. trace (snd (f x s1)) = trace s1 @ evs"
    and rest: "\<And>x s1. m s = (Inr x, s1) \<Longrightarrow> client s1 \<noteq> None \<Longrightarrow> call_sequence (f x) s1 ys"
  shows "call_sequence (and_then m f) s (xs @ ys)"
proof (cases "m s")
  case (Pair r s1)
  show ?thesis
  proof (cases r)
    case (Inl e)
    with Pair first have "prefix (calls_since s s1) (client_setup s @ xs)"
      by (simp add: call_sequence_def)
    then have "prefix (calls_since s s1) ((client_setup s @ xs) @ ys)"
      by (rule prefix_prefix)
    with Pair Inl show ?thesis by (simp add: call_sequence_def and_then_def)
  next
    case (Inr x)
    with Pair have run: "m s = (Inr x, s1)" by simp
    from ret [OF run] obtain e1 where t1: "trace s1 = trace s @ e1"
      and c1: "calls_since s s1 = client_setup s @ xs" and k1: "client s1 \<noteq> None"
      by (auto simp: made_calls_def)
    obtain r2 s2 where run2: "f x s1 = (r2, s2)" by (cases "f x s1")
    from grows [of x s1] run2 obtain e2 where t2: "trace s2 = trace s1 @ e2" by auto
    from t1 t2 have split: "calls_since s s2 = calls_since s s1 @ calls_since s1 s2"
      by (simp add: calls_since_def events_since_def)
    from k1 have setup1: "client_setup s1 = []" by (simp add: client_setup_def)
    note next_step = rest [OF run k1]
    show ?thesis
    proof (cases r2)
      case (Inl e)
      with next_step run2 setup1 have "prefix (calls_since s1 s2) ys"
        by (simp add: call_sequence_def)
      with split c1 run run2 Inl show ?thesis
        by (simp add: call_sequence_def and_then_def)
    next
      case (Inr y)
      with next_step run2 setup1 have "calls_since s1 s2 = ys"
        by (simp add: call_sequence_def)
      with split c1 run run2 Inr show ?thesis
        by (simp add: call_sequence_def and_then_def)
    qed
  qed
qed

lemma call_sequence_mint_stage:
  assumes k: "client s \<noteq> None"
  shows "call_sequence
     (and_then (if 0 < length xs
                then and_then (mintNFTs w tok (JArr xs)) (\<lambda>r. return (Some r))
                else return None)
        (\<lambda>mintResult. and_then (read_account a) (\<lambda>obj. return (g mintResult obj))))
     s (if 0 < length xs then mint_calls else [])"
proof (cases "0 < length xs")
  case False
  with k show ?thesis
    by (auto simp: call_sequence_def and_then_def return_def read_account_def
          calls_since_def events_since_def client_setup_def)
next
  case True
  obtain r3 s3 where run: "mintNFTs w tok (JArr xs) s = (r3, s3)"
    by (cases "mintNFTs w tok (JArr xs) s")
  show ?thesis
  proof (cases r3)
    case (Inl e)
    with run calls_prefix_mintNFTs [of s w tok "JArr xs"] True show ?thesis
      by (simp add: call_sequence_def and_then_def)
  next
    case (Inr m)
    with run have "made_calls s s3 mint_calls" by (simp add: made_calls_mintNFTs)
    then have "calls_since s s3 = client_setup s @ mint_calls" by (simp add: made_calls_def)
    with run Inr True show ?thesis
      by (simp add: call_sequence_def and_then_def return_def read_account_def)
  qed
qed

lemma call_sequence_createCompleteNFTCollection:
  "call_sequence (createCompleteNFTCollection w cfg md b) s
     (account_calls @ token_calls @
      (if 0 < length (default_to [] md) then mint_calls else []))"
  unfolding createCompleteNFTCollection_def Let_def try_catch_log_and_rethrow
proof (rule call_sequence_and_then)
  show "call_sequence (createAccount w (Some (default_to 100 b))) s account_calls"
    by (rule call_sequenceI [OF calls_prefix_createAccount made_calls_createAccount])
  show "made_calls s s1 account_calls"
    if "createAccount w (Some (default_to 100 b)) s = (Inr x, s1)" for x s1
    using that by (rule made_calls_createAccount)
  show "\<exists>evs. trace (snd (and_then (createNFTToken w x (Some (default_to empty_config cfg)))
           (\<lambda>tokenData.
              and_then (if 0 < length (default_to [] md)
                        then and_then (mintNFTs w tokenData (JArr (default_to [] md)))
                               (\<lambda>r. return (Some r))
                        else return None)
                (\<lambda>mintResult.
                   and_then (read_account x) (\<lambda>account_obj.
                   return
                     \<lparr>cr_account = x, cr_tokenData = tokenData, cr_mintResult = mintResult,
                      cr_summary =
                        \<lparr>cs_accountId = map_option accountId_toString (accountId account_obj),
                         cs_tokenId = map_option tokenId_toString (tk_tokenId tokenData),
                         cs_nftCount =
                           (case map_option mr_count mintResult of
                              None \<Rightarrow> 0
                            | Some n \<Rightarrow> if n = 0 then 0 else n),
                         cs_serials =
                           (case Option.bind mintResult mr_serials of
                              None \<Rightarrow> []
                            | Some xs \<Rightarrow> map long_toString xs)\<rparr>\<rparr>))) s1)) = trace s1 @ evs"
    for x s1
    by (rule fails_fast_grows)
       (intro fails_fast_intros fails_fast_createNFTToken fails_fast_mintNFTs)
  show "call_sequence
          (and_then (createNFTToken w x (Some (default_to empty_config cfg)))
           (\<lambda>tokenData.
              and_then (if 0 < length (default_to [] md)
                        then and_then (mintNFTs w tokenData (JArr (default_to [] md)))
                               (\<lambda>r. return (Some r))
                        else return None)
                (\<lambda>mintResult.
                   and_then (read_account x) (\<lambda>account_obj.
                   return
                     \<lparr>cr_account = x, cr_tokenData = tokenData, cr_mintResult = mintResult,
                      cr_summary =
                        \<lparr>cs_accountId = map_option accountId_toString (accountId account_obj),
                         cs_tokenId = map_option tokenId_toString (tk_tokenId tokenData),
                         cs_nftCount =
                           (case map_option mr_count mintResult of
                              None \<Rightarrow> 0
                            | Some n \<Rightarrow> if n = 0 then 0 else n),
                         cs_serials =
                           (case Option.bind mintResult mr_serials of
                              None \<Rightarrow> []
                            | Some xs \<Rightarrow> map long_toString xs)\<rparr>\<rparr>))))
          s1 (token_calls @ (if 0 < length (default_to [] md) then mint_calls else []))"
    if "client s1 \<noteq> None" for x s1
  proof (rule call_sequence_and_then)
    show "call_sequence (createNFTToken w x (Some (default_to empty_config cfg))) s1 token_calls"
      by (rule call_sequenceI [OF calls_prefix_createNFTToken made_calls_createNFTToken])
    show "made_calls s1 s2 token_calls"
      if "createNFTToken w x (Some (default_to empty_config cfg)) s1 = (Inr tok, s2)" for tok s2
      using that by (rule made_calls_createNFTToken)
    show "\<exists>evs. trace (snd (and_then (if 0 < length (default_to [] md)
                        then and_then (mintNFTs w tok (JArr (default_to [] md)))
                               (\<lambda>r. return (Some r))
                        else return None)
                (\<lambda>mintResult.
                   and_then (read_account x) (\<lambda>account_obj.
                   return
                     \<lparr>cr_account = x, cr_tokenData = tok, cr_mintResult = mintResult,
                      cr_summary =
                        \<lparr>cs_accountId = map_option accountId_toString (accountId account_obj),
                         cs_tokenId = map_option tokenId_toString (tk_tokenId tok),
                         cs_nftCount =
                           (case map_option mr_count mintResult of
                              None \<Rightarrow> 0
                            | Some n \<Rightarrow> if n = 0 then 0 else n),
                         cs_serials =
                           (case Option.bind mintResult mr_serials of
                              None \<Rightarrow> []
                            | Some xs \<Rightarrow> map long_toString xs)\<rparr>\<rparr>)) s2)) = trace s2 @ evs"
      for tok s2
      by (rule fails_fast_grows) (intro fails_fast_intros fails_fast_mintNFTs)
    show "call_sequence
            (and_then (if 0 < length (default_to [] md)
                        then and_then (mintNFTs w tok (JArr (default_to [] md)))
                               (\<lambda>r. return (Some r))
                        else return None)
                (\<lambda>mintResult.
                   and_then (read_account x) (\<lambda>account_obj.
                   return
                     \<lparr>cr_account = x, cr_tokenData = tok, cr_mintResult = mintResult,
                      cr_summary =
                        \<lparr>cs_accountId = map_option accountId_toString (accountId account_obj),
                         cs_tokenId = map_option tokenId_toString (tk_tokenId tok),
                         cs_nftCount =
                           (case map_option mr_count mintResult of
                              None \<Rightarrow> 0
                            | Some n \<Rightarrow> if n = 0 then 0 else n),
                         cs_serials =
                           (case Option.bind mintResult mr_serials of
                              None \<Rightarrow> []
                            | Some xs \<Rightarrow> map long_toString xs)\<rparr>\<rparr>)))
            s2 (if 0 < length (default_to [] md) then mint_calls else [])"
      if "client s2 \<noteq> None" for tok s2
      using that by (rule call_sequence_mint_stage)
  qed
qed

lemma mintResult_createCompleteNFTCollection:
  assumes "createCompleteNFTCollection w cfg md b s = (Inr r, s')"
  shows "(cr_mintResult r = None) = (default_to [] md = [])"
  using assms
proof (elim createCompleteNFTCollection_returns)
  fix account s1 tok s2 mint
  assume h3: "if 0 < length (default_to [] md)
         then \<exists>m. mintNFTs w tok (JArr (default_to [] md)) s2 = (Inr m, s') \<and> mint = Some m
         else s' = s2 \<and> mint = None"
    and r: "r = \<lparr>cr_account = account, cr_tokenData = tok, cr_mintResult = mint,
              cr_summary =
                \<lparr>cs_accountId = map_option accountId_toString (accountId (heap s' ! account)),
                 cs_tokenId = map_option tokenId_toString (tk_tokenId tok),
                 cs_nftCount =
                   (case map_option mr_count mint of
                      None \<Rightarrow> 0
                    | Some n \<Rightarrow> if n = 0 then 0 else n),
                 cs_serials =
                   (case Option.bind mint mr_serials of
                      None \<Rightarrow> []
                    | Some xs \<Rightarrow> map long_toString xs)\<rparr>\<rparr>"
  show ?thesis
  proof (cases "0 < length (default_to [] md)")
    case True
    with h3 r show ?thesis by auto
  next
    case False
    with h3 r show ?thesis by simp
  qed
qed

lemma call_sequence_returned:
  "call_sequence m s names \<Longrightarrow> m s = (Inr r, s') \<Longrightarrow> calls_since s s' = client_setup s @ names"
  by (simp add: call_sequence_def)

lemma call_sequence_thrown:
  "call_sequence m s names \<Longrightarrow> m s = (Inl e, s') \<Longrightarrow>
     prefix (calls_since s s') (client_setup s @ names)"
  by (simp add: call_sequence_def)

lemma returnsE:
  assumes "\<not> isl (fst (m s))"
  obtains r s' where "m s = (Inr r, s')"
  using assms by (cases "m s"; cases "fst (m s)") auto

lemma throwsE:
  assumes "isl (fst (m s))"
  obtains e s' where "m s = (Inl e, s')"
  using assms by (cases "m s"; cases "fst (m s)") auto

text \<open>
  C4 (as amended). Whatever its arguments, each of \<open>createAccount\<close>, \<open>createNFTToken\<close>,
  \<open>mintNFTs\<close>, \<open>getTokenBasicInfo\<close>, \<open>associateTokenToAccount\<close> and
  \<open>getAccountBalance\<close> makes, after the client construction of a first use, one fixed
  sequence of SDK calls (three, five, four, one, four and one calls): all of it when
  the method returns, an initial segment of it when the method throws.
  \<open>createCompleteNFTCollection\<close> depends on more: the calls of a mint follow those of
  the account and of the token only when the metadata list is not empty, and the
  method returns \<open>mintResult = null\<close> exactly when the list is empty.
\<close>

theorem same_calls_whatever_the_input:
  "call_sequence (createAccount w initialBalance) s account_calls \<and>
   call_sequence (createNFTToken w treasuryAccount tokenConfig) s token_calls \<and>
   call_sequence (mintNFTs w tokenData metadataArray) s mint_calls \<and>
   call_sequence (getTokenBasicInfo w tokenId) s [''TokenInfoQuery.execute''] \<and>
   call_sequence (associateTokenToAccount w account tokenId) s association_calls \<and>
   call_sequence (getAccountBalance w account_arg) s [''AccountBalanceQuery.execute''] \<and>
   call_sequence (createCompleteNFTCollection w tokenConfig metadataList initialBalance) s
     (account_calls @ token_calls @
      (if 0 < length (default_to [] metadataList) then mint_calls else [])) \<and>
   (\<forall>r s'. createCompleteNFTCollection w tokenConfig metadataList initialBalance s = (Inr r, s')
      \<longrightarrow> (cr_mintResult r = None) = (default_to [] metadataList = []))"
  by (intro conjI allI impI
        call_sequenceI [OF calls_prefix_createAccount made_calls_createAccount]
        call_sequenceI [OF calls_prefix_createNFTToken made_calls_createNFTToken]
        call_sequenceI [OF calls_prefix_mintNFTs made_calls_mintNFTs]
        call_sequenceI [OF calls_prefix_getTokenBasicInfo made_calls_getTokenBasicInfo]
        call_sequenceI [OF calls_prefix_associate made_calls_associate]
        call_sequenceI [OF calls_prefix_getAccountBalance made_calls_getAccountBalance]
        call_sequence_createCompleteNFTCollection
        mintResult_createCompleteNFTCollection)

theorem same_calls_whatever_the_input_witness:
  "(\<exists>r s'. createAccount all_succeed (Some 500) fresh_state = (Inr r, s') \<and>
      calls_since fresh_state s' =
        [''Client.forTestnet'', ''Client.setOperator'',
         ''Client.setDefaultMaxTransactionFee'', ''Client.setDefaultMaxQueryPayment'',
         ''PrivateKey.generateED25519'', ''AccountCreateTransaction.execute'',
         ''TransactionResponse.getReceipt'']) \<and>
   (\<exists>r s'. createNFTToken all_succeed 0 (Some demo_config) ready_state = (Inr r, s') \<and>
      calls_since ready_state s' =
        [''TokenCreateTransaction.freezeWith'', ''Transaction.sign'', ''Transaction.execute'',
         ''TransactionResponse.getReceipt'', ''TokenInfoQuery.execute'']) \<and>
   (\<exists>r s'. mintNFTs all_succeed demo_token demo_cids ready_state = (Inr r, s') \<and>
      calls_since ready_state s' =
        [''TokenMintTransaction.freezeWith'', ''Transaction.sign'', ''Transaction.execute'',
         ''TransactionResponse.getReceipt'']) \<and>
   (\<exists>r s'. getTokenBasicInfo all_succeed (Some (TokenId ''0.0.2001'')) ready_state = (Inr r, s') \<and>
      calls_since ready_state s' = [''TokenInfoQuery.execute'']) \<and>
   (\<exists>r s'. associateTokenToAccount all_succeed 1 (Some (TokenId ''0.0.2001'')) ready_state
              = (Inr r, s') \<and>
      calls_since ready_state s' =
        [''TokenAssociateTransaction.freezeWith'', ''Transaction.sign'',
         ''Transaction.execute'', ''TransactionResponse.getReceipt'']) \<and>
   (\<exists>e s'. associateTokenToAccount (sign_fails invalid_signature) 1
              (Some (TokenId ''0.0.2001'')) ready_state = (Inl e, s') \<and>
      prefix (calls_since ready_state s')
        [''TokenAssociateTransaction.freezeWith'', ''Transaction.sign'',
         ''Transaction.execute'', ''TransactionResponse.getReceipt'']) \<and>
   (\<exists>r s'. getAccountBalance all_succeed (AccountString ''0.0.1001'') ready_state = (Inr r, s') \<and>
      calls_since ready_state s' = [''AccountBalanceQuery.execute'']) \<and>
   (\<exists>r s'. createCompleteNFTCollection all_succeed None (Some [JStr ''cid-1'']) None fresh_state
              = (Inr r, s') \<and>
      cr_mintResult r \<noteq> None \<and>
      calls_since fresh_state s' =
        [''Client.forTestnet'', ''Client.setOperator'',
         ''Client.setDefaultMaxTransactionFee'', ''Client.setDefaultMaxQueryPayment'',
         ''PrivateKey.generateED25519'', ''AccountCreateTransaction.execute'',
         ''TransactionResponse.getReceipt'',
         ''TokenCreateTransaction.freezeWith'', ''Transaction.sign'', ''Transaction.execute'',
         ''TransactionResponse.getReceipt'', ''TokenInfoQuery.execute'',
         ''TokenMintTransaction.freezeWith'', ''Transaction.sign'', ''Transaction.execute'',
         ''TransactionResponse.getReceipt''])"
proof -
  define tok where "tok = Some (TokenId ''0.0.2001'')"
  note fresh = same_calls_whatever_the_input
    [where w = all_succeed and s = fresh_state and initialBalance = "Some 500"]
  note ready = same_calls_whatever_the_input
    [where w = all_succeed and s = ready_state and treasuryAccount = 0
       and tokenConfig = "Some demo_config" and tokenData = demo_token
       and metadataArray = demo_cids and tokenId = tok and account = 1
       and account_arg = "AccountString ''0.0.1001''"]
  note failing = same_calls_whatever_the_input
    [where w = "sign_fails invalid_signature" and s = ready_state and tokenId = tok
       and account = 1]
  note whole = same_calls_whatever_the_input
    [where w = all_succeed and s = fresh_state and tokenConfig = None
       and metadataList = "Some [JStr ''cid-1'']" and initialBalance = None]
  have "\<not> isl (fst (createAccount all_succeed (Some 500) fresh_state))" by code_simp
  then obtain r1 s1 where run1: "createAccount all_succeed (Some 500) fresh_state = (Inr r1, s1)"
    by (rule returnsE)
  from call_sequence_returned [OF fresh [THEN conjunct1] run1]
  have c1: "calls_since fresh_state s1 =
        [''Client.forTestnet'', ''Client.setOperator'',
         ''Client.setDefaultMaxTransactionFee'', ''Client.setDefaultMaxQueryPayment'',
         ''PrivateKey.generateED25519'', ''AccountCreateTransaction.execute'',
         ''TransactionResponse.getReceipt'']"
    by (simp add: client_setup_def fresh_state_def account_calls_def)
  have "\<not> isl (fst (createNFTToken all_succeed 0 (Some demo_config) ready_state))" by code_simp
  then obtain r2 s2 where
    run2: "createNFTToken all_succeed 0 (Some demo_config) ready_state = (Inr r2, s2)"
    by (rule returnsE)
  from call_sequence_returned [OF ready [THEN conjunct2, THEN conjunct1] run2]
  have c2: "calls_since ready_state s2 =
        [''TokenCreateTransaction.freezeWith'', ''Transaction.sign'', ''Transaction.execute'',
         ''TransactionResponse.getReceipt'', ''TokenInfoQuery.execute'']"
    by (simp add: client_setup_def ready_state_def token_calls_def)
  have "\<not> isl (fst (mintNFTs all_succeed demo_token demo_cids ready_state))" by code_simp
  then obtain r3 s3 where
    run3: "mintNFTs all_succeed demo_token demo_cids ready_state = (Inr r3, s3)"
    by (rule returnsE)
  from call_sequence_returned
    [OF ready [THEN conjunct2, THEN conjunct2, THEN conjunct1] run3]
  have c3: "calls_since ready_state s3 =
        [''TokenMintTransaction.freezeWith'', ''Transaction.sign'', ''Transaction.execute'',
         ''TransactionResponse.getReceipt'']"
    by (simp add: client_setup_def ready_state_def mint_calls_def)
  have "\<not> isl (fst (getTokenBasicInfo all_succeed tok ready_state))"
    unfolding tok_def by code_simp
  then obtain r4 s4 where
    run4: "getTokenBasicInfo all_succeed tok ready_state = (Inr r4, s4)"
    by (rule returnsE)
  from call_sequence_returned
    [OF ready [THEN conjunct2, THEN conjunct2, THEN conjunct2, THEN conjunct1] run4]
  have c4: "calls_since ready_state s4 = [''TokenInfoQuery.execute'']"
    by (simp add: client_setup_def ready_state_def)
  have "\<not> isl (fst (associateTokenToAccount all_succeed 1 tok ready_state))"
    unfolding tok_def by code_simp
  then obtain r5 s5 where
    run5: "associateTokenToAccount all_succeed 1 tok ready_state = (Inr r5, s5)"
    by (rule returnsE)
  from call_sequence_returned
    [OF ready [THEN conjunct2, THEN conjunct2, THEN conjunct2, THEN conjunct2, THEN conjunct1]
       run5]
  have c5: "calls_since ready_state s5 =
        [''TokenAssociateTransaction.freezeWith'', ''Transaction.sign'',
         ''Transaction.execute'', ''TransactionResponse.getReceipt'']"
    by (simp add: client_setup_def ready_state_def association_calls_def)
  have "isl (fst (associateTokenToAccount (sign_fails invalid_signature) 1 tok ready_state))"
    unfolding tok_def by code_simp
  then obtain e6 s6 where
    run6: "associateTokenToAccount (sign_fails invalid_signature) 1 tok ready_state
             = (Inl e6, s6)"
    by (rule throwsE)
  from call_sequence_thrown
    [OF failing [THEN conjunct2, THEN conjunct2, THEN conjunct2, THEN conjunct2,
         THEN conjunct1] run6]
  have c6: "prefix (calls_since ready_state s6)
        [''TokenAssociateTransaction.freezeWith'', ''Transaction.sign'',
         ''Transaction.execute'', ''TransactionResponse.getReceipt'']"
    by (simp add: client_setup_def ready_state_def association_calls_def)
  have "\<not> isl (fst (getAccountBalance all_succeed (AccountString ''0.0.1001'') ready_state))"
    by code_simp
  then obtain r7 s7 where
    run7: "getAccountBalance all_succeed (AccountString ''0.0.1001'') ready_state = (Inr r7, s7)"
    by (rule returnsE)
  from call_sequence_returned
    [OF ready [THEN conjunct2, THEN conjunct2, THEN conjunct2, THEN conjunct2, THEN conjunct2,
         THEN conjunct1] run7]
  have c7: "calls_since ready_state s7 = [''AccountBalanceQuery.execute'']"
    by (simp add: client_setup_def ready_state_def)
  have "\<not> isl (fst (createCompleteNFTCollection all_succeed None (Some [JStr ''cid-1'']) None
                      fresh_state))"
    by code_simp
  then obtain r8 s8 where
    run8: "createCompleteNFTCollection all_succeed None (Some [JStr ''cid-1'']) None fresh_state
            = (Inr r8, s8)"
    by (rule returnsE)
  from call_sequence_returned
    [OF whole [THEN conjunct2, THEN conjunct2, THEN conjunct2, THEN conjunct2, THEN conjunct2,
         THEN conjunct2, THEN conjunct1] run8]
  have c8: "calls_since fresh_state s8 =
        [''Client.forTestnet'', ''Client.setOperator'',
         ''Client.setDefaultMaxTransactionFee'', ''Client.setDefaultMaxQueryPayment'',
         ''PrivateKey.generateED25519'', ''AccountCreateTransaction.execute'',
         ''TransactionResponse.getReceipt'',
         ''TokenCreateTransaction.freezeWith'', ''Transaction.sign'', ''Transaction.execute'',
         ''TransactionResponse.getReceipt'', ''TokenInfoQuery.execute'',
         ''TokenMintTransaction.freezeWith'', ''Transaction.sign'', ''Transaction.execute'',
         ''TransactionResponse.getReceipt'']"
    by (simp add: client_setup_def fresh_state_def account_calls_def token_calls_def
          mint_calls_def default_to_def)
  from whole [THEN conjunct2, THEN conjunct2, THEN conjunct2, THEN conjunct2, THEN conjunct2,
         THEN conjunct2, THEN conjunct2, rule_format, OF run8]
  have m8: "cr_mintResult r8 \<noteq> None" by (simp add: default_to_def)
  from run1 c1 run2 c2 run3 c3 run4 c4 run5 c5 run6 c6 run7 c7 run8 c8 m8
  show ?thesis unfolding tok_def by blast
qed

text \<open>
  C4 as stated fails: on the same ledger, \<open>createCompleteNFTCollection\<close> makes the calls
  of a mint for a list of one content identifier and none for the empty list, and the
  results differ in shape (\<open>mintResult\<close> is a record, respectively \<open>null\<close>).
\<close>

theorem calls_depend_on_metadata_counterexample:
  "calls_since fresh_state
     (snd (createCompleteNFTCollection all_succeed None (Some []) None fresh_state)) \<noteq>
   calls_since fresh_state
     (snd (createCompleteNFTCollection all_succeed None (Some [JStr ''cid-1'']) None fresh_state))"
  by code_simp

subsection \<open>Where the fields of a returned record come from\<close>

lemma createAccount_fields:
  assumes run: "createAccount w initialBalance s = (Inr ref, s')"
  shows "\<exists>c s1 key resp rc.
         getClient w s = (Inr c, s1) \<and>
         events_since s1 s' =
           [(PrivateKey_generateED25519, Returned (VPrivateKey key)),
            (AccountCreateTransaction_execute (key_publicKey key)
               (default_to 100 initialBalance) c, Returned (VResponse resp)),
            (TransactionResponse_getReceipt resp c, Returned (VReceipt rc))] \<and>
         ref = length (heap s) \<and>
         heap s' = heap s @
           [\<lparr>accountId = rc_accountId rc, privateKey = key,
             publicKey = key_publicKey key, status = rc_status rc,
             balance = default_to 100 initialBalance\<rparr>]"
    (is "\<exists>c s1 key resp rc. ?P c s1 key resp rc")
proof (rule createAccount_returns [OF run])
  fix c s1 key resp rc
  assume g: "getClient w s = (Inr c, s1)"
    and s': "s' = s1\<lparr>trace := trace s1 @
                 [(PrivateKey_generateED25519, Returned (VPrivateKey key)),
                  (AccountCreateTransaction_execute (key_publicKey key)
                     (default_to 100 initialBalance) c, Returned (VResponse resp)),
                  (TransactionResponse_getReceipt resp c, Returned (VReceipt rc))],
               heap := heap s1 @
                 [\<lparr>accountId = rc_accountId rc, privateKey = key,
                   publicKey = key_publicKey key, status = rc_status rc,
                   balance = default_to 100 initialBalance\<rparr>]\<rparr>"
    and r: "ref = length (heap s1)"
  from getClient_heap [OF g] have h: "heap s1 = heap s" .
  from g s' r h have "?P c s1 key resp rc" by (simp add: events_since_def)
  then show ?thesis by blast
qed

lemma createNFTToken_fields:
  assumes run: "createNFTToken w treasuryAccount tokenConfig s = (Inr tok, s')"
  shows "\<exists>c s1 tx signed resp rc ti.
         getClient w s = (Inr c, s1) \<and>
         (\<exists>request.
            events_since s1 s' =
              [(TokenCreateTransaction_freezeWith request c, Returned (VTransaction tx)),
               (Transaction_sign tx (privateKey (heap s ! treasuryAccount)),
                Returned (VTransaction signed)),
               (Transaction_execute signed c, Returned (VResponse resp)),
               (TransactionResponse_getReceipt resp c, Returned (VReceipt rc)),
               (TokenInfoQuery_execute (rc_tokenId rc) c, Returned (VTokenInfo ti))]) \<and>
         tok = \<lparr>tk_tokenId = rc_tokenId rc, tk_status = rc_status rc,
            tk_name = ti_name ti, tk_symbol = ti_symbol ti, tk_tokenType = ti_tokenType ti,
            tk_decimals = ti_decimals ti, tk_totalSupply = ti_totalSupply ti,
            tk_maxSupply = ti_maxSupply ti, tk_supplyType = ti_supplyType ti,
            tk_treasuryAccountId = ti_treasuryAccountId ti, tk_supplyKey = ti_supplyKey ti,
            tk_creationTime = ti_creationTime ti, tk_treasuryAccount = treasuryAccount\<rparr>"
    (is "\<exists>c s1 tx signed resp rc ti. ?P c s1 tx signed resp rc ti")
proof (rule createNFTToken_returns [OF run])
  fix c s1 tx signed resp rc ti
  assume g: "getClient w s = (Inr c, s1)"
    and s': "s' = s1\<lparr>trace := trace s1 @
       [(TokenCreateTransaction_freezeWith
           \<lparr>tcr_tokenName =
              default_to ''diploma'' (cfg_name (default_to empty_config tokenConfig)),
            tcr_tokenSymbol =
              default_to ''GRAD'' (cfg_symbol (default_to empty_config tokenConfig)),
            tcr_tokenType = ''NonFungibleUnique'', tcr_decimals = 0, tcr_initialSupply = 0,
            tcr_treasuryAccountId = accountId (heap s1 ! treasuryAccount),
            tcr_supplyType = ''Finite'',
            tcr_maxSupply =
              default_to 250 (cfg_maxSupply (default_to empty_config tokenConfig)),
            tcr_supplyKey = privateKey (heap s1 ! treasuryAccount)\<rparr> c,
         Returned (VTransaction tx)),
        (Transaction_sign tx (privateKey (heap s1 ! treasuryAccount)),
         Returned (VTransaction signed)),
        (Transaction_execute signed c, Returned (VResponse resp)),
        (TransactionResponse_getReceipt resp c, Returned (VReceipt rc)),
        (TokenInfoQuery_execute (rc_tokenId rc) c, Returned (VTokenInfo ti))]\<rparr>"
    and r: "tok = \<lparr>tk_tokenId = rc_tokenId rc, tk_status = rc_status rc,
            tk_name = ti_name ti, tk_symbol = ti_symbol ti, tk_tokenType = ti_tokenType ti,
            tk_decimals = ti_decimals ti, tk_totalSupply = ti_totalSupply ti,
            tk_maxSupply = ti_maxSupply ti, tk_supplyType = ti_supplyType ti,
            tk_treasuryAccountId = ti_treasuryAccountId ti, tk_supplyKey = ti_supplyKey ti,
            tk_creationTime = ti_creationTime ti, tk_treasuryAccount = treasuryAccount\<rparr>"
  from getClient_heap [OF g] have h: "heap s1 = heap s" .
  from g s' r h have "?P c s1 tx signed resp rc ti" by (simp add: events_since_def)
  then show ?thesis by blast
qed

lemma mintNFTs_fields:
  assumes run: "mintNFTs w tokenData metadataArray s = (Inr minted, s')"
  shows "\<exists>c s1 bufs tx signed resp rc.
         getClient w s = (Inr c, s1) \<and>
         events_since s1 s' =
           [(TokenMintTransaction_freezeWith (tk_tokenId tokenData) bufs c,
             Returned (VTransaction tx)),
            (Transaction_sign tx (privateKey (heap s ! tk_treasuryAccount tokenData)),
             Returned (VTransaction signed)),
            (Transaction_execute signed c, Returned (VResponse resp)),
            (TransactionResponse_getReceipt resp c, Returned (VReceipt rc))] \<and>
         minted = \<lparr>mr_serials = rc_serials rc, mr_status = rc_status rc,
              mr_tokenId = tk_tokenId tokenData,
              mr_count = (case rc_serials rc of None \<Rightarrow> 0 | Some xs \<Rightarrow> length xs),
              mr_mintedAt = date_now w (trace s')\<rparr>"
    (is "\<exists>c s1 bufs tx signed resp rc. ?P c s1 bufs tx signed resp rc")
proof (rule mintNFTs_returns [OF run])
  fix c s1 bufs tx signed resp rc
  assume g: "getClient w s = (Inr c, s1)"
    and s': "s' = s1\<lparr>trace := trace s1 @
       [(TokenMintTransaction_freezeWith (tk_tokenId tokenData) bufs c,
         Returned (VTransaction tx)),
        (Transaction_sign tx (privateKey (heap s1 ! tk_treasuryAccount tokenData)),
         Returned (VTransaction signed)),
        (Transaction_execute signed c, Returned (VResponse resp)),
        (TransactionResponse_getReceipt resp c, Returned (VReceipt rc))]\<rparr>"
    and r: "minted = \<lparr>mr_serials = rc_serials rc, mr_status = rc_status rc,
              mr_tokenId = tk_tokenId tokenData,
              mr_count = serials_count (rc_serials rc),
              mr_mintedAt = date_now w (trace s')\<rparr>"
  from getClient_heap [OF g] have h: "heap s1 = heap s" .
  from s' have ev: "events_since s1 s' =
           [(TokenMintTransaction_freezeWith (tk_tokenId tokenData) bufs c,
             Returned (VTransaction tx)),
            (Transaction_sign tx (privateKey (heap s ! tk_treasuryAccount tokenData)),
             Returned (VTransaction signed)),
            (Transaction_execute signed c, Returned (VResponse resp)),
            (TransactionResponse_getReceipt resp c, Returned (VReceipt rc))]"
    using h by (simp add: events_since_def)
  from g ev r have "?P c s1 bufs tx signed resp rc" by (simp add: serials_count_length)
  then show ?thesis by blast
qed

lemma getTokenBasicInfo_fields:
  assumes run: "getTokenBasicInfo w tokenId s = (Inr info, s')"
  shows "\<exists>c s1 ti.
         getClient w s = (Inr c, s1) \<and>
         events_since s1 s' = [(TokenInfoQuery_execute tokenId c, Returned (VTokenInfo ti))] \<and>
         info = \<lparr>bi_tokenId = map_option tokenId_toString (ti_tokenId ti),
              bi_name = ti_name ti, bi_symbol = ti_symbol ti,
              bi_type = map_option tokenType_toString (ti_tokenType ti),
              bi_totalSupply = map_option long_toString (ti_totalSupply ti),
              bi_maxSupply = map_option long_toString (ti_maxSupply ti),
              bi_treasury = map_option accountId_toString (ti_treasuryAccountId ti)\<rparr>"
    (is "\<exists>c s1 ti. ?P c s1 ti")
proof (rule getTokenBasicInfo_returns [OF run])
  fix c s1 ti
  assume g: "getClient w s = (Inr c, s1)"
    and s': "s' = s1\<lparr>trace := trace s1 @
                 [(TokenInfoQuery_execute tokenId c, Returned (VTokenInfo ti))]\<rparr>"
    and r: "info = \<lparr>bi_tokenId = map_option tokenId_toString (ti_tokenId ti),
              bi_name = ti_name ti, bi_symbol = ti_symbol ti,
              bi_type = map_option tokenType_toString (ti_tokenType ti),
              bi_totalSupply = map_option long_toString (ti_totalSupply ti),
              bi_maxSupply = map_option long_toString (ti_maxSupply ti),
              bi_treasury = map_option accountId_toString (ti_treasuryAccountId ti)\<rparr>"
  from g s' r have "?P c s1 ti" by (simp add: events_since_def)
  then show ?thesis by blast
qed

lemma associateTokenToAccount_fields:
  assumes run: "associateTokenToAccount w account tokenId s = (Inr assoc, s')"
  shows "\<exists>c s1 tx signed resp rc.
         getClient w s = (Inr c, s1) \<and>
         account < length (heap s) \<and>
         events_since s1 s' =
           [(TokenAssociateTransaction_freezeWith (accountId (heap s ! account)) [tokenId] c,
             Returned (VTransaction tx)),
            (Transaction_sign tx (privateKey (heap s ! account)),
             Returned (VTransaction signed)),
            (Transaction_execute signed c, Returned (VResponse resp)),
            (TransactionResponse_getReceipt resp c, Returned (VReceipt rc))] \<and>
         assoc = \<lparr>as_status = rc_status rc, as_accountId = accountId (heap s ! account),
              as_tokenId = tokenId, as_associatedAt = date_now w (trace s')\<rparr>"
    (is "\<exists>c s1 tx signed resp rc. ?P c s1 tx signed resp rc")
proof (rule associateTokenToAccount_returns [OF run])
  fix c s1 tx signed resp rc
  assume g: "getClient w s = (Inr c, s1)"
    and a: "account < length (heap s1)"
    and s': "s' = s1\<lparr>trace := trace s1 @
       [(TokenAssociateTransaction_freezeWith (accountId (heap s1 ! account)) [tokenId] c,
         Returned (VTransaction tx)),
        (Transaction_sign tx (privateKey (heap s1 ! account)), Returned (VTransaction signed)),
        (Transaction_execute signed c, Returned (VResponse resp)),
        (TransactionResponse_getReceipt resp c, Returned (VReceipt rc))]\<rparr>"
    and r: "assoc = \<lparr>as_status = rc_status rc, as_accountId = accountId (heap s1 ! account),
              as_tokenId = tokenId, as_associatedAt = date_now w (trace s')\<rparr>"
  from getClient_heap [OF g] have h: "heap s1 = heap s" .
  from s' have ev: "events_since s1 s' =
           [(TokenAssociateTransaction_freezeWith (accountId (heap s ! account)) [tokenId] c,
             Returned (VTransaction tx)),
            (Transaction_sign tx (privateKey (heap s ! account)),
             Returned (VTransaction signed)),
            (Transaction_execute signed c, Returned (VResponse resp)),
            (TransactionResponse_getReceipt resp c, Returned (VReceipt rc))]"
    using h by (simp add: events_since_def)
  from g a h ev r have "?P c s1 tx signed resp rc" by simp
  then show ?thesis by blast
qed

lemma getAccountBalance_fields:
  assumes run: "getAccountBalance w account_arg s = (Inr bal_result, s')"
  shows "\<exists>c s1 aid bal.
         getClient w s = (Inr c, s1) \<and>
         (case account_arg of
            AccountString str \<Rightarrow> aid = Some (AccountId str)
          | AccountObject r \<Rightarrow> r < length (heap s) \<and> aid = accountId (heap s ! r)) \<and>
         events_since s1 s' = [(AccountBalanceQuery_execute aid c, Returned (VBalance bal))] \<and>
         br_accountId bal_result = map_option accountId_toString aid \<and>
         br_hbarBalance bal_result = map_option hbar_toString (ab_hbars bal)"
    (is "\<exists>c s1 aid bal. ?P c s1 aid bal")
proof (rule getAccountBalance_returns [OF run])
  fix c s1 aid bal
  assume g: "getClient w s = (Inr c, s1)"
    and a: "account_id_of account_arg s1 = (Inr aid, s1)"
    and s': "s' = s1\<lparr>trace := trace s1 @
                 [(AccountBalanceQuery_execute aid c, Returned (VBalance bal))]\<rparr>"
    and r: "bal_result = \<lparr>br_accountId = map_option accountId_toString aid,
              br_hbarBalance = map_option hbar_toString (ab_hbars bal), br_tokens = []\<rparr>"
  from getClient_heap [OF g] have h: "heap s1 = heap s" .
  from a h have "case account_arg of
            AccountString str \<Rightarrow> aid = Some (AccountId str)
          | AccountObject r \<Rightarrow> r < length (heap s) \<and> aid = accountId (heap s ! r)"
    by (elim account_id_of_InrE) simp_all
  with g s' r have "?P c s1 aid bal" by (simp add: events_since_def)
  then show ?thesis by blast
qed

lemma createCompleteNFTCollection_fields:
  assumes run: "createCompleteNFTCollection w tokenConfig metadataList initialBalance s
                  = (Inr collection, s')"
  shows "\<exists>acc s1 tokd s2 mint.
         createAccount w (Some (default_to 100 initialBalance)) s = (Inr acc, s1) \<and>
         createNFTToken w acc (Some (default_to empty_config tokenConfig)) s1
           = (Inr tokd, s2) \<and>
         (if 0 < length (default_to [] metadataList)
          then \<exists>m. mintNFTs w tokd (JArr (default_to [] metadataList)) s2 = (Inr m, s') \<and>
                   mint = Some m
          else s' = s2 \<and> mint = None) \<and>
         acc < length (heap s') \<and>
         collection = \<lparr>cr_account = acc, cr_tokenData = tokd, cr_mintResult = mint,
              cr_summary =
                \<lparr>cs_accountId = map_option accountId_toString (accountId (heap s' ! acc)),
                 cs_tokenId = map_option tokenId_toString (tk_tokenId tokd),
                 cs_nftCount = (case mint of None \<Rightarrow> 0 | Some m \<Rightarrow> mr_count m),
                 cs_serials =
                   (case Option.bind mint mr_serials of
                      None \<Rightarrow> []
                    | Some xs \<Rightarrow> map long_toString xs)\<rparr>\<rparr>"
    (is "\<exists>acc s1 tokd s2 mint. ?P acc s1 tokd s2 mint")
proof (rule createCompleteNFTCollection_returns [OF run])
  fix acc s1 tokd s2 mint
  assume h1: "createAccount w (Some (default_to 100 initialBalance)) s = (Inr acc, s1)"
    and h2: "createNFTToken w acc (Some (default_to empty_config tokenConfig)) s1
               = (Inr tokd, s2)"
    and h3: "if 0 < length (default_to [] metadataList)
         then \<exists>m. mintNFTs w tokd (JArr (default_to [] metadataList)) s2 = (Inr m, s') \<and>
                  mint = Some m
         else s' = s2 \<and> mint = None"
    and a: "acc < length (heap s')"
    and r: "collection = \<lparr>cr_account = acc, cr_tokenData = tokd, cr_mintResult = mint,
              cr_summary =
                \<lparr>cs_accountId = map_option accountId_toString (accountId (heap s' ! acc)),
                 cs_tokenId = map_option tokenId_toString (tk_tokenId tokd),
                 cs_nftCount =
                   (case map_option mr_count mint of
                      None \<Rightarrow> 0
                    | Some n \<Rightarrow> if n = 0 then 0 else n),
                 cs_serials =
                   (case Option.bind mint mr_serials of
                      None \<Rightarrow> []
                    | Some xs \<Rightarrow> map long_toString xs)\<rparr>\<rparr>"
  have "(case map_option mr_count mint of None \<Rightarrow> 0 | Some n \<Rightarrow> if n = 0 then 0 else n)
        = (case mint of None \<Rightarrow> 0 | Some m \<Rightarrow> mr_count m)"
    by (cases mint) simp_all
  with r have r': "collection = \<lparr>cr_account = acc, cr_tokenData = tokd, cr_mintResult = mint,
              cr_summary =
                \<lparr>cs_accountId = map_option accountId_toString (accountId (heap s' ! acc)),
                 cs_tokenId = map_option tokenId_toString (tk_tokenId tokd),
                 cs_nftCount = (case mint of None \<Rightarrow> 0 | Some m \<Rightarrow> mr_count m),
                 cs_serials =
                   (case Option.bind mint mr_serials of
                      None \<Rightarrow> []
                    | Some xs \<Rightarrow> map long_toString xs)\<rparr>\<rparr>"
    by simp
  from h1 h2 h3 a r' have "?P acc s1 tokd s2 mint" by simp
  then show ?thesis by blast
qed

lemmas run_defs =
  getClient_def read_account_def and_then_def try_catch_def log_and_rethrow_def invoke_def
  return_def throw_def lift_def new_Date_toISOString_def new_object_def set_client_def
  account_id_of_def readable_balance_def Let_def default_to_def
  all_succeed_def ready_state_def fresh_state_def events_since_def

lemma getClient_ready: "getClient w ready_state = (Inr (Client 0), ready_state)"
  by (simp add: getClient_def ready_state_def return_def)

text \<open>
  C5 (as amended). When a method returns, its record is built as follows from the
  answers the SDK gave in that run (the events appended to the log after \<open>getClient\<close>),
  from the arguments and from the local clock.
  \<^item> \<open>createAccount\<close>: \<open>accountId\<close> and \<open>status\<close> are the receipt's, the keys are the
    generated key pair, \<open>balance\<close> is the argument \<open>initialBalance\<close> (100 by default).
  \<^item> \<open>createNFTToken\<close>: \<open>tokenId\<close> and \<open>status\<close> are the receipt's, \<open>treasuryAccount\<close> is
    the argument, the rest is the answer of the info query.
  \<^item> \<open>mintNFTs\<close>: \<open>serials\<close> and \<open>status\<close> are the receipt's, \<open>tokenId\<close> is the argument's,
    \<open>count\<close> is computed locally (length of the serial list, 0 without one), \<open>mintedAt\<close>
    is the local clock.
  \<^item> \<open>getTokenBasicInfo\<close>: the fields of the answer of the info query, as strings.
  \<^item> \<open>associateTokenToAccount\<close>: \<open>status\<close> is the receipt's, the identifiers are the
    argument and a field of the account argument, the time is the local clock.
  \<^item> \<open>getAccountBalance\<close>: \<open>accountId\<close> is the argument's, as a string, \<open>hbarBalance\<close> is
    the balance of the query's answer, as a string.
  \<^item> \<open>createCompleteNFTCollection\<close>: the records of the methods it calls, and a summary
    computed locally from them (\<open>nftCount\<close> is the count of the mint, or 0 without one,
    the serials are those of the mint as strings).
\<close>

theorem provenance_of_returned_records:
  "(createAccount w initialBalance s = (Inr ref, s') \<longrightarrow>
      (\<exists>c s1 key resp rc.
         getClient w s = (Inr c, s1) \<and>
         events_since s1 s' =
           [(PrivateKey_generateED25519, Returned (VPrivateKey key)),
            (AccountCreateTransaction_execute (key_publicKey key)
               (default_to 100 initialBalance) c, Returned (VResponse resp)),
            (TransactionResponse_getReceipt resp c, Returned (VReceipt rc))] \<and>
         ref = length (heap s) \<and>
         heap s' = heap s @
           [\<lparr>accountId = rc_accountId rc, privateKey = key,
             publicKey = key_publicKey key, status = rc_status rc,
             balance = default_to 100 initialBalance\<rparr>])) \<and>
   (createNFTToken w treasuryAccount tokenConfig s = (Inr tok, s') \<longrightarrow>
      (\<exists>c s1 tx signed resp rc ti.
         getClient w s = (Inr c, s1) \<and>
         (\<exists>request.
            events_since s1 s' =
              [(TokenCreateTransaction_freezeWith request c, Returned (VTransaction tx)),
               (Transaction_sign tx (privateKey (heap s ! treasuryAccount)),
                Returned (VTransaction signed)),
               (Transaction_execute signed c, Returned (VResponse resp)),
               (TransactionResponse_getReceipt resp c, Returned (VReceipt rc)),
               (TokenInfoQuery_execute (rc_tokenId rc) c, Returned (VTokenInfo ti))]) \<and>
         tok = \<lparr>tk_tokenId = rc_tokenId rc, tk_status = rc_status rc,
            tk_name = ti_name ti, tk_symbol = ti_symbol ti, tk_tokenType = ti_tokenType ti,
            tk_decimals = ti_decimals ti, tk_totalSupply = ti_totalSupply ti,
            tk_maxSupply = ti_maxSupply ti, tk_supplyType = ti_supplyType ti,
            tk_treasuryAccountId = ti_treasuryAccountId ti, tk_supplyKey = ti_supplyKey ti,
            tk_creationTime = ti_creationTime ti, tk_treasuryAccount = treasuryAccount\<rparr>)) \<and>
   (mintNFTs w tokenData metadataArray s = (Inr minted, s') \<longrightarrow>
      (\<exists>c s1 bufs tx signed resp rc.
         getClient w s = (Inr c, s1) \<and>
         events_since s1 s' =
           [(TokenMintTransaction_freezeWith (tk_tokenId tokenData) bufs c,
             Returned (VTransaction tx)),
            (Transaction_sign tx (privateKey (heap s ! tk_treasuryAccount tokenData)),
             Returned (VTransaction signed)),
            (Transaction_execute signed c, Returned (VResponse resp)),
            (TransactionResponse_getReceipt resp c, Returned (VReceipt rc))] \<and>
         minted = \<lparr>mr_serials = rc_serials rc, mr_status = rc_status rc,
              mr_tokenId = tk_tokenId tokenData,
              mr_count = (case rc_serials rc of None \<Rightarrow> 0 | Some xs \<Rightarrow> length xs),
              mr_mintedAt = date_now w (trace s')\<rparr>)) \<and>
   (getTokenBasicInfo w tokenId s = (Inr info, s') \<longrightarrow>
      (\<exists>c s1 ti.
         getClient w s = (Inr c, s1) \<and>
         events_since s1 s' = [(TokenInfoQuery_execute tokenId c, Returned (VTokenInfo ti))] \<and>
         info = \<lparr>bi_tokenId = map_option tokenId_toString (ti_tokenId ti),
              bi_name = ti_name ti, bi_symbol = ti_symbol ti,
              bi_type = map_option tokenType_toString (ti_tokenType ti),
              bi_totalSupply = map_option long_toString (ti_totalSupply ti),
              bi_maxSupply = map_option long_toString (ti_maxSupply ti),
              bi_treasury = map_option accountId_toString (ti_treasuryAccountId ti)\<rparr>)) \<and>
   (associateTokenToAccount w account tokenId s = (Inr assoc, s') \<longrightarrow>
      (\<exists>c s1 tx signed resp rc.
         getClient w s = (Inr c, s1) \<and>
         account < length (heap s) \<and>
         events_since s1 s' =
           [(TokenAssociateTransaction_freezeWith (accountId (heap s ! account)) [tokenId] c,
             Returned (VTransaction tx)),
            (Transaction_sign tx (privateKey (heap s ! account)),
             Returned (VTransaction signed)),
            (Transaction_execute signed c, Returned (VResponse resp)),
            (TransactionResponse_getReceipt resp c, Returned (VReceipt rc))] \<and>
         assoc = \<lparr>as_status = rc_status rc, as_accountId = accountId (heap s ! account),
              as_tokenId = tokenId, as_associatedAt = date_now w (trace s')\<rparr>)) \<and>
   (getAccountBalance w account_arg s = (Inr bal_result, s') \<longrightarrow>
      (\<exists>c s1 aid bal.
         getClient w s = (Inr c, s1) \<and>
         (case account_arg of
            AccountString str \<Rightarrow> aid = Some (AccountId str)
          | AccountObject r \<Rightarrow> r < length (heap s) \<and> aid = accountId (heap s ! r)) \<and>
         events_since s1 s' = [(AccountBalanceQuery_execute aid c, Returned (VBalance bal))] \<and>
         br_accountId bal_result = map_option accountId_toString aid \<and>
         br_hbarBalance bal_result = map_option hbar_toString (ab_hbars bal))) \<and>
   (createCompleteNFTCollection w tokenConfig metadataList initialBalance s
      = (Inr collection, s') \<longrightarrow>
      (\<exists>acc s1 tokd s2 mint.
         createAccount w (Some (default_to 100 initialBalance)) s = (Inr acc, s1) \<and>
         createNFTToken w acc (Some (default_to empty_config tokenConfig)) s1
           = (Inr tokd, s2) \<and>
         (if 0 < length (default_to [] metadataList)
          then \<exists>m. mintNFTs w tokd (JArr (default_to [] metadataList)) s2 = (Inr m, s') \<and>
                   mint = Some m
          else s' = s2 \<and> mint = None) \<and>
         acc < length (heap s') \<and>
         collection = \<lparr>cr_account = acc, cr_tokenData = tokd, cr_mintResult = mint,
              cr_summary =
                \<lparr>cs_accountId = map_option accountId_toString (accountId (heap s' ! acc)),
                 cs_tokenId = map_option tokenId_toString (tk_tokenId tokd),
                 cs_nftCount = (case mint of None \<Rightarrow> 0 | Some m \<Rightarrow> mr_count m),
                 cs_serials =
                   (case Option.bind mint mr_serials of
                      None \<Rightarrow> []
                    | Some xs \<Rightarrow> map long_toString xs)\<rparr>\<rparr>))"
  by (intro conjI impI createAccount_fields createNFTToken_fields mintNFTs_fields
        getTokenBasicInfo_fields associateTokenToAccount_fields getAccountBalance_fields
        createCompleteNFTCollection_fields)

text \<open>
  C5 as stated fails: two runs of \<open>createAccount\<close> in which the SDK gives the same
  answers return records with different \<open>balance\<close> fields, 500 and 150: the field is
  the argument, not a value the SDK computed.
\<close>

theorem balance_is_the_argument_counterexample:
  "fst (createAccount all_succeed (Some 500) fresh_state) = Inr 0 \<and>
   fst (createAccount all_succeed (Some 150) fresh_state) = Inr 0 \<and>
   map snd (events_since fresh_state (snd (createAccount all_succeed (Some 500) fresh_state))) =
   map snd (events_since fresh_state (snd (createAccount all_succeed (Some 150) fresh_state))) \<and>
   balance (heap (snd (createAccount all_succeed (Some 500) fresh_state)) ! 0) = 500 \<and>
   balance (heap (snd (createAccount all_succeed (Some 150) fresh_state)) ! 0) = 150"
  by (simp add: createAccount_def getClient_def and_then_def try_catch_def invoke_def
        return_def set_client_def new_object_def all_succeed_def fresh_state_def Let_def
        default_to_def events_since_def)

theorem provenance_of_returned_records_witness:
  "(\<exists>ref s'. createAccount all_succeed (Some 500) fresh_state = (Inr ref, s') \<and>
      ref = 0 \<and> balance (heap s' ! ref) = 500 \<and>
      publicKey (heap s' ! ref) = key_publicKey (privateKey (heap s' ! ref))) \<and>
   (\<exists>tok s'. createNFTToken all_succeed 0 (Some demo_config) ready_state = (Inr tok, s') \<and>
      cfg_name demo_config = Some ''diploma'' \<and> tk_name tok = ''ledger name'' \<and>
      tk_tokenId tok = Some (TokenId ''0.0.2001'') \<and> tk_treasuryAccount tok = 0) \<and>
   (\<exists>minted s'. mintNFTs all_succeed demo_token demo_cids ready_state = (Inr minted, s') \<and>
      mr_serials minted = Some [Long ''1'', Long ''2''] \<and> mr_count minted = 2 \<and>
      mr_tokenId minted = Some (TokenId ''0.0.2001'') \<and>
      mr_mintedAt minted = ''2024-01-01T00:00:00.000Z'') \<and>
   (\<exists>info s'. getTokenBasicInfo all_succeed (Some (TokenId ''0.0.2001'')) ready_state
                 = (Inr info, s') \<and>
      bi_name info = ''ledger name'' \<and> bi_maxSupply info = Some ''250'') \<and>
   (\<exists>assoc s'. associateTokenToAccount all_succeed 1 (Some (TokenId ''0.0.2001'')) ready_state
                 = (Inr assoc, s') \<and>
      as_status assoc = Some (Status ''SUCCESS'') \<and>
      as_accountId assoc = Some (AccountId ''0.0.1002'') \<and>
      as_tokenId assoc = Some (TokenId ''0.0.2001'') \<and>
      as_associatedAt assoc = ''2024-01-01T00:00:00.000Z'') \<and>
   (\<exists>b s'. getAccountBalance all_succeed (AccountObject 1) ready_state = (Inr b, s') \<and>
      br_accountId b = Some ''0.0.1002'' \<and> br_hbarBalance b = Some ''500 h'') \<and>
   (\<exists>r s' m. createCompleteNFTCollection all_succeed None (Some [JStr ''cid-1'']) None fresh_state
                = (Inr r, s') \<and>
      cr_mintResult r = Some m \<and> cs_nftCount (cr_summary r) = mr_count m \<and>
      cs_serials (cr_summary r) =
        (case mr_serials m of None \<Rightarrow> [] | Some xs \<Rightarrow> map long_toString xs))"
proof -
  define tok where "tok = Some (TokenId ''0.0.2001'')"
  note ready = provenance_of_returned_records
    [where w = all_succeed and s = ready_state]
  have "\<not> isl (fst (createAccount all_succeed (Some 500) fresh_state))" by code_simp
  then obtain ref s1' where
    run1: "createAccount all_succeed (Some 500) fresh_state = (Inr ref, s1')"
    by (rule returnsE)
  from provenance_of_returned_records
    [where w = all_succeed and s = fresh_state and initialBalance = "Some 500",
     THEN conjunct1, rule_format, OF run1]
  obtain key and rc :: receipt where "ref = length (heap fresh_state)"
    and "heap s1' = heap fresh_state @
           [\<lparr>accountId = rc_accountId rc, privateKey = key,
             publicKey = key_publicKey key, status = rc_status rc,
             balance = default_to 100 (Some 500)\<rparr>]"
    by blast
  then have f1: "ref = 0" "balance (heap s1' ! ref) = 500"
    "publicKey (heap s1' ! ref) = key_publicKey (privateKey (heap s1' ! ref))"
    by (simp_all add: fresh_state_def default_to_def)
  have "\<not> isl (fst (createNFTToken all_succeed 0 (Some demo_config) ready_state))" by code_simp
  then obtain tk s2' where
    run2: "createNFTToken all_succeed 0 (Some demo_config) ready_state = (Inr tk, s2')"
    by (rule returnsE)
  from ready [THEN conjunct2, THEN conjunct1, rule_format, OF run2]
  obtain c2 s2 tx2 signed2 resp2 rc2 ti2 request2 where
    g2: "getClient all_succeed ready_state = (Inr c2, s2)" and
    ev2: "events_since s2 s2' =
              [(TokenCreateTransaction_freezeWith request2 c2, Returned (VTransaction tx2)),
               (Transaction_sign tx2 (privateKey (heap ready_state ! 0)),
                Returned (VTransaction signed2)),
               (Transaction_execute signed2 c2, Returned (VResponse resp2)),
               (TransactionResponse_getReceipt resp2 c2, Returned (VReceipt rc2)),
               (TokenInfoQuery_execute (rc_tokenId rc2) c2, Returned (VTokenInfo ti2))]" and
    rec2: "tk = \<lparr>tk_tokenId = rc_tokenId rc2, tk_status = rc_status rc2,
            tk_name = ti_name ti2, tk_symbol = ti_symbol ti2, tk_tokenType = ti_tokenType ti2,
            tk_decimals = ti_decimals ti2, tk_totalSupply = ti_totalSupply ti2,
            tk_maxSupply = ti_maxSupply ti2, tk_supplyType = ti_supplyType ti2,
            tk_treasuryAccountId = ti_treasuryAccountId ti2, tk_supplyKey = ti_supplyKey ti2,
            tk_creationTime = ti_creationTime ti2, tk_treasuryAccount = 0\<rparr>"
    by blast
  from g2 have s2: "s2 = ready_state" by (simp add: getClient_ready)
  have actual2: "map snd (events_since ready_state
        (snd (createNFTToken all_succeed 0 (Some demo_config) ready_state))) =
      [Returned (VTransaction (Transaction 0)), Returned (VTransaction (Transaction 1)),
       Returned (VResponse (TransactionResponse 2)), Returned (VReceipt demo_receipt),
       Returned (VTokenInfo demo_token_info)]"
    by (simp add: createNFTToken_def run_defs)
  from actual2 run2 ev2 s2 have "rc2 = demo_receipt" and "ti2 = demo_token_info" by simp_all
  with rec2 have f2: "tk_name tk = ''ledger name''" "tk_tokenId tk = Some (TokenId ''0.0.2001'')"
    "tk_treasuryAccount tk = 0"
    by (simp_all add: demo_token_info_def demo_receipt_def)
  have "\<not> isl (fst (mintNFTs all_succeed demo_token demo_cids ready_state))" by code_simp
  then obtain minted s3' where
    run3: "mintNFTs all_succeed demo_token demo_cids ready_state = (Inr minted, s3')"
    by (rule returnsE)
  from ready [THEN conjunct2, THEN conjunct2, THEN conjunct1, rule_format, OF run3]
  obtain c3 s3 bufs3 tx3 signed3 resp3 rc3 where
    g3: "getClient all_succeed ready_state = (Inr c3, s3)" and
    ev3: "events_since s3 s3' =
           [(TokenMintTransaction_freezeWith (tk_tokenId demo_token) bufs3 c3,
             Returned (VTransaction tx3)),
            (Transaction_sign tx3 (privateKey (heap ready_state ! tk_treasuryAccount demo_token)),
             Returned (VTransaction signed3)),
            (Transaction_execute signed3 c3, Returned (VResponse resp3)),
            (TransactionResponse_getReceipt resp3 c3, Returned (VReceipt rc3))]" and
    rec3: "minted = \<lparr>mr_serials = rc_serials rc3, mr_status = rc_status rc3,
              mr_tokenId = tk_tokenId demo_token,
              mr_count = (case rc_serials rc3 of None \<Rightarrow> 0 | Some xs \<Rightarrow> length xs),
              mr_mintedAt = date_now all_succeed (trace s3')\<rparr>"
    by blast
  from g3 have s3: "s3 = ready_state" by (simp add: getClient_ready)
  have actual3: "map snd (events_since ready_state
        (snd (mintNFTs all_succeed demo_token demo_cids ready_state))) =
      [Returned (VTransaction (Transaction 0)), Returned (VTransaction (Transaction 1)),
       Returned (VResponse (TransactionResponse 2)), Returned (VReceipt demo_receipt)]"
    by (simp add: mintNFTs_def run_defs metadatas_of_def metadata_buffer_def
          metadataString_of_def Buffer_from_def demo_cids_def demo_token_def)
  from actual3 run3 ev3 s3 have "rc3 = demo_receipt" by simp
  with rec3 have f3: "mr_serials minted = Some [Long ''1'', Long ''2'']" "mr_count minted = 2"
    "mr_tokenId minted = Some (TokenId ''0.0.2001'')"
    "mr_mintedAt minted = ''2024-01-01T00:00:00.000Z''"
    by (simp_all add: demo_receipt_def demo_token_def all_succeed_def)
  have "\<not> isl (fst (getTokenBasicInfo all_succeed tok ready_state))"
    unfolding tok_def by code_simp
  then obtain info s4' where
    run4: "getTokenBasicInfo all_succeed tok ready_state = (Inr info, s4')"
    by (rule returnsE)
  from ready [THEN conjunct2, THEN conjunct2, THEN conjunct2, THEN conjunct1, rule_format,
    OF run4]
  obtain c4 s4 ti4 where
    g4: "getClient all_succeed ready_state = (Inr c4, s4)" and
    ev4: "events_since s4 s4' = [(TokenInfoQuery_execute tok c4, Returned (VTokenInfo ti4))]" and
    rec4: "info = \<lparr>bi_tokenId = map_option tokenId_toString (ti_tokenId ti4),
              bi_name = ti_name ti4, bi_symbol = ti_symbol ti4,
              bi_type = map_option tokenType_toString (ti_tokenType ti4),
              bi_totalSupply = map_option long_toString (ti_totalSupply ti4),
              bi_maxSupply = map_option long_toString (ti_maxSupply ti4),
              bi_treasury = map_option accountId_toString (ti_treasuryAccountId ti4)\<rparr>"
    by blast
  from g4 have s4: "s4 = ready_state" by (simp add: getClient_ready)
  have actual4: "map snd (events_since ready_state
        (snd (getTokenBasicInfo all_succeed tok ready_state))) =
      [Returned (VTokenInfo demo_token_info)]"
    by (simp add: getTokenBasicInfo_def run_defs)
  from actual4 run4 ev4 s4 have "ti4 = demo_token_info" by simp
  with rec4 have f4: "bi_name info = ''ledger name''" "bi_maxSupply info = Some ''250''"
    by (simp_all add: demo_token_info_def)
  have "\<not> isl (fst (associateTokenToAccount all_succeed 1 tok ready_state))"
    unfolding tok_def by code_simp
  then obtain assoc s5' where
    run5: "associateTokenToAccount all_succeed 1 tok ready_state = (Inr assoc, s5')"
    by (rule returnsE)
  from ready [THEN conjunct2, THEN conjunct2, THEN conjunct2, THEN conjunct2, THEN conjunct1,
    rule_format, OF run5]
  obtain c5 s5 tx5 signed5 resp5 rc5 where
    g5: "getClient all_succeed ready_state = (Inr c5, s5)" and
    ev5: "events_since s5 s5' =
           [(TokenAssociateTransaction_freezeWith (accountId (heap ready_state ! 1)) [tok] c5,
             Returned (VTransaction tx5)),
            (Transaction_sign tx5 (privateKey (heap ready_state ! 1)),
             Returned (VTransaction signed5)),
            (Transaction_execute signed5 c5, Returned (VResponse resp5)),
            (TransactionResponse_getReceipt resp5 c5, Returned (VReceipt rc5))]" and
    rec5: "assoc = \<lparr>as_status = rc_status rc5, as_accountId = accountId (heap ready_state ! 1),
              as_tokenId = tok, as_associatedAt = date_now all_succeed (trace s5')\<rparr>"
    by blast
  from g5 have s5: "s5 = ready_state" by (simp add: getClient_ready)
  have actual5: "map snd (events_since ready_state
        (snd (associateTokenToAccount all_succeed 1 tok ready_state))) =
      [Returned (VTransaction (Transaction 0)), Returned (VTransaction (Transaction 1)),
       Returned (VResponse (TransactionResponse 2)), Returned (VReceipt demo_receipt)]"
    by (simp add: associateTokenToAccount_def run_defs)
  from actual5 run5 ev5 s5 have "rc5 = demo_receipt" by simp
  with rec5 have f5: "as_status assoc = Some (Status ''SUCCESS'')"
    "as_accountId assoc = Some (AccountId ''0.0.1002'')"
    "as_tokenId assoc = tok" "as_associatedAt assoc = ''2024-01-01T00:00:00.000Z''"
    by (simp_all add: demo_receipt_def all_succeed_def ready_state_def demo_account2_def)
  have "\<not> isl (fst (getAccountBalance all_succeed (AccountObject 1) ready_state))"
    by code_simp
  then obtain b s6' where
    run6: "getAccountBalance all_succeed (AccountObject 1) ready_state = (Inr b, s6')"
    by (rule returnsE)
  from ready [THEN conjunct2, THEN conjunct2, THEN conjunct2, THEN conjunct2, THEN conjunct2,
    THEN conjunct1, rule_format, OF run6]
  obtain c6 s6 aid6 bal6 where
    g6: "getClient all_succeed ready_state = (Inr c6, s6)" and
    aid6: "aid6 = accountId (heap ready_state ! 1)" and
    ev6: "events_since s6 s6' =
            [(AccountBalanceQuery_execute aid6 c6, Returned (VBalance bal6))]" and
    rec6: "br_accountId b = map_option accountId_toString aid6"
      "br_hbarBalance b = map_option hbar_toString (ab_hbars bal6)"
    by auto
  from g6 have s6: "s6 = ready_state" by (simp add: getClient_ready)
  have actual6: "map snd (events_since ready_state
        (snd (getAccountBalance all_succeed (AccountObject 1) ready_state))) =
      [Returned (VBalance demo_balance)]"
    by (simp add: getAccountBalance_def run_defs demo_balance_def)
  from actual6 run6 ev6 s6 have "bal6 = demo_balance" by simp
  with rec6 aid6 have f6: "br_accountId b = Some ''0.0.1002''" "br_hbarBalance b = Some ''500 h''"
    by (simp_all add: demo_balance_def ready_state_def demo_account2_def)
  have "\<not> isl (fst (createCompleteNFTCollection all_succeed None (Some [JStr ''cid-1'']) None
                      fresh_state))"
    by code_simp
  then obtain r7 s7' where
    run7: "createCompleteNFTCollection all_succeed None (Some [JStr ''cid-1'']) None fresh_state
            = (Inr r7, s7')"
    by (rule returnsE)
  from provenance_of_returned_records
    [where w = all_succeed and s = fresh_state and tokenConfig = None
       and metadataList = "Some [JStr ''cid-1'']" and initialBalance = None,
     THEN conjunct2, THEN conjunct2, THEN conjunct2, THEN conjunct2, THEN conjunct2,
     THEN conjunct2, rule_format, OF run7]
  obtain acc tokd s72 m where
    mint7: "mintNFTs all_succeed tokd (JArr [JStr ''cid-1'']) s72 = (Inr m, s7')" and
    rec7: "r7 = \<lparr>cr_account = acc, cr_tokenData = tokd, cr_mintResult = Some m,
              cr_summary =
                \<lparr>cs_accountId = map_option accountId_toString (accountId (heap s7' ! acc)),
                 cs_tokenId = map_option tokenId_toString (tk_tokenId tokd),
                 cs_nftCount = mr_count m,
                 cs_serials =
                   (case mr_serials m of
                      None \<Rightarrow> []
                    | Some xs \<Rightarrow> map long_toString xs)\<rparr>\<rparr>"
    by (auto simp: default_to_def)
  from run1 f1 run2 f2 run3 f3 run4 f4 run5 f5 run6 f6 run7 rec7
  show ?thesis unfolding tok_def by (simp add: demo_config_def)
qed

end
